theory Spec2Isabelle
  imports Complex_Main "HOL-Library.Word"
begin

unbundle bit_operations_syntax

section \<open>Machine types and status codes\<close>

text \<open>
  The parser of \<^verbatim>\<open>mares_iconhd_parser.c\<close> works on a byte buffer with
  \<^verbatim>\<open>unsigned int\<close> (32 bit) arithmetic. Bytes are \<open>8 word\<close>, \<^verbatim>\<open>unsigned short\<close> is
  \<open>16 word\<close> and \<^verbatim>\<open>unsigned int\<close> is \<open>32 word\<close>, so that \<open>+\<close> and \<open>*\<close> wrap as in C.
  A pointer into the buffer is the buffer together with an index of type \<open>nat\<close>.
  Reading outside the buffer is undefined behaviour in C; the model reads with \<open>!\<close>,
  whose value out of range is unspecified.
\<close>

type_synonym byte = "8 word"
type_synonym ushort = "16 word"
type_synonym uint = "32 word"

text \<open>The failing values of \<^verbatim>\<open>dc_status_t\<close>; \<^verbatim>\<open>DC_STATUS_SUCCESS\<close> is \<open>Inr\<close>.\<close>

datatype dc_status_t =
  DC_STATUS_UNSUPPORTED
| DC_STATUS_INVALIDARGS
| DC_STATUS_NOMEMORY
| DC_STATUS_DATAFORMAT

subsection \<open>Integer reads\<close>

text \<open>
  Modelled from the spec: \<^verbatim>\<open>array.h\<close> (\<^verbatim>\<open>array_uint16_le\<close>, \<^verbatim>\<open>array_uint32_le\<close>,
  \<^verbatim>\<open>array_uint32_be\<close>) is not under src; the spec names them as the primitives reading
  little/big-endian integers from a byte offset.
\<close>

definition array_uint16_le :: "byte list \<Rightarrow> nat \<Rightarrow> ushort" where
  "array_uint16_le d i = ucast (d ! i) + push_bit 8 (ucast (d ! (i + 1)))"

definition array_uint32_le :: "byte list \<Rightarrow> nat \<Rightarrow> uint" where
  "array_uint32_le d i =
     ucast (d ! i) + push_bit 8 (ucast (d ! (i + 1)))
       + push_bit 16 (ucast (d ! (i + 2))) + push_bit 24 (ucast (d ! (i + 3)))"

definition array_uint32_be :: "byte list \<Rightarrow> nat \<Rightarrow> uint" where
  "array_uint32_be d i =
     push_bit 24 (ucast (d ! i)) + push_bit 16 (ucast (d ! (i + 1)))
       + push_bit 8 (ucast (d ! (i + 2))) + ucast (d ! (i + 3))"

text \<open>A 16-bit read stored in an \<^verbatim>\<open>unsigned int\<close>.\<close>

definition u16 :: "byte list \<Rightarrow> nat \<Rightarrow> uint" where
  "u16 d i = ucast (array_uint16_le d i)"

section \<open>Constants of the source\<close>

definition SMART :: uint where "SMART = 0x000010"
definition SMARTAPNEA :: uint where "SMARTAPNEA = 0x010010"
definition ICONHD :: uint where "ICONHD = 0x14"
definition ICONHDNET :: uint where "ICONHDNET = 0x15"
definition GENIUS :: uint where "GENIUS = 0x1C"
definition QUADAIR :: uint where "QUADAIR = 0x23"
definition SMARTAIR :: uint where "SMARTAIR = 0x24"

lemmas model_defs =
  SMART_def SMARTAPNEA_def ICONHD_def ICONHDNET_def GENIUS_def QUADAIR_def SMARTAIR_def

definition NGASMIXES_ICONHD :: nat where "NGASMIXES_ICONHD = 3"
definition NGASMIXES_GENIUS :: nat where "NGASMIXES_GENIUS = 5"
definition NGASMIXES :: nat where "NGASMIXES = NGASMIXES_GENIUS"
definition NTANKS_ICONHD :: nat where "NTANKS_ICONHD = NGASMIXES_ICONHD"
definition NTANKS_GENIUS :: nat where "NTANKS_GENIUS = NGASMIXES_GENIUS"
definition NTANKS :: nat where "NTANKS = NGASMIXES"

lemmas count_defs =
  NGASMIXES_ICONHD_def NGASMIXES_GENIUS_def NGASMIXES_def
  NTANKS_ICONHD_def NTANKS_GENIUS_def NTANKS_def

definition ICONHD_AIR :: uint where "ICONHD_AIR = 0"
definition ICONHD_GAUGE :: uint where "ICONHD_GAUGE = 1"
definition ICONHD_NITROX :: uint where "ICONHD_NITROX = 2"
definition ICONHD_FREEDIVE :: uint where "ICONHD_FREEDIVE = 3"

definition GENIUS_AIR :: uint where "GENIUS_AIR = 0"
definition GENIUS_NITROX_SINGLE :: uint where "GENIUS_NITROX_SINGLE = 1"
definition GENIUS_NITROX_MULTI :: uint where "GENIUS_NITROX_MULTI = 2"
definition GENIUS_TRIMIX :: uint where "GENIUS_TRIMIX = 3"
definition GENIUS_GAUGE :: uint where "GENIUS_GAUGE = 4"
definition GENIUS_FREEDIVE :: uint where "GENIUS_FREEDIVE = 5"

lemmas mode_defs =
  ICONHD_AIR_def ICONHD_GAUGE_def ICONHD_NITROX_def ICONHD_FREEDIVE_def
  GENIUS_AIR_def GENIUS_NITROX_SINGLE_def GENIUS_NITROX_MULTI_def
  GENIUS_TRIMIX_def GENIUS_GAUGE_def GENIUS_FREEDIVE_def

text \<open>Record types and sizes of the GENIUS framing.\<close>

definition DSTR_TYPE :: uint where "DSTR_TYPE = 0x44535452"
definition DSTR_SIZE :: uint where "DSTR_SIZE = 58"
definition TISS_TYPE :: uint where "TISS_TYPE = 0x54495353"
definition TISS_SIZE :: uint where "TISS_SIZE = 138"
definition DPRS_TYPE :: uint where "DPRS_TYPE = 0x44505253"
definition DPRS_SIZE :: uint where "DPRS_SIZE = 34"
definition AIRS_TYPE :: uint where "AIRS_TYPE = 0x41495253"
definition AIRS_SIZE :: uint where "AIRS_SIZE = 16"
definition DEND_TYPE :: uint where "DEND_TYPE = 0x44454E44"
definition DEND_SIZE :: uint where "DEND_SIZE = 162"

lemmas record_defs =
  DSTR_TYPE_def DSTR_SIZE_def TISS_TYPE_def TISS_SIZE_def DPRS_TYPE_def DPRS_SIZE_def
  AIRS_TYPE_def AIRS_SIZE_def DEND_TYPE_def DEND_SIZE_def

definition GASMIX_OFF :: uint where "GASMIX_OFF = 0"

definition WATER_SALT :: uint where "WATER_SALT = 0"
definition WATER_FRESH :: uint where "WATER_FRESH = 1"
definition WATER_EN13319 :: uint where "WATER_EN13319 = 2"

definition ALARM_FAST_ASCENT :: nat where "ALARM_FAST_ASCENT = 2"
definition ALARM_UNCONTROLLED_ASCENT :: nat where "ALARM_UNCONTROLLED_ASCENT = 3"
definition ALARM_MISSED_DECO :: nat where "ALARM_MISSED_DECO = 7"
definition ALARM_DIVE_VIOLATION_DECO :: nat where "ALARM_DIVE_VIOLATION_DECO = 8"

section \<open>The parser state\<close>

record mares_iconhd_gasmix_t =
  oxygen :: uint
  helium :: uint

record mares_iconhd_tank_t =
  volume :: uint
  workpressure :: uint
  beginpressure :: uint
  endpressure :: uint

text \<open>
  \<^verbatim>\<open>struct mares_iconhd_parser_t\<close>. \<open>base_data\<close> and \<open>base_size\<close> are the fields
  \<^verbatim>\<open>base.data\<close> and \<open>base.size\<close> of the embedded \<^verbatim>\<open>dc_parser_t\<close>; the arrays
  \<^verbatim>\<open>gasmix[NGASMIXES]\<close> and \<^verbatim>\<open>tank[NTANKS]\<close> are lists of five slots.
\<close>

record mares_iconhd_parser_t =
  base_data :: "byte list"
  base_size :: uint
  model :: uint
  cached :: uint
  mode :: uint
  nsamples :: uint
  samplesize :: uint
  headersize :: uint
  settings :: uint
  interval :: uint
  samplerate :: uint
  ntanks :: uint
  ngasmixes :: uint
  gasmix :: "mares_iconhd_gasmix_t list"
  tank :: "mares_iconhd_tank_t list"

definition gasmix_zero :: mares_iconhd_gasmix_t where
  "gasmix_zero = \<lparr>oxygen = 0, helium = 0\<rparr>"

definition tank_zero :: mares_iconhd_tank_t where
  "tank_zero = \<lparr>volume = 0, workpressure = 0, beginpressure = 0, endpressure = 0\<rparr>"

text \<open>
  The two copy loops at the end of both cache functions:
  \<^verbatim>\<open>for (i = 0; i < n; ++i) parser->gasmix[i] = gasmix[i];\<close>
\<close>

fun copy_slots :: "nat \<Rightarrow> 'a list \<Rightarrow> 'a list \<Rightarrow> 'a list" where
  "copy_slots 0 src dst = dst"
| "copy_slots (Suc n) src dst = (copy_slots n src dst)[n := src ! n]"

section \<open>RecordValidator: \<^verbatim>\<open>mares_genius_isvalid\<close>\<close>

text \<open>
  The checksum primitive \<^verbatim>\<open>checksum_crc16_ccitt (data, size, init)\<close> of \<^verbatim>\<open>checksum.h\<close>
  is not under src. It is a parameter \<open>crc\<close> of every function that validates a record:
  \<open>crc bytes init\<close> is the checksum of the byte range \<open>bytes\<close>.
  The pointer argument \<^verbatim>\<open>data\<close> of the C function is the buffer \<open>d\<close> with the index \<open>pos\<close>.
\<close>

type_synonym crc_fun = "byte list \<Rightarrow> ushort \<Rightarrow> ushort"

definition mares_genius_isvalid :: "crc_fun \<Rightarrow> byte list \<Rightarrow> nat \<Rightarrow> nat \<Rightarrow> uint \<Rightarrow> bool" where
  "mares_genius_isvalid crc d pos sz type =
    (if sz < 10 then False
     else
       let head = array_uint32_be d pos;
           tail = array_uint32_be d (pos + sz - 4)
       in if head \<noteq> type \<or> tail \<noteq> type then False
          else
            let crc' = array_uint16_le d (pos + sz - 6);
                ccrc = crc (take (sz - 10) (drop (pos + 4) d)) 0x0000
            in if crc' \<noteq> ccrc then False else True)"

section \<open>HeaderCache, standard path: \<^verbatim>\<open>mares_iconhd_cache\<close>\<close>

text \<open>The size of the trailer holding the type and the number of samples (lines 188-196).\<close>

definition iconhd_header :: "uint \<Rightarrow> uint" where
  "iconhd_header m =
    (if m = ICONHDNET then 0x80
     else if m = QUADAIR then 0x84
     else if m = SMART \<or> m = SMARTAIR then 4
     else if m = SMARTAPNEA then 6
     else 0x5C)"

text \<open>The type and the number of samples (lines 210-217), as the pair \<open>(type, nsamples)\<close>.\<close>

definition iconhd_type_nsamples :: "uint \<Rightarrow> byte list \<Rightarrow> uint \<Rightarrow> uint \<Rightarrow> uint \<times> uint" where
  "iconhd_type_nsamples m d len header =
    (if m = SMART \<or> m = SMARTAPNEA \<or> m = SMARTAIR then
       (u16 d (unat len - unat header + 2), u16 d (unat len - unat header + 0))
     else
       (u16 d (unat len - unat header + 0), u16 d (unat len - unat header + 2)))"

text \<open>The header and sample size (lines 223-242), as the pair \<open>(headersize, samplesize)\<close>.\<close>

definition iconhd_sizes :: "uint \<Rightarrow> uint \<Rightarrow> uint \<times> uint" where
  "iconhd_sizes m md =
    (if m = ICONHDNET then (0x80, 12)
     else if m = QUADAIR \<or> m = SMARTAIR then (0x84, 12)
     else if m = SMART then
       (if md = ICONHD_FREEDIVE then (0x2E, 6) else (0x5C, 8))
     else if m = SMARTAPNEA then (0x50, 14)
     else (0x5C, 8))"

text \<open>The pointer \<^verbatim>\<open>p\<close> to the header fields (lines 249-252, and again in the accessors).\<close>

definition iconhd_p :: "uint \<Rightarrow> uint \<Rightarrow> uint \<Rightarrow> nat" where
  "iconhd_p m len hsize =
    (if m \<noteq> SMART \<and> m \<noteq> SMARTAPNEA \<and> m \<noteq> SMARTAIR
     then unat len - unat hsize + 4 else unat len - unat hsize)"

text \<open>
  The dive settings (lines 255-262). The second test reads \<^verbatim>\<open>parser->mode\<close>, the field
  of the parser, not the local \<^verbatim>\<open>mode\<close> decoded from the buffer: \<open>pmode\<close> is that field.
\<close>

definition iconhd_settings :: "uint \<Rightarrow> uint \<Rightarrow> byte list \<Rightarrow> nat \<Rightarrow> uint" where
  "iconhd_settings m pmode d p =
    (if m = SMARTAPNEA then u16 d (p + 0x1C)
     else if pmode = ICONHD_FREEDIVE then u16 d (p + 0x08)
     else u16 d (p + 0x0C))"

text \<open>The sample interval and rate (lines 265-276), as the pair \<open>(interval, samplerate)\<close>.\<close>

definition iconhd_interval :: "uint \<Rightarrow> uint \<Rightarrow> uint \<times> uint" where
  "iconhd_interval m st =
    (if m = SMARTAPNEA then
       let idx = drop_bit 9 (st AND 0x0600) in (1, push_bit (unat idx) 1)
     else
       let idx = drop_bit 10 (st AND 0x0C00) in ([1, 5, 10, 20] ! unat idx, 1))"

text \<open>The total number of bytes of the dive (lines 279-285).\<close>

definition iconhd_nbytes :: "uint \<Rightarrow> byte list \<Rightarrow> nat \<Rightarrow> uint \<Rightarrow> uint \<Rightarrow> uint \<Rightarrow> uint \<Rightarrow> uint" where
  "iconhd_nbytes m d p hsize ssize ns srate =
    (let nbytes = 4 + hsize + ns * ssize in
     if m = ICONHDNET \<or> m = QUADAIR \<or> m = SMARTAIR then nbytes + (ns div 4) * 8
     else if m = SMARTAPNEA then
       let divetime = array_uint32_le d (p + 0x24) in nbytes + divetime * srate * 2
     else nbytes)"

text \<open>
  The scan of the gas mix slots (lines 304-311): \<open>n\<close> is \<^verbatim>\<open>ngasmixes\<close>, \<open>gm\<close> the local
  array \<^verbatim>\<open>gasmix[NGASMIXES_ICONHD]\<close>.
\<close>

function iconhd_gasmix_scan ::
  "byte list \<Rightarrow> nat \<Rightarrow> nat \<Rightarrow> mares_iconhd_gasmix_t list \<Rightarrow> nat \<times> mares_iconhd_gasmix_t list" where
  "iconhd_gasmix_scan d p n gm =
    (if n < NGASMIXES_ICONHD then
       (if (d ! (p + 0x10 + n * 4 + 1)) AND 0x80 \<noteq> 0 then (n, gm)
        else iconhd_gasmix_scan d p (Suc n)
               (gm[n := \<lparr>oxygen = ucast (d ! (p + 0x10 + n * 4)), helium = 0\<rparr>]))
     else (n, gm))"
  by pat_completeness auto
termination
  by (relation "measure (\<lambda>(d, p, n, gm). NGASMIXES_ICONHD - n)") auto

declare iconhd_gasmix_scan.simps [simp del]

text \<open>The gas mixes (lines 292-312), as the pair \<open>(ngasmixes, gasmix)\<close>.\<close>

definition iconhd_gasmixes :: "uint \<Rightarrow> byte list \<Rightarrow> nat \<Rightarrow> nat \<times> mares_iconhd_gasmix_t list" where
  "iconhd_gasmixes md d p =
    (let gm = replicate NGASMIXES_ICONHD gasmix_zero in
     if md = ICONHD_GAUGE \<or> md = ICONHD_FREEDIVE then (0, gm)
     else if md = ICONHD_AIR then (1, gm[0 := \<lparr>oxygen = 21, helium = 0\<rparr>])
     else iconhd_gasmix_scan d p 0 gm)"

text \<open>The tank read at one slot (lines 320-323).\<close>

definition iconhd_tank_at :: "byte list \<Rightarrow> nat \<Rightarrow> nat \<Rightarrow> nat \<Rightarrow> mares_iconhd_tank_t" where
  "iconhd_tank_at d p tankoffset n =
    \<lparr>volume = u16 d (p + tankoffset + 0x0C + n * 8 + 0),
     workpressure = u16 d (p + tankoffset + 0x0C + n * 8 + 2),
     beginpressure = u16 d (p + tankoffset + n * 4 + 0),
     endpressure = u16 d (p + tankoffset + n * 4 + 2)\<rparr>"

text \<open>The scan of the tank slots (lines 319-327).\<close>

function iconhd_tank_scan ::
  "byte list \<Rightarrow> nat \<Rightarrow> nat \<Rightarrow> nat \<Rightarrow> mares_iconhd_tank_t list \<Rightarrow> nat \<times> mares_iconhd_tank_t list" where
  "iconhd_tank_scan d p tankoffset n tk =
    (if n < NTANKS_ICONHD then
       (let tk' = tk[n := iconhd_tank_at d p tankoffset n] in
        if beginpressure (tk' ! n) = 0 \<and>
           (endpressure (tk' ! n) = 0 \<or> endpressure (tk' ! n) = 36000)
        then (n, tk')
        else iconhd_tank_scan d p tankoffset (Suc n) tk')
     else (n, tk))"
  by pat_completeness auto
termination
  by (relation "measure (\<lambda>(d, p, tankoffset, n, tk). NTANKS_ICONHD - n)") auto

declare iconhd_tank_scan.simps [simp del]

text \<open>The tanks (lines 315-328), as the pair \<open>(ntanks, tank)\<close>.\<close>

definition iconhd_tanks :: "uint \<Rightarrow> byte list \<Rightarrow> nat \<Rightarrow> nat \<times> mares_iconhd_tank_t list" where
  "iconhd_tanks m d p =
    (let tk = replicate NTANKS_ICONHD tank_zero in
     if m = ICONHDNET \<or> m = QUADAIR \<or> m = SMARTAIR then
       (let tankoffset = (if m = ICONHDNET then 0x58 else 0x5C)
        in iconhd_tank_scan d p tankoffset 0 tk)
     else (0, tk))"

definition mares_iconhd_cache :: "mares_iconhd_parser_t \<Rightarrow> dc_status_t + mares_iconhd_parser_t" where
  "mares_iconhd_cache parser =
    (let d = base_data parser;
         sz = base_size parser;
         header = iconhd_header (model parser)
     in
     if sz < 4 then Inl DC_STATUS_DATAFORMAT
     else
       let len = array_uint32_le d 0 in
       if len < 4 + header \<or> len > sz then Inl DC_STATUS_DATAFORMAT
       else
         let (type, ns) = iconhd_type_nsamples (model parser) d len header;
             md = type AND 0x03;
             (hsize, ssize) = iconhd_sizes (model parser) md
         in
         if len < 4 + hsize then Inl DC_STATUS_DATAFORMAT
         else
           let p = iconhd_p (model parser) len hsize;
               st = iconhd_settings (model parser) (mode parser) d p;
               (ival, srate) = iconhd_interval (model parser) st;
               nbytes = iconhd_nbytes (model parser) d p hsize ssize ns srate
           in
           if len \<noteq> nbytes then Inl DC_STATUS_DATAFORMAT
           else
             let (ngm, gm) = iconhd_gasmixes md d p;
                 (ntk, tk) = iconhd_tanks (model parser) d p
             in Inr (parser
                  \<lparr>base_size := len,
                   mode := md,
                   nsamples := ns,
                   samplesize := ssize,
                   headersize := hsize,
                   settings := st,
                   interval := ival,
                   samplerate := srate,
                   ntanks := of_nat ntk,
                   ngasmixes := of_nat ngm,
                   gasmix := copy_slots ngm gm (gasmix parser),
                   tank := copy_slots ntk tk (tank parser),
                   cached := 1\<rparr>))"

section \<open>HeaderCache, nested-framing path: \<^verbatim>\<open>mares_genius_cache\<close>\<close>

text \<open>The total number of bytes of a GENIUS dive (line 393).\<close>

definition genius_nbytes :: "uint \<Rightarrow> uint \<Rightarrow> uint" where
  "genius_nbytes hsize ns =
     hsize + 4 + DSTR_SIZE + TISS_SIZE + ns * DPRS_SIZE + (ns div 4) * AIRS_SIZE + DEND_SIZE"

text \<open>
  The body of the loop over the five slots (lines 405-440). The accumulator is
  \<open>(ngasmixes, ntanks, gasmix, tank)\<close>. The warning about a gas mix that does not add
  up to 100 percent has no effect on the state and is left out.
\<close>

definition genius_slot ::
  "byte list \<Rightarrow> nat \<Rightarrow> nat \<times> nat \<times> mares_iconhd_gasmix_t list \<times> mares_iconhd_tank_t list
     \<Rightarrow> nat \<times> nat \<times> mares_iconhd_gasmix_t list \<times> mares_iconhd_tank_t list" where
  "genius_slot d i acc =
    (case acc of (ngm, ntk, gm, tk) \<Rightarrow>
      let offset = 0x54 + i * 20;
          gasmixparams = array_uint32_le d (offset + 0);
          beginpressure = u16 d (offset + 4);
          endpressure = u16 d (offset + 6);
          volume = u16 d (offset + 8);
          workpressure = u16 d (offset + 10);
          o2 = gasmixparams AND 0x7F;
          he = drop_bit 14 gasmixparams AND 0x7F;
          state = drop_bit 21 gasmixparams AND 0x03;
          (ngm', gm') =
            (if state \<noteq> GASMIX_OFF \<and> ngm = i
             then (Suc ngm, gm[i := \<lparr>oxygen = o2, helium = he\<rparr>]) else (ngm, gm));
          (ntk', tk') =
            (if (beginpressure \<noteq> 0 \<or> (endpressure \<noteq> 0 \<and> endpressure \<noteq> 36000)) \<and> ntk = i
             then (Suc ntk,
                   tk[i := \<lparr>volume = volume, workpressure = workpressure,
                            beginpressure = beginpressure, endpressure = endpressure\<rparr>])
             else (ntk, tk))
      in (ngm', ntk', gm', tk'))"

text \<open>The loop \<^verbatim>\<open>for (i = 0; i < NGASMIXES_GENIUS; i++)\<close> from index \<open>i\<close> on.\<close>

function genius_slots ::
  "byte list \<Rightarrow> nat \<Rightarrow> nat \<times> nat \<times> mares_iconhd_gasmix_t list \<times> mares_iconhd_tank_t list
     \<Rightarrow> nat \<times> nat \<times> mares_iconhd_gasmix_t list \<times> mares_iconhd_tank_t list" where
  "genius_slots d i acc =
    (if i < NGASMIXES_GENIUS then genius_slots d (Suc i) (genius_slot d i acc) else acc)"
  by pat_completeness auto
termination
  by (relation "measure (\<lambda>(d, i, acc). NGASMIXES_GENIUS - i)") auto

declare genius_slots.simps [simp del]

definition mares_genius_cache :: "mares_iconhd_parser_t \<Rightarrow> dc_status_t + mares_iconhd_parser_t" where
  "mares_genius_cache parser =
    (let d = base_data parser;
         sz = base_size parser
     in
     if sz < 4 then Inl DC_STATUS_DATAFORMAT
     else
       let type = u16 d 0;
           major = d ! 2;
           minor = d ! 3
       in
       if type \<noteq> 1 \<or> major \<noteq> 0 \<or> minor \<noteq> 0 then Inl DC_STATUS_DATAFORMAT
       else
         let hsize = 0xB8 in
         if hsize > sz then Inl DC_STATUS_DATAFORMAT
         else
           let ns = u16 d 0x20;
               st = array_uint32_le d 0x0C;
               md = st AND 0xF;
               nbytes = genius_nbytes hsize ns
           in
           if nbytes > sz then Inl DC_STATUS_DATAFORMAT
           else
             let (ngm, ntk, gm, tk) =
                   genius_slots d 0
                     (0, 0, replicate NGASMIXES_GENIUS gasmix_zero,
                      replicate NTANKS_GENIUS tank_zero)
             in Inr (parser
                  \<lparr>mode := md,
                   nsamples := ns,
                   samplesize := DPRS_SIZE,
                   headersize := hsize,
                   settings := st,
                   interval := 5,
                   samplerate := 1,
                   ntanks := of_nat ntk,
                   ngasmixes := of_nat ngm,
                   gasmix := copy_slots ngm gm (gasmix parser),
                   tank := copy_slots ntk tk (tank parser),
                   cached := 1\<rparr>))"

section \<open>Dispatch, construction and buffer replacement\<close>

definition mares_iconhd_parser_cache ::
  "mares_iconhd_parser_t \<Rightarrow> dc_status_t + mares_iconhd_parser_t" where
  "mares_iconhd_parser_cache parser =
    (if cached parser \<noteq> 0 then Inr parser
     else if model parser = GENIUS then mares_genius_cache parser
     else mares_iconhd_cache parser)"

text \<open>
  \<^verbatim>\<open>mares_iconhd_parser_create\<close> with a non-null \<^verbatim>\<open>out\<close> and a successful allocation.
  The allocator \<^verbatim>\<open>dc_parser_allocate\<close> is not under src; a new parser has no buffer.
\<close>

definition mares_iconhd_parser_create :: "uint \<Rightarrow> mares_iconhd_parser_t" where
  "mares_iconhd_parser_create m =
    \<lparr>base_data = [], base_size = 0,
     model = m,
     cached = 0,
     mode = (if m = GENIUS then GENIUS_AIR else ICONHD_AIR),
     nsamples = 0, samplesize = 0, headersize = 0, settings = 0,
     interval = 0, samplerate = 0, ntanks = 0, ngasmixes = 0,
     gasmix = replicate NGASMIXES gasmix_zero,
     tank = replicate NTANKS tank_zero\<rparr>"

text \<open>
  \<^verbatim>\<open>mares_iconhd_parser_set_data\<close>. The generic \<^verbatim>\<open>dc_parser_set_data\<close>, which is not
  under src, stores the buffer and its size in \<^verbatim>\<open>base\<close> before it calls this function;
  the model does both.
\<close>

definition mares_iconhd_parser_set_data ::
  "mares_iconhd_parser_t \<Rightarrow> byte list \<Rightarrow> mares_iconhd_parser_t" where
  "mares_iconhd_parser_set_data parser d =
    parser
      \<lparr>base_data := d, base_size := of_nat (length d),
       cached := 0,
       mode := (if model parser = GENIUS then GENIUS_AIR else ICONHD_AIR),
       nsamples := 0, samplesize := 0, headersize := 0, settings := 0,
       interval := 0, samplerate := 0, ntanks := 0, ngasmixes := 0,
       gasmix := replicate NGASMIXES gasmix_zero,
       tank := replicate NTANKS tank_zero\<rparr>"

section \<open>FieldAccessor: \<^verbatim>\<open>mares_iconhd_parser_get_datetime\<close> and \<^verbatim>\<open>mares_iconhd_parser_get_field\<close>\<close>

text \<open>
  Values of type \<^verbatim>\<open>double\<close> are modelled as exact reals: rounding is not modelled and
  no statement below depends on it.

  Modelled from the spec: \<^verbatim>\<open>units.h\<close> is not under src; the spec names its constants as
  the fixed physical constants (atmosphere, psi-per-bar, cubic-feet-per-liter) of the
  imperial tank conversion. They are given their SI values.
\<close>

definition POUND :: real where "POUND = 0.45359237"
definition FEET :: real where "FEET = 0.3048"
definition INCH :: real where "INCH = 0.0254"
definition GRAVITY :: real where "GRAVITY = 9.80665"
definition ATM :: real where "ATM = 101325"
definition BAR :: real where "BAR = 100000"
definition MSW :: real where "MSW = BAR / 10"
definition PSI :: real where "PSI = (POUND * GRAVITY) / (INCH * INCH)"
definition CUFT :: real where "CUFT = FEET * FEET * FEET"

text \<open>
  The types of \<^verbatim>\<open>parser.h\<close> and \<^verbatim>\<open>datetime.h\<close>, which are not under src, as far as
  this file uses them. \<open>DC_FIELD_OTHER\<close> stands for every field kind the
  \<^verbatim>\<open>switch\<close> of \<^verbatim>\<open>mares_iconhd_parser_get_field\<close> has no case for.
  \<open>timezone = None\<close> is \<^verbatim>\<open>DC_TIMEZONE_NONE\<close>.
\<close>

datatype dc_field_type_t =
  DC_FIELD_DIVETIME
| DC_FIELD_MAXDEPTH
| DC_FIELD_GASMIX_COUNT
| DC_FIELD_GASMIX
| DC_FIELD_TANK_COUNT
| DC_FIELD_TANK
| DC_FIELD_ATMOSPHERIC
| DC_FIELD_SALINITY
| DC_FIELD_TEMPERATURE_MINIMUM
| DC_FIELD_TEMPERATURE_MAXIMUM
| DC_FIELD_DIVEMODE
| DC_FIELD_OTHER nat

datatype dc_water_t = DC_WATER_FRESH | DC_WATER_SALT
datatype dc_divemode_t = DC_DIVEMODE_FREEDIVE | DC_DIVEMODE_GAUGE | DC_DIVEMODE_OC
datatype dc_tankvolume_t = DC_TANKVOLUME_METRIC | DC_TANKVOLUME_IMPERIAL

definition DC_GASMIX_UNKNOWN :: uint where "DC_GASMIX_UNKNOWN = 0xFFFFFFFF"

record dc_datetime_t =
  year :: int
  month :: int
  day :: int
  hour :: int
  minute :: int
  second :: int
  timezone :: "int option"

record dc_gasmix_t =
  gm_helium :: real
  gm_oxygen :: real
  gm_nitrogen :: real

record dc_tank_t =
  tk_gasmix :: uint
  tk_type :: dc_tankvolume_t
  tk_volume :: real
  tk_workpressure :: real
  tk_beginpressure :: real
  tk_endpressure :: real

record dc_salinity_t =
  water_type :: dc_water_t
  density :: real

text \<open>What \<^verbatim>\<open>mares_iconhd_parser_get_field\<close> writes through \<^verbatim>\<open>value\<close>.\<close>

datatype dc_field_value =
  UInt uint
| Double real
| Gasmix dc_gasmix_t
| Tank dc_tank_t
| Salinity dc_salinity_t
| Divemode dc_divemode_t

text \<open>
  The pointer to the header data of both accessors (lines 564-570 and 618-624):
  \<^verbatim>\<open>p += abstract->size - parser->headersize\<close> is an \<^verbatim>\<open>unsigned int\<close> subtraction.
\<close>

definition accessor_p :: "mares_iconhd_parser_t \<Rightarrow> nat" where
  "accessor_p parser =
    (if model parser \<noteq> GENIUS then
       unat (base_size parser - headersize parser)
         + (if model parser \<noteq> SMART \<and> model parser \<noteq> SMARTAPNEA \<and> model parser \<noteq> SMARTAIR
            then 4 else 0)
     else 0)"

text \<open>
  \<^verbatim>\<open>mares_iconhd_parser_get_datetime\<close>. \<open>datetime\<close> tells whether the output pointer
  is non-null; the result is the status with the value written (\<open>None\<close> when nothing is
  written), and the parser after the call.
\<close>

definition mares_iconhd_parser_get_datetime ::
  "mares_iconhd_parser_t \<Rightarrow> bool \<Rightarrow> (dc_status_t + dc_datetime_t option) \<times> mares_iconhd_parser_t" where
  "mares_iconhd_parser_get_datetime parser0 datetime =
    (case mares_iconhd_parser_cache parser0 of
       Inl rc \<Rightarrow> (Inl rc, parser0)
     | Inr parser \<Rightarrow>
        let d = base_data parser;
            p = accessor_p parser
                 + (if model parser = GENIUS then 0x08
                    else if model parser = SMARTAPNEA then 0x40
                    else if mode parser = ICONHD_FREEDIVE then 0x20
                    else 2)
        in
        if datetime then
          (if model parser = GENIUS then
             let timestamp = array_uint32_le d p in
             (Inr (Some
                \<lparr>year = uint (drop_bit 20 timestamp AND 0x0FFF),
                 month = uint (drop_bit 16 timestamp AND 0x0F),
                 day = uint (drop_bit 11 timestamp AND 0x1F),
                 hour = uint (timestamp AND 0x1F),
                 minute = uint (drop_bit 5 timestamp AND 0x3F),
                 second = 0,
                 timezone = None\<rparr>), parser)
           else
             (Inr (Some
                \<lparr>year = uint (array_uint16_le d (p + 8)) + 1900,
                 month = uint (array_uint16_le d (p + 6)) + 1,
                 day = uint (array_uint16_le d (p + 4)),
                 hour = uint (array_uint16_le d (p + 0)),
                 minute = uint (array_uint16_le d (p + 2)),
                 second = 0,
                 timezone = None\<rparr>), parser))
        else (Inr None, parser))"

text \<open>The dive time of a freedive session (lines 640-646): the loop over the samples.\<close>

fun freedive_divetime :: "byte list \<Rightarrow> uint \<Rightarrow> nat \<Rightarrow> uint \<Rightarrow> uint \<Rightarrow> uint" where
  "freedive_divetime d ssize 0 offset divetime = divetime"
| "freedive_divetime d ssize (Suc n) offset divetime =
     freedive_divetime d ssize n (offset + ssize) (divetime + u16 d (unat offset + 2))"

text \<open>
  The \<^verbatim>\<open>switch\<close> of \<^verbatim>\<open>mares_iconhd_parser_get_field\<close> (lines 633-796), entered when
  \<^verbatim>\<open>value\<close> is non-null. \<open>flags\<close> indexes the arrays without a bound check.
\<close>

definition get_field_switch ::
  "mares_iconhd_parser_t \<Rightarrow> dc_field_type_t \<Rightarrow> uint \<Rightarrow> dc_status_t + dc_field_value" where
  "get_field_switch parser type flags =
    (let d = base_data parser;
         p = accessor_p parser;
         metric = (if model parser = GENIUS then ucast (d ! (p + 0x34))
                   else settings parser AND 0x0100)
     in
     case type of
       DC_FIELD_DIVETIME \<Rightarrow>
         if model parser = GENIUS then Inr (UInt (nsamples parser * interval parser))
         else if model parser = SMARTAPNEA then Inr (UInt (u16 d (p + 0x24)))
         else if mode parser = ICONHD_FREEDIVE then
           Inr (UInt (freedive_divetime d (samplesize parser) (unat (nsamples parser)) 4 0))
         else Inr (UInt (nsamples parser * interval parser))
     | DC_FIELD_MAXDEPTH \<Rightarrow>
         if model parser = GENIUS then Inr (Double (real (unat (u16 d (p + 0x22))) / 10))
         else if model parser = SMARTAPNEA then Inr (Double (real (unat (u16 d (p + 0x3A))) / 10))
         else if mode parser = ICONHD_FREEDIVE then Inr (Double (real (unat (u16 d (p + 0x1A))) / 10))
         else Inr (Double (real (unat (u16 d (p + 0x00))) / 10))
     | DC_FIELD_GASMIX_COUNT \<Rightarrow> Inr (UInt (ngasmixes parser))
     | DC_FIELD_GASMIX \<Rightarrow>
         let o2 = real (unat (oxygen (gasmix parser ! unat flags))) / 100;
             he = real (unat (helium (gasmix parser ! unat flags))) / 100
         in Inr (Gasmix \<lparr>gm_helium = he, gm_oxygen = o2, gm_nitrogen = 1 - o2 - he\<rparr>)
     | DC_FIELD_TANK_COUNT \<Rightarrow> Inr (UInt (ntanks parser))
     | DC_FIELD_TANK \<Rightarrow>
         let t = tank parser ! unat flags;
             g = (if flags < ngasmixes parser then flags else DC_GASMIX_UNKNOWN)
         in
         if metric \<noteq> 0 then
           Inr (Tank \<lparr>tk_gasmix = g, tk_type = DC_TANKVOLUME_METRIC,
                      tk_volume = real (unat (volume t)),
                      tk_workpressure = real (unat (workpressure t)),
                      tk_beginpressure = real (unat (beginpressure t)) / 100,
                      tk_endpressure = real (unat (endpressure t)) / 100\<rparr>)
         else if workpressure t = 0 then Inl DC_STATUS_DATAFORMAT
         else
           Inr (Tank \<lparr>tk_gasmix = g, tk_type = DC_TANKVOLUME_IMPERIAL,
                      tk_volume = (real (unat (volume t)) * CUFT * 1000)
                                    / (real (unat (workpressure t)) * PSI / ATM),
                      tk_workpressure = real (unat (workpressure t)) * PSI / BAR,
                      tk_beginpressure = real (unat (beginpressure t)) / 100,
                      tk_endpressure = real (unat (endpressure t)) / 100\<rparr>)
     | DC_FIELD_ATMOSPHERIC \<Rightarrow>
         if model parser = GENIUS then Inr (Double (real (unat (u16 d (p + 0x3E))) / 1000))
         else if model parser = SMARTAPNEA then Inr (Double (real (unat (u16 d (p + 0x38))) / 1000))
         else if mode parser = ICONHD_FREEDIVE then Inr (Double (real (unat (u16 d (p + 0x18))) / 1000))
         else Inr (Double (real (unat (u16 d (p + 0x22))) / 8000))
     | DC_FIELD_SALINITY \<Rightarrow>
         if model parser = GENIUS then
           let salinity = drop_bit 5 (settings parser) AND 0x03 in
           if salinity = WATER_FRESH then
             Inr (Salinity \<lparr>water_type = DC_WATER_FRESH, density = 0\<rparr>)
           else if salinity = WATER_SALT then
             Inr (Salinity \<lparr>water_type = DC_WATER_SALT, density = 0\<rparr>)
           else if salinity = WATER_EN13319 then
             Inr (Salinity \<lparr>water_type = DC_WATER_SALT, density = MSW / GRAVITY\<rparr>)
           else Inl DC_STATUS_DATAFORMAT
         else if model parser = SMARTAPNEA then
           let salinity = settings parser AND 0x003F in
           Inr (Salinity
             \<lparr>water_type = (if salinity = 0 then DC_WATER_FRESH else DC_WATER_SALT),
              density = 1000 + real (unat salinity)\<rparr>)
         else
           Inr (Salinity
             \<lparr>water_type = (if settings parser AND 0x0010 \<noteq> 0 then DC_WATER_FRESH
                            else DC_WATER_SALT),
              density = 0\<rparr>)
     | DC_FIELD_TEMPERATURE_MINIMUM \<Rightarrow>
         if model parser = GENIUS then
           Inr (Double (real_of_int (sint (array_uint16_le d (p + 0x28))) / 10))
         else if model parser = SMARTAPNEA then
           Inr (Double (real_of_int (sint (array_uint16_le d (p + 0x3E))) / 10))
         else if mode parser = ICONHD_FREEDIVE then
           Inr (Double (real_of_int (sint (array_uint16_le d (p + 0x1C))) / 10))
         else Inr (Double (real_of_int (sint (array_uint16_le d (p + 0x42))) / 10))
     | DC_FIELD_TEMPERATURE_MAXIMUM \<Rightarrow>
         if model parser = GENIUS then
           Inr (Double (real_of_int (sint (array_uint16_le d (p + 0x26))) / 10))
         else if model parser = SMARTAPNEA then
           Inr (Double (real_of_int (sint (array_uint16_le d (p + 0x3C))) / 10))
         else if mode parser = ICONHD_FREEDIVE then
           Inr (Double (real_of_int (sint (array_uint16_le d (p + 0x1E))) / 10))
         else Inr (Double (real_of_int (sint (array_uint16_le d (p + 0x44))) / 10))
     | DC_FIELD_DIVEMODE \<Rightarrow>
         if model parser = GENIUS then
           (if mode parser = GENIUS_AIR \<or> mode parser = GENIUS_NITROX_SINGLE
               \<or> mode parser = GENIUS_NITROX_MULTI \<or> mode parser = GENIUS_TRIMIX
            then Inr (Divemode DC_DIVEMODE_OC)
            else if mode parser = GENIUS_GAUGE then Inr (Divemode DC_DIVEMODE_GAUGE)
            else if mode parser = GENIUS_FREEDIVE then Inr (Divemode DC_DIVEMODE_FREEDIVE)
            else Inl DC_STATUS_DATAFORMAT)
         else
           (if mode parser = ICONHD_AIR \<or> mode parser = ICONHD_NITROX
            then Inr (Divemode DC_DIVEMODE_OC)
            else if mode parser = ICONHD_GAUGE then Inr (Divemode DC_DIVEMODE_GAUGE)
            else if mode parser = ICONHD_FREEDIVE then Inr (Divemode DC_DIVEMODE_FREEDIVE)
            else Inl DC_STATUS_DATAFORMAT)
     | DC_FIELD_OTHER k \<Rightarrow> Inl DC_STATUS_UNSUPPORTED)"

text \<open>
  \<^verbatim>\<open>mares_iconhd_parser_get_field\<close>. \<open>val\<close> tells whether the pointer \<^verbatim>\<open>value\<close> is
  non-null. The result is the status with the value written (\<open>None\<close> when nothing is
  written), and the parser after the call.
\<close>

definition mares_iconhd_parser_get_field ::
  "mares_iconhd_parser_t \<Rightarrow> dc_field_type_t \<Rightarrow> uint \<Rightarrow> bool
     \<Rightarrow> (dc_status_t + dc_field_value option) \<times> mares_iconhd_parser_t" where
  "mares_iconhd_parser_get_field parser0 type flags val =
    (case mares_iconhd_parser_cache parser0 of
       Inl rc \<Rightarrow> (Inl rc, parser0)
     | Inr parser \<Rightarrow>
        if val then
          (case get_field_switch parser type flags of
             Inl rc \<Rightarrow> (Inl rc, parser)
           | Inr v \<Rightarrow> (Inr (Some v), parser))
        else (Inr None, parser))"

section \<open>SampleStream: \<^verbatim>\<open>mares_iconhd_parser_samples_foreach\<close>\<close>

text \<open>
  The types of \<^verbatim>\<open>parser.h\<close>, which is not under src, as far as the walk uses them.
  An event is one call of the callback: the kind of the sample with the member of
  \<^verbatim>\<open>dc_sample_value_t\<close> that belongs to it. The walk returns the events in the order of
  the calls; with a null callback no call is made.
\<close>

datatype dc_deco_type_t = DC_DECO_NDL | DC_DECO_DECOSTOP
datatype parser_sample_event_t = SAMPLE_EVENT_NONE | SAMPLE_EVENT_ASCENT | SAMPLE_EVENT_CEILING

datatype dc_sample =
  DC_SAMPLE_TIME uint
| DC_SAMPLE_DEPTH real
| DC_SAMPLE_TEMPERATURE real
| DC_SAMPLE_GASMIX uint
| DC_SAMPLE_DECO dc_deco_type_t real uint
| DC_SAMPLE_EVENT parser_sample_event_t
| DC_SAMPLE_PRESSURE uint real

text \<open>
  The local variables of the walk that live across iterations: \<^verbatim>\<open>offset\<close>, \<^verbatim>\<open>time\<close>,
  \<^verbatim>\<open>nsamples\<close>, \<^verbatim>\<open>gasmix_previous\<close>, and the events delivered so far.
\<close>

record walk_t =
  w_offset :: uint
  w_time :: uint
  w_nsamples :: uint
  w_gasmix_previous :: uint
  w_events :: "dc_sample list"

text \<open>The loop over the alarm bits (lines 983-1008).\<close>

definition alarm_event_type :: "nat \<Rightarrow> parser_sample_event_t" where
  "alarm_event_type i =
    (if i = ALARM_FAST_ASCENT \<or> i = ALARM_UNCONTROLLED_ASCENT then SAMPLE_EVENT_ASCENT
     else if i = ALARM_MISSED_DECO \<or> i = ALARM_DIVE_VIOLATION_DECO then SAMPLE_EVENT_CEILING
     else SAMPLE_EVENT_NONE)"

lemma drop_bit_1_less: "v \<noteq> 0 \<Longrightarrow> unat (drop_bit (Suc 0) (v :: uint)) < unat v"
proof -
  assume "v \<noteq> 0"
  then have "unat v \<noteq> 0" by (simp add: unat_eq_zero)
  moreover have "unat (drop_bit (Suc 0) v) = unat v div 2"
    by (simp add: drop_bit_Suc unat_div)
  ultimately show ?thesis by simp
qed

function alarm_events :: "uint \<Rightarrow> nat \<Rightarrow> dc_sample list" where
  "alarm_events v i =
    (if v \<noteq> 0 then
       (if v AND 1 = 0 then []
        else if alarm_event_type i \<noteq> SAMPLE_EVENT_NONE
          then [DC_SAMPLE_EVENT (alarm_event_type i)] else [])
       @ alarm_events (drop_bit 1 v) (Suc i)
     else [])"
  by pat_completeness auto
termination
  by (relation "measure (\<lambda>(v, i). unat v)") (auto simp: drop_bit_1_less)

declare alarm_events.simps [simp del]

text \<open>
  The inner loop of the apnea record (lines 884-896): \<open>n\<close> readings are left.
  \<open>base\<close> is the index of the pointer \<^verbatim>\<open>data\<close> in the buffer.
\<close>

fun apnea_dive :: "mares_iconhd_parser_t \<Rightarrow> nat \<Rightarrow> nat \<Rightarrow> walk_t \<Rightarrow> walk_t" where
  "apnea_dive parser base 0 w = w"
| "apnea_dive parser base (Suc n) w =
     (let time = w_time w + interval parser;
          depth = u16 (base_data parser) (base + unat (w_offset w))
      in apnea_dive parser base n
           (w\<lparr>w_time := time,
              w_events := w_events w
                 @ [DC_SAMPLE_TIME time, DC_SAMPLE_DEPTH (real (unat depth) / 10)],
              w_offset := w_offset w + 2 * samplerate parser\<rparr>))"

text \<open>
  The per-interval record of the standard and the GENIUS shape (lines 923-1032), in
  the order of the source. First the fields read from the record (lines 923-940), as
  \<open>(depth, temperature, alarms, misc, gasmix)\<close>; \<open>off\<close> is the index of
  \<^verbatim>\<open>data + offset\<close> in the buffer.
\<close>

definition sample_fields ::
  "mares_iconhd_parser_t \<Rightarrow> nat \<Rightarrow> uint \<Rightarrow> uint \<times> uint \<times> uint \<times> uint \<times> uint" where
  "sample_fields parser off marker =
    (let d = base_data parser in
     if model parser = GENIUS then
       let depth = u16 d (off + unat marker + 0);
           temperature = u16 d (off + unat marker + 4);
           alarms = array_uint32_le d (off + unat marker + 0x0C);
           misc = array_uint32_le d (off + unat marker + 0x14);
           gasmix = drop_bit 6 misc AND 0xF
       in (depth, temperature, alarms, misc, gasmix)
     else
       let depth = u16 d (off + 0);
           temperature = u16 d (off + 2) AND 0x0FFF;
           gasmix = drop_bit 4 (ucast (d ! (off + 3)) AND 0xF0)
       in (depth, temperature, 0, 0, gasmix))"

text \<open>Time, depth and temperature (lines 942-953).\<close>

definition emit_time_depth_temperature ::
  "mares_iconhd_parser_t \<Rightarrow> uint \<Rightarrow> uint \<Rightarrow> walk_t \<Rightarrow> walk_t" where
  "emit_time_depth_temperature parser depth temperature w =
    (let time = w_time w + interval parser in
     w\<lparr>w_time := time,
       w_events := w_events w
         @ [DC_SAMPLE_TIME time,
            DC_SAMPLE_DEPTH (real (unat depth) / 10),
            DC_SAMPLE_TEMPERATURE (real (unat temperature) / 10)]\<rparr>)"

text \<open>The gas mix change (lines 961-965), once the index has passed the check of line 957.\<close>

definition emit_gasmix :: "mares_iconhd_parser_t \<Rightarrow> uint \<Rightarrow> walk_t \<Rightarrow> walk_t" where
  "emit_gasmix parser mix w =
    (if ngasmixes parser > 0 \<and> mix \<noteq> w_gasmix_previous w
     then w\<lparr>w_events := w_events w @ [DC_SAMPLE_GASMIX mix],
            w_gasmix_previous := mix\<rparr>
     else w)"

text \<open>The deco status and the alarms of a GENIUS record (lines 968-1009).\<close>

definition emit_deco_alarms ::
  "mares_iconhd_parser_t \<Rightarrow> nat \<Rightarrow> uint \<Rightarrow> uint \<Rightarrow> uint \<Rightarrow> walk_t \<Rightarrow> walk_t" where
  "emit_deco_alarms parser off marker misc alarms w =
    (if model parser = GENIUS then
       let decostop = drop_bit 18 misc AND 0x01;
           decodepth = drop_bit 19 misc AND 0x7F;
           decotime = u16 (base_data parser) (off + unat marker + 0x0A) * 60;
           deco = (if decostop \<noteq> 0
                   then DC_SAMPLE_DECO DC_DECO_DECOSTOP (real (unat decodepth)) decotime
                   else DC_SAMPLE_DECO DC_DECO_NDL 0 decotime)
       in w\<lparr>w_events := w_events w @ [deco] @ alarm_events alarms 0\<rparr>
     else w)"

text \<open>
  The extra tank pressure record (lines 1015-1032), with the status returned from inside
  it, if any, and the state at that point.
\<close>

definition walk_airs ::
  "crc_fun \<Rightarrow> mares_iconhd_parser_t \<Rightarrow> nat \<Rightarrow> uint \<Rightarrow> bool \<Rightarrow> uint \<Rightarrow> walk_t
     \<Rightarrow> dc_status_t option \<times> walk_t" where
  "walk_airs crc parser base marker isairintegrated mix w =
    (let d = base_data parser in
     if isairintegrated \<and> w_nsamples w mod 4 = 0 then
       (if model parser = GENIUS \<and>
           \<not> mares_genius_isvalid crc d (base + unat (w_offset w)) (unat AIRS_SIZE) AIRS_TYPE
        then (Some DC_STATUS_DATAFORMAT, w)
        else
          let pressure = u16 d (base + unat (w_offset w) + unat marker + 0);
              w' = (if mix < ntanks parser
                    then w\<lparr>w_events := w_events w
                             @ [DC_SAMPLE_PRESSURE mix (real (unat pressure) / 100)]\<rparr>
                    else w)
          in (None, w'\<lparr>w_offset := w_offset w'
                           + (if model parser = GENIUS then AIRS_SIZE else 8)\<rparr>))
     else (None, w))"

text \<open>
  The whole per-interval record. The result is the status returned from inside the
  loop, if any, with the state at that point.
\<close>

definition walk_sample ::
  "crc_fun \<Rightarrow> mares_iconhd_parser_t \<Rightarrow> nat \<Rightarrow> uint \<Rightarrow> bool \<Rightarrow> walk_t
     \<Rightarrow> dc_status_t option \<times> walk_t" where
  "walk_sample crc parser base marker isairintegrated w =
    (let d = base_data parser;
         off = base + unat (w_offset w)
     in
     if model parser = GENIUS \<and> \<not> mares_genius_isvalid crc d off (unat DPRS_SIZE) DPRS_TYPE
     then (Some DC_STATUS_DATAFORMAT, w)
     else
       case sample_fields parser off marker of
         (depth, temperature, alarms, misc, mix) \<Rightarrow>
           let w1 = emit_time_depth_temperature parser depth temperature w in
           if ngasmixes parser > 0 \<and> mix \<ge> ngasmixes parser
           then (Some DC_STATUS_DATAFORMAT, w1)
           else
             let w2 = emit_gasmix parser mix w1;
                 w3 = emit_deco_alarms parser off marker misc alarms w2;
                 w4 = w3\<lparr>w_offset := w_offset w3 + samplesize parser,
                         w_nsamples := w_nsamples w3 + 1\<rparr>
             in walk_airs crc parser base marker isairintegrated mix w4)"

text \<open>One iteration of the \<^verbatim>\<open>while\<close> loop (lines 865-1033).\<close>

definition walk_record ::
  "crc_fun \<Rightarrow> mares_iconhd_parser_t \<Rightarrow> nat \<Rightarrow> uint \<Rightarrow> bool \<Rightarrow> walk_t
     \<Rightarrow> dc_status_t option \<times> walk_t" where
  "walk_record crc parser base marker isairintegrated w =
    (let d = base_data parser;
         off = base + unat (w_offset w)
     in
     if model parser = SMARTAPNEA then
       let divetime = u16 d (off + 2);
           surftime = u16 d (off + 4);
           time = w_time w + surftime;
           w1 = w\<lparr>w_time := time,
                  w_events := w_events w @ [DC_SAMPLE_TIME time, DC_SAMPLE_DEPTH 0],
                  w_offset := w_offset w + samplesize parser,
                  w_nsamples := w_nsamples w + 1\<rparr>
       in (None, apnea_dive parser base (unat divetime) w1)
     else if model parser \<noteq> GENIUS \<and> mode parser = ICONHD_FREEDIVE then
       let maxdepth = u16 d (off + 0);
           divetime = u16 d (off + 2);
           surftime = u16 d (off + 4);
           time1 = w_time w + surftime;
           time2 = time1 + divetime
       in (None,
           w\<lparr>w_time := time2,
             w_events := w_events w
               @ [DC_SAMPLE_TIME time1, DC_SAMPLE_DEPTH 0,
                  DC_SAMPLE_TIME time2, DC_SAMPLE_DEPTH (real (unat maxdepth) / 10)],
             w_offset := w_offset w + samplesize parser,
             w_nsamples := w_nsamples w + 1\<rparr>)
     else walk_sample crc parser base marker isairintegrated w)"

lemma apnea_dive_nsamples: "w_nsamples (apnea_dive parser base n w) = w_nsamples w"
  by (induction n arbitrary: w) (simp_all add: Let_def)

lemma emit_time_depth_temperature_simps [simp]:
  "w_nsamples (emit_time_depth_temperature parser depth temperature w) = w_nsamples w"
  "w_offset (emit_time_depth_temperature parser depth temperature w) = w_offset w"
  "w_gasmix_previous (emit_time_depth_temperature parser depth temperature w) = w_gasmix_previous w"
  "w_time (emit_time_depth_temperature parser depth temperature w) = w_time w + interval parser"
  "w_events (emit_time_depth_temperature parser depth temperature w) =
     w_events w @ [DC_SAMPLE_TIME (w_time w + interval parser),
                   DC_SAMPLE_DEPTH (real (unat depth) / 10),
                   DC_SAMPLE_TEMPERATURE (real (unat temperature) / 10)]"
  by (simp_all add: emit_time_depth_temperature_def Let_def)

lemma emit_gasmix_simps [simp]:
  "w_nsamples (emit_gasmix parser mix w) = w_nsamples w"
  "w_offset (emit_gasmix parser mix w) = w_offset w"
  "w_time (emit_gasmix parser mix w) = w_time w"
  by (simp_all add: emit_gasmix_def)

lemma emit_deco_alarms_simps [simp]:
  "w_nsamples (emit_deco_alarms parser off marker misc alarms w) = w_nsamples w"
  "w_offset (emit_deco_alarms parser off marker misc alarms w) = w_offset w"
  "w_time (emit_deco_alarms parser off marker misc alarms w) = w_time w"
  "w_gasmix_previous (emit_deco_alarms parser off marker misc alarms w) = w_gasmix_previous w"
  by (simp_all add: emit_deco_alarms_def Let_def)

lemma walk_airs_None:
  assumes "walk_airs crc parser base marker air mix w = (None, w')"
  shows "w_nsamples w' = w_nsamples w" and "w_time w' = w_time w"
    and "w_gasmix_previous w' = w_gasmix_previous w"
  using assms unfolding walk_airs_def Let_def
  by (auto split: if_splits)

lemma walk_sample_nsamples:
  "walk_sample crc parser base marker air w = (None, w') \<Longrightarrow> w_nsamples w' = w_nsamples w + 1"
  unfolding walk_sample_def Let_def
  by (auto split: if_splits prod.splits dest!: walk_airs_None(1))

lemma walk_record_nsamples:
  "walk_record crc parser base marker air w = (None, w') \<Longrightarrow> w_nsamples w' = w_nsamples w + 1"
  unfolding walk_record_def Let_def
  by (auto simp: apnea_dive_nsamples walk_sample_nsamples split: if_splits)

lemma walk_measure:
  fixes n k :: uint
  assumes "k < n"
  shows "unat n - unat (k + 1) < unat n - unat k"
proof -
  have lt: "unat k < unat n" using assms by (simp add: word_less_nat_alt)
  have "unat n < 2 ^ 32" using unsigned_less[of n, where ?'a = nat] by simp
  then have "unat k + unat (1 :: uint) < 2 ^ LENGTH(32)" using lt by simp
  then have "unat (k + 1) = unat k + unat (1 :: uint)" by (simp only: unat_add_lem)
  then show ?thesis using lt by simp
qed

text \<open>The \<^verbatim>\<open>while\<close> loop \<^verbatim>\<open>while (nsamples < parser->nsamples)\<close> (line 864).\<close>

function walk_loop ::
  "crc_fun \<Rightarrow> mares_iconhd_parser_t \<Rightarrow> nat \<Rightarrow> uint \<Rightarrow> bool \<Rightarrow> walk_t
     \<Rightarrow> dc_status_t option \<times> walk_t" where
  "walk_loop crc parser base marker isairintegrated w =
    (if w_nsamples w < nsamples parser then
       (case walk_record crc parser base marker isairintegrated w of
          (Some rc, w') \<Rightarrow> (Some rc, w')
        | (None, w') \<Rightarrow> walk_loop crc parser base marker isairintegrated w')
     else (None, w))"
  by pat_completeness auto
termination
  apply (relation "measure (\<lambda>(crc, parser, base, marker, air, w).
            unat (nsamples parser) - unat (w_nsamples w))")
   apply simp
  apply (simp add: walk_record_nsamples walk_measure)
  done

declare walk_loop.simps [simp del]

text \<open>
  \<^verbatim>\<open>mares_iconhd_parser_samples_foreach\<close>. The result is the status (\<open>Inr ()\<close> is
  \<^verbatim>\<open>DC_STATUS_SUCCESS\<close>), the events delivered to the callback, and the parser after the
  call. The warning about several samples per second has no effect and is left out.
\<close>

definition walk_init :: walk_t where
  "walk_init =
     \<lparr>w_offset = 4, w_time = 0, w_nsamples = 0, w_gasmix_previous = 0xFFFFFFFF,
      w_events = []\<rparr>"

definition mares_iconhd_parser_samples_foreach ::
  "crc_fun \<Rightarrow> mares_iconhd_parser_t
     \<Rightarrow> (dc_status_t + unit) \<times> dc_sample list \<times> mares_iconhd_parser_t" where
  "mares_iconhd_parser_samples_foreach crc parser0 =
    (case mares_iconhd_parser_cache parser0 of
       Inl rc \<Rightarrow> (Inl rc, [], parser0)
     | Inr parser \<Rightarrow>
        let d = base_data parser;
            isairintegrated =
              (model parser = ICONHDNET \<or> model parser = QUADAIR \<or> model parser = SMARTAIR
                 \<or> model parser = GENIUS)
        in
        if model parser = GENIUS then
          let base = unat (headersize parser);
              type = u16 d base;
              major = d ! (base + 2);
              minor = d ! (base + 3)
          in
          if type \<noteq> 0 \<or> major \<noteq> 2 \<or> minor \<noteq> 0 then (Inl DC_STATUS_DATAFORMAT, [], parser)
          else if \<not> mares_genius_isvalid crc d (base + 4) (unat DSTR_SIZE) DSTR_TYPE
          then (Inl DC_STATUS_DATAFORMAT, [], parser)
          else if \<not> mares_genius_isvalid crc d (base + unat (4 + DSTR_SIZE)) (unat TISS_SIZE) TISS_TYPE
          then (Inl DC_STATUS_DATAFORMAT, [], parser)
          else
            (case walk_loop crc parser base 4 isairintegrated
                    (walk_init\<lparr>w_offset := 4 + DSTR_SIZE + TISS_SIZE\<rparr>) of
               (Some rc, w) \<Rightarrow> (Inl rc, w_events w, parser)
             | (None, w) \<Rightarrow>
                 if \<not> mares_genius_isvalid crc d (base + unat (w_offset w)) (unat DEND_SIZE) DEND_TYPE
                 then (Inl DC_STATUS_DATAFORMAT, w_events w, parser)
                 else (Inr (), w_events w, parser))
        else
          (case walk_loop crc parser 0 0 isairintegrated walk_init of
             (Some rc, w) \<Rightarrow> (Inl rc, w_events w, parser)
           | (None, w) \<Rightarrow> (Inr (), w_events w, parser)))"

section \<open>A checksum for the concrete buffers\<close>

text \<open>
  Modelled from the spec: \<^verbatim>\<open>checksum_crc16_ccitt\<close> of \<^verbatim>\<open>checksum.h\<close> is not under src;
  the spec names it as the CRC-16/CCITT checksum primitive. This is the CRC with the
  polynomial 0x1021, most significant bit first, without reflection and without a final
  XOR. It is used only to build concrete buffers; every theorem that is not about a
  concrete buffer holds for any checksum function.
\<close>

definition crc16_bit :: "ushort \<Rightarrow> ushort" where
  "crc16_bit c = (if c AND 0x8000 \<noteq> 0 then push_bit 1 c XOR 0x1021 else push_bit 1 c)"

definition crc16_byte :: "ushort \<Rightarrow> byte \<Rightarrow> ushort" where
  "crc16_byte c b = (crc16_bit ^^ 8) (c XOR push_bit 8 (ucast b))"

definition checksum_crc16_ccitt :: crc_fun where
  "checksum_crc16_ccitt bytes init = foldl crc16_byte init bytes"

section \<open>Concrete buffers\<close>

text \<open>
  A minimal SMART dive in air mode without samples: declared length \<open>4 + 0x5C\<close>, the
  settings select the 5 second interval and fresh water.
\<close>

definition smart_air_buffer :: "byte list" where
  "smart_air_buffer =
     [0x60, 0, 0, 0] @ replicate 12 0 @ [0x10, 0x04] @ replicate 74 0 @ [0, 0, 0, 0]"

definition smart_air_parser :: mares_iconhd_parser_t where
  "smart_air_parser =
     mares_iconhd_parser_set_data (mares_iconhd_parser_create SMART) smart_air_buffer"

text \<open>A GENIUS buffer that holds the header and the fixed records of a dive without samples.\<close>

definition genius_empty_buffer :: "byte list" where
  "genius_empty_buffer = [1, 0, 0, 0] @ replicate 542 0"

definition genius_empty_parser :: mares_iconhd_parser_t where
  "genius_empty_parser =
     mares_iconhd_parser_set_data (mares_iconhd_parser_create GENIUS) genius_empty_buffer"

text \<open>A GENIUS buffer of 1000 zero bytes: its object type is 0.\<close>

definition genius_badtag_parser :: mares_iconhd_parser_t where
  "genius_badtag_parser =
     mares_iconhd_parser_set_data (mares_iconhd_parser_create GENIUS) (replicate 1000 0)"

text \<open>
  A SMARTAPNEA dive without samples whose dive time field at \<open>p + 0x24\<close> is
  \<open>0x80000000\<close> seconds.
\<close>

definition apnea_wrap_buffer :: "byte list" where
  "apnea_wrap_buffer = [84, 0, 0, 0] @ replicate 39 0 @ [0x80] @ replicate 40 0"

definition apnea_wrap_parser :: mares_iconhd_parser_t where
  "apnea_wrap_parser =
     mares_iconhd_parser_set_data (mares_iconhd_parser_create SMARTAPNEA) apnea_wrap_buffer"

text \<open>
  The reading of the type and the number of samples as claim C2 words it: the trailer
  at declared length minus \<open>headersize\<close>, read there by the SMART family (count, then
  type), and four bytes further by the other variants (type, then count). It is compared
  with \<open>iconhd_type_nsamples\<close>, which is the source.
\<close>

definition spec_type_nsamples :: "uint \<Rightarrow> byte list \<Rightarrow> uint \<Rightarrow> uint \<Rightarrow> uint \<times> uint" where
  "spec_type_nsamples m d len hsize =
    (let trailer = unat len - unat hsize in
     if m = SMART \<or> m = SMARTAPNEA \<or> m = SMARTAIR
     then (u16 d (trailer + 2), u16 d (trailer + 0))
     else (u16 d (trailer + 4 + 0), u16 d (trailer + 4 + 2)))"

text \<open>
  An ICONHD dive in air mode without samples; the four bytes after the type and the
  number of samples hold the values 1 and 1.
\<close>

definition iconhd_marker_buffer :: "byte list" where
  "iconhd_marker_buffer = [96, 0, 0, 0] @ [0, 0, 0, 0] @ [1, 0, 1, 0] @ replicate 84 0"

definition iconhd_marker_parser :: mares_iconhd_parser_t where
  "iconhd_marker_parser =
     mares_iconhd_parser_set_data (mares_iconhd_parser_create ICONHD) iconhd_marker_buffer"

text \<open>
  A SMART dive in air mode without samples; the four bytes at the start of the header
  hold the values 1 and 3.
\<close>

definition smart_tail_buffer :: "byte list" where
  "smart_tail_buffer = [0x60, 0, 0, 0] @ [1, 0, 3, 0] @ replicate 88 0"

definition smart_tail_parser :: mares_iconhd_parser_t where
  "smart_tail_parser =
     mares_iconhd_parser_set_data (mares_iconhd_parser_create SMART) smart_tail_buffer"

text \<open>
  A SMART dive in freedive mode without samples: declared length \<open>4 + 0x2E\<close>, the
  16-bit field at \<open>p + 0x08\<close> is \<open>0x0400\<close> and the one at \<open>p + 0x0C\<close> is 0.
\<close>

definition smart_freedive_buffer :: "byte list" where
  "smart_freedive_buffer =
     [50, 0, 0, 0] @ replicate 8 0 @ [0x00, 0x04] @ replicate 32 0 @ [0, 0, 3, 0]"

definition smart_freedive_parser :: mares_iconhd_parser_t where
  "smart_freedive_parser =
     mares_iconhd_parser_set_data (mares_iconhd_parser_create SMART) smart_freedive_buffer"

text \<open>
  A GENIUS dive of four samples, built from its pieces: the header (two active gas mixes
  and tanks, slot 2 off, slot 3 switched on behind the gap), the profile tag, the DSTR and
  TISS records, four DPRS sample records, one AIRS record and the DEND record. The
  checksums are those of \<open>checksum_crc16_ccitt\<close>. \<open>genius_dend_flipped\<close> is the DEND
  record with the lowest bit of its checksum flipped.
\<close>

definition genius_header :: "byte list" where
  "genius_header =
     [0x01] @ replicate 11 0 @ [0x02] @ replicate 19 0 @ [0x04] @ replicate 19 0 @ [0x01] @ replicate 31 0 @ [0x95, 0x27, 0x40, 0x00, 0x20, 0x4E, 0x88, 0x13, 0x0C, 0x00, 0xE8] @ replicate 9 0 @ [0x32, 0x19, 0x20, 0x00, 0x20, 0x4E, 0x50, 0x46, 0x07, 0x00, 0xC8] @ replicate 29 0 @ [0x20, 0x22, 0x20, 0x00, 0x00, 0x00, 0xA0, 0x8C] @ replicate 32 0"

definition genius_profile :: "byte list" where
  "genius_profile =
     [0x00, 0x00, 0x02, 0x00]"

definition genius_dstr :: "byte list" where
  "genius_dstr =
     [0x44, 0x53, 0x54, 0x52] @ replicate 50 0 @ [0x44, 0x53, 0x54, 0x52]"

definition genius_tiss :: "byte list" where
  "genius_tiss =
     [0x54, 0x49, 0x53, 0x53] @ replicate 130 0 @ [0x54, 0x49, 0x53, 0x53]"

definition genius_sample1 :: "byte list" where
  "genius_sample1 =
     [0x44, 0x50, 0x52, 0x53, 0x64, 0x00, 0x00, 0x00, 0xC8] @ replicate 19 0 @ [0xE8, 0x27, 0x44, 0x50, 0x52, 0x53]"

definition genius_sample2 :: "byte list" where
  "genius_sample2 =
     [0x44, 0x50, 0x52, 0x53, 0x96, 0x00, 0x00, 0x00, 0xC6] @ replicate 7 0 @ [0x04] @ replicate 11 0 @ [0x6B, 0xB7, 0x44, 0x50, 0x52, 0x53]"

definition genius_sample3 :: "byte list" where
  "genius_sample3 =
     [0x44, 0x50, 0x52, 0x53, 0xC8, 0x00, 0x00, 0x00, 0xC3, 0x00, 0x00, 0x00, 0x00, 0x00, 0x02] @ replicate 9 0 @ [0x40, 0x00, 0x1C, 0x00, 0x8D, 0xCC, 0x44, 0x50, 0x52, 0x53]"

definition genius_sample4 :: "byte list" where
  "genius_sample4 =
     [0x44, 0x50, 0x52, 0x53, 0x78, 0x00, 0x00, 0x00, 0xC4] @ replicate 15 0 @ [0x40, 0x00, 0x00, 0x00, 0x67, 0x16, 0x44, 0x50, 0x52, 0x53]"

definition genius_airs :: "byte list" where
  "genius_airs =
     [0x41, 0x49, 0x52, 0x53, 0x98, 0x3A, 0x00, 0x00, 0x00, 0x00, 0xA6, 0x89, 0x41, 0x49, 0x52, 0x53]"

definition genius_dend :: "byte list" where
  "genius_dend =
     [0x44, 0x45, 0x4E, 0x44] @ replicate 154 0 @ [0x44, 0x45, 0x4E, 0x44]"

definition genius_dend_flipped :: "byte list" where
  "genius_dend_flipped =
     [0x44, 0x45, 0x4E, 0x44] @ replicate 152 0 @ [0x01, 0x00, 0x44, 0x45, 0x4E, 0x44]"

definition genius_dive_buffer :: "byte list" where
  "genius_dive_buffer =
     genius_header @ genius_profile @ genius_dstr @ genius_tiss @ genius_sample1
       @ genius_sample2 @ genius_sample3 @ genius_sample4 @ genius_airs @ genius_dend"

definition genius_flipped_buffer :: "byte list" where
  "genius_flipped_buffer =
     genius_header @ genius_profile @ genius_dstr @ genius_tiss @ genius_sample1
       @ genius_sample2 @ genius_sample3 @ genius_sample4 @ genius_airs @ genius_dend_flipped"

definition genius_dive_parser :: mares_iconhd_parser_t where
  "genius_dive_parser =
     mares_iconhd_parser_set_data (mares_iconhd_parser_create GENIUS) genius_dive_buffer"

definition genius_flipped_parser :: mares_iconhd_parser_t where
  "genius_flipped_parser =
     mares_iconhd_parser_set_data (mares_iconhd_parser_create GENIUS) genius_flipped_buffer"

definition genius_dive_cached :: "mares_iconhd_parser_t \<Rightarrow> mares_iconhd_parser_t" where
  "genius_dive_cached parser =
     parser
       \<lparr>mode := 2, nsamples := 4, samplesize := 34, headersize := 0xB8, settings := 2,
        interval := 5, samplerate := 1, ntanks := 2, ngasmixes := 2,
        gasmix := [\<lparr>oxygen = 21, helium = 0\<rparr>, \<lparr>oxygen = 50, helium = 0\<rparr>,
                   gasmix_zero, gasmix_zero, gasmix_zero],
        tank := [\<lparr>volume = 12, workpressure = 232, beginpressure = 20000, endpressure = 5000\<rparr>,
                 \<lparr>volume = 7, workpressure = 200, beginpressure = 20000, endpressure = 18000\<rparr>,
                 tank_zero, tank_zero, tank_zero],
        cached := 1\<rparr>"

definition genius_dive_events :: "dc_sample list" where
  "genius_dive_events =
     [DC_SAMPLE_TIME 5, DC_SAMPLE_DEPTH 10, DC_SAMPLE_TEMPERATURE 20,
      DC_SAMPLE_GASMIX 0, DC_SAMPLE_DECO DC_DECO_NDL 0 0,
      DC_SAMPLE_TIME 10, DC_SAMPLE_DEPTH 15, DC_SAMPLE_TEMPERATURE (99 / 5),
      DC_SAMPLE_DECO DC_DECO_NDL 0 0, DC_SAMPLE_EVENT SAMPLE_EVENT_ASCENT,
      DC_SAMPLE_TIME 15, DC_SAMPLE_DEPTH 20, DC_SAMPLE_TEMPERATURE (39 / 2),
      DC_SAMPLE_GASMIX 1, DC_SAMPLE_DECO DC_DECO_DECOSTOP 3 120,
      DC_SAMPLE_TIME 20, DC_SAMPLE_DEPTH 12, DC_SAMPLE_TEMPERATURE (98 / 5),
      DC_SAMPLE_DECO DC_DECO_NDL 0 0, DC_SAMPLE_PRESSURE 1 150]"

text \<open>
  A GENIUS dive without samples whose settings word is \<open>0x66\<close>: the mode code is 6 and
  the salinity code is 3, neither of which the accessor knows. \<open>genius_oddmode_cached\<close>
  and \<open>smart_air_cached\<close> are the states of the two parsers after header caching.
\<close>

definition genius_oddmode_buffer :: "byte list" where
  "genius_oddmode_buffer = [1, 0, 0, 0] @ replicate 8 0 @ [0x66] @ replicate 533 0"

definition genius_oddmode_parser :: mares_iconhd_parser_t where
  "genius_oddmode_parser =
     mares_iconhd_parser_set_data (mares_iconhd_parser_create GENIUS) genius_oddmode_buffer"

definition genius_oddmode_cached :: mares_iconhd_parser_t where
  "genius_oddmode_cached =
     genius_oddmode_parser
       \<lparr>mode := 6, nsamples := 0, samplesize := 34, headersize := 0xB8, settings := 0x66,
        interval := 5, samplerate := 1, ntanks := 0, ngasmixes := 0, cached := 1\<rparr>"

definition smart_air_cached :: mares_iconhd_parser_t where
  "smart_air_cached =
     smart_air_parser
       \<lparr>base_size := 96, mode := 0, nsamples := 0, samplesize := 8, headersize := 0x5C,
        settings := 0x0410, interval := 5, samplerate := 1, ntanks := 0, ngasmixes := 1,
        gasmix := [\<lparr>oxygen = 21, helium = 0\<rparr>, gasmix_zero, gasmix_zero, gasmix_zero, gasmix_zero],
        tank := replicate 5 tank_zero, cached := 1\<rparr>"

subsection \<open>Active slots\<close>

text \<open>
  The state of a gas mix or tank slot as the buffer encodes it: the tests of lines 306,
  324, 424 and 433 of the source.
\<close>

definition iconhd_gasmix_enabled :: "byte list \<Rightarrow> nat \<Rightarrow> nat \<Rightarrow> bool" where
  "iconhd_gasmix_enabled d p i \<longleftrightarrow> d ! (p + 0x10 + i * 4 + 1) AND 0x80 = 0"

definition tank_active :: "uint \<Rightarrow> uint \<Rightarrow> bool" where
  "tank_active b e \<longleftrightarrow> b \<noteq> 0 \<or> (e \<noteq> 0 \<and> e \<noteq> 36000)"

definition iconhd_tank_active :: "byte list \<Rightarrow> nat \<Rightarrow> nat \<Rightarrow> nat \<Rightarrow> bool" where
  "iconhd_tank_active d p tankoffset i \<longleftrightarrow>
     tank_active (u16 d (p + tankoffset + i * 4 + 0)) (u16 d (p + tankoffset + i * 4 + 2))"

definition genius_gasmix_active :: "byte list \<Rightarrow> nat \<Rightarrow> bool" where
  "genius_gasmix_active d i \<longleftrightarrow>
     drop_bit 21 (array_uint32_le d (0x54 + i * 20 + 0)) AND 0x03 \<noteq> GASMIX_OFF"

definition genius_tank_active :: "byte list \<Rightarrow> nat \<Rightarrow> bool" where
  "genius_tank_active d i \<longleftrightarrow>
     tank_active (u16 d (0x54 + i * 20 + 4)) (u16 d (0x54 + i * 20 + 6))"

text \<open>The number of leading slots below \<open>n\<close> that satisfy \<open>P\<close> is \<open>k\<close>.\<close>

definition active_prefix :: "(nat \<Rightarrow> bool) \<Rightarrow> nat \<Rightarrow> nat \<Rightarrow> bool" where
  "active_prefix P n k \<longleftrightarrow> k \<le> n \<and> (\<forall>i<k. P i) \<and> (k < n \<longrightarrow> \<not> P k)"

text \<open>No slot behind a slot that fails \<open>P\<close> is among the first \<open>k\<close>.\<close>

definition no_active_after_gap :: "(nat \<Rightarrow> bool) \<Rightarrow> nat \<Rightarrow> bool" where
  "no_active_after_gap P k \<longleftrightarrow> (\<forall>i j. \<not> P i \<and> i < j \<longrightarrow> \<not> j < k)"

text \<open>
  An ICONHDNET dive in nitrox mode without samples: gas mix slot 1 is disabled and slot 2
  enabled; tank slot 1 has no transmitter (pressures 0 and 36000) and slot 2 has one.
  \<open>iconhdnet_nitrox_cached\<close> is the parser after header caching.
\<close>

definition iconhdnet_nitrox_buffer :: "byte list" where
  "iconhdnet_nitrox_buffer =
     [132, 0, 0, 0] @ [2, 0, 0, 0] @ replicate 16 0
       @ [32, 0, 0, 0, 50, 0x80, 0, 0, 80, 0, 0, 0] @ replicate 60 0
       @ [0x20, 0x4E, 0x88, 0x13, 0, 0, 0xA0, 0x8C, 0x20, 0x4E, 0x64, 0]
       @ [12, 0, 232, 0, 0, 0, 0, 0] @ replicate 8 0 @ [10, 0, 200, 0, 0, 0, 0, 0]"

definition iconhdnet_nitrox_parser :: mares_iconhd_parser_t where
  "iconhdnet_nitrox_parser =
     mares_iconhd_parser_set_data (mares_iconhd_parser_create ICONHDNET) iconhdnet_nitrox_buffer"

definition iconhdnet_nitrox_cached :: mares_iconhd_parser_t where
  "iconhdnet_nitrox_cached =
     iconhdnet_nitrox_parser
       \<lparr>base_size := 132, mode := 2, nsamples := 0, samplesize := 12, headersize := 0x80,
        settings := 0, interval := 1, samplerate := 1, ntanks := 1, ngasmixes := 1,
        gasmix := [\<lparr>oxygen = 32, helium = 0\<rparr>, gasmix_zero, gasmix_zero, gasmix_zero, gasmix_zero],
        tank := [\<lparr>volume = 12, workpressure = 232, beginpressure = 20000, endpressure = 5000\<rparr>,
                 tank_zero, tank_zero, tank_zero, tank_zero],
        cached := 1\<rparr>"

text \<open>
  Two ICONHD dives of one sample (depth 100, temperature 200). In the first the mode is
  gauge, so that no gas mix is cached, and the gas mix index of the sample is 0. In the
  second the mode is air, so that one gas mix is cached, and the gas mix index of the
  sample is 1. \<open>iconhd_gauge_cached\<close> and \<open>iconhd_badmix_cached\<close> are the parsers after
  header caching.
\<close>

definition iconhd_gauge_buffer :: "byte list" where
  "iconhd_gauge_buffer =
     [104, 0, 0, 0] @ [0x64, 0, 0xC8, 0x00, 0, 0, 0, 0] @ [1, 0, 1, 0] @ replicate 88 0"

definition iconhd_gauge_parser :: mares_iconhd_parser_t where
  "iconhd_gauge_parser =
     mares_iconhd_parser_set_data (mares_iconhd_parser_create ICONHD) iconhd_gauge_buffer"

definition iconhd_gauge_cached :: mares_iconhd_parser_t where
  "iconhd_gauge_cached =
     iconhd_gauge_parser
       \<lparr>base_size := 104, mode := 1, nsamples := 1, samplesize := 8, headersize := 0x5C,
        settings := 0, interval := 1, samplerate := 1, ntanks := 0, ngasmixes := 0,
        cached := 1\<rparr>"

definition iconhd_badmix_buffer :: "byte list" where
  "iconhd_badmix_buffer =
     [104, 0, 0, 0] @ [0x64, 0, 0xC8, 0x10, 0, 0, 0, 0] @ [0, 0, 1, 0] @ replicate 88 0"

definition iconhd_badmix_parser :: mares_iconhd_parser_t where
  "iconhd_badmix_parser =
     mares_iconhd_parser_set_data (mares_iconhd_parser_create ICONHD) iconhd_badmix_buffer"

definition iconhd_badmix_cached :: mares_iconhd_parser_t where
  "iconhd_badmix_cached =
     iconhd_badmix_parser
       \<lparr>base_size := 104, mode := 0, nsamples := 1, samplesize := 8, headersize := 0x5C,
        settings := 0, interval := 1, samplerate := 1, ntanks := 0, ngasmixes := 1,
        gasmix := [\<lparr>oxygen = 21, helium = 0\<rparr>, gasmix_zero, gasmix_zero, gasmix_zero, gasmix_zero],
        cached := 1\<rparr>"

subsection \<open>Reading the event sequence\<close>

text \<open>The times of the Time events and the indices of the GasMixChange events, in order.\<close>

fun sample_times :: "dc_sample list \<Rightarrow> uint list" where
  "sample_times [] = []"
| "sample_times (DC_SAMPLE_TIME t # es) = t # sample_times es"
| "sample_times (e # es) = sample_times es"

fun gasmix_changes :: "dc_sample list \<Rightarrow> uint list" where
  "gasmix_changes [] = []"
| "gasmix_changes (DC_SAMPLE_GASMIX i # es) = i # gasmix_changes es"
| "gasmix_changes (e # es) = gasmix_changes es"

text \<open>The times 5, 10, ..., \<open>5 * m\<close>: a clock that starts at 0 and advances by 5 seconds.\<close>

definition time_steps :: "nat \<Rightarrow> uint list" where
  "time_steps m = map (\<lambda>k. 5 * of_nat (Suc k)) [0..<m]"

subsection \<open>The layout of a GENIUS dive\<close>

text \<open>
  The checks of the walk before the first sample of a GENIUS dive (lines 835-856): the
  type and the version of the profile, and the DSTR and TISS records.
\<close>

definition genius_prelude_ok :: "crc_fun \<Rightarrow> mares_iconhd_parser_t \<Rightarrow> bool" where
  "genius_prelude_ok crc parser \<longleftrightarrow>
     (let d = base_data parser; base = unat (headersize parser) in
      u16 d base = 0 \<and> d ! (base + 2) = 2 \<and> d ! (base + 3) = 0 \<and>
      mares_genius_isvalid crc d (base + 4) (unat DSTR_SIZE) DSTR_TYPE \<and>
      mares_genius_isvalid crc d (base + unat (4 + DSTR_SIZE)) (unat TISS_SIZE) TISS_TYPE)"

text \<open>
  The offset, from the start of the profile, of the record after \<open>j\<close> samples of a
  GENIUS dive: the profile tag, DSTR and TISS, \<open>j\<close> DPRS records and an AIRS record after
  every fourth of them.
\<close>

definition genius_offset :: "nat \<Rightarrow> nat" where
  "genius_offset j = 4 + unat DSTR_SIZE + unat TISS_SIZE + j * unat DPRS_SIZE + (j div 4) * unat AIRS_SIZE"

text \<open>The index in the buffer of the record after the last sample, where DEND is expected.\<close>

definition genius_dend_index :: "mares_iconhd_parser_t \<Rightarrow> nat" where
  "genius_dend_index parser = unat (headersize parser) + genius_offset (unat (nsamples parser))"

text \<open>
  The GENIUS dive of four samples cut off behind its AIRS record: the samples are there,
  the DEND record is not.
\<close>

definition genius_truncated_buffer :: "byte list" where
  "genius_truncated_buffer =
     genius_header @ genius_profile @ genius_dstr @ genius_tiss @ genius_sample1
       @ genius_sample2 @ genius_sample3 @ genius_sample4 @ genius_airs"

definition genius_truncated_parser :: mares_iconhd_parser_t where
  "genius_truncated_parser =
     mares_iconhd_parser_set_data (mares_iconhd_parser_create GENIUS) genius_truncated_buffer"

subsection \<open>The values of a counted slot\<close>

text \<open>
  The values stored for a slot that is counted: lines 308-309 and 320-323 of the standard
  path (the tank is \<open>iconhd_tank_at\<close>) and lines 425-426 and 435-438 of the GENIUS path.
\<close>

definition iconhd_gasmix_at :: "byte list \<Rightarrow> nat \<Rightarrow> nat \<Rightarrow> mares_iconhd_gasmix_t" where
  "iconhd_gasmix_at d p i = \<lparr>oxygen = ucast (d ! (p + 0x10 + i * 4)), helium = 0\<rparr>"

definition genius_gasmix_at :: "byte list \<Rightarrow> nat \<Rightarrow> mares_iconhd_gasmix_t" where
  "genius_gasmix_at d i =
     (let gasmixparams = array_uint32_le d (0x54 + i * 20 + 0)
      in \<lparr>oxygen = gasmixparams AND 0x7F, helium = drop_bit 14 gasmixparams AND 0x7F\<rparr>)"

definition genius_tank_at :: "byte list \<Rightarrow> nat \<Rightarrow> mares_iconhd_tank_t" where
  "genius_tank_at d i =
     \<lparr>volume = u16 d (0x54 + i * 20 + 8), workpressure = u16 d (0x54 + i * 20 + 10),
      beginpressure = u16 d (0x54 + i * 20 + 4), endpressure = u16 d (0x54 + i * 20 + 6)\<rparr>"

text \<open>
  An ICONHD dive in air mode without samples whose first gas mix slot is disabled
  (32 percent oxygen, bit 0x80 of the next byte set). \<open>iconhd_airoff_cached\<close> is the
  parser after header caching.
\<close>

definition iconhd_airoff_buffer :: "byte list" where
  "iconhd_airoff_buffer = [96, 0, 0, 0] @ replicate 20 0 @ [32, 0x80] @ replicate 70 0"

definition iconhd_airoff_parser :: mares_iconhd_parser_t where
  "iconhd_airoff_parser =
     mares_iconhd_parser_set_data (mares_iconhd_parser_create ICONHD) iconhd_airoff_buffer"

definition iconhd_airoff_cached :: mares_iconhd_parser_t where
  "iconhd_airoff_cached =
     iconhd_airoff_parser
       \<lparr>base_size := 96, mode := 0, nsamples := 0, samplesize := 8, headersize := 0x5C,
        settings := 0, interval := 1, samplerate := 1, ntanks := 0, ngasmixes := 1,
        gasmix := [\<lparr>oxygen = 21, helium = 0\<rparr>, gasmix_zero, gasmix_zero, gasmix_zero, gasmix_zero],
        cached := 1\<rparr>"

section \<open>Auxiliary lemmas\<close>

subsection \<open>Words\<close>

lemma u16_bound: "unat (u16 d i) < 65536"
proof -
  have "unat (array_uint16_le d i) < 2 ^ 16"
    using unsigned_less[of "array_uint16_le d i", where ?'a = nat] by simp
  then show ?thesis unfolding u16_def
    by (simp add: unsigned_ucast_eq take_bit_nat_eq_self)
qed

lemma unat_lin:
  fixes ns :: uint
  assumes "unat ns < 65536" "unat c < 1000" "unat k \<le> 34"
  shows "unat (c + ns * k) = unat c + unat ns * unat k"
proof -
  have "unat ns * unat k \<le> 65535 * 34" using assms by (intro mult_le_mono) auto
  then have "unat c + unat ns * unat k < 2 ^ 32" using assms by simp
  then show ?thesis
    by (simp add: unat_word_ariths)
qed

lemma unat_div4: "unat ((ns::uint) div 4) = unat ns div 4"
  by (simp add: unat_div)



lemma iconhd_cache_Inr:
  assumes ok: "mares_iconhd_cache parser = Inr parser'"
  defines "d \<equiv> base_data parser"
    and "m \<equiv> model parser"
    and "len \<equiv> array_uint32_le (base_data parser) 0"
  defines "tn \<equiv> iconhd_type_nsamples m d len (iconhd_header m)"
  defines "md \<equiv> fst tn AND 0x03"
  defines "hs \<equiv> iconhd_sizes m md"
  defines "p \<equiv> iconhd_p m len (fst hs)"
  defines "st \<equiv> iconhd_settings m (mode parser) d p"
  defines "iv \<equiv> iconhd_interval m st"
  defines "gms \<equiv> iconhd_gasmixes md d p"
    and "tks \<equiv> iconhd_tanks m d p"
  shows "\<not> base_size parser < 4"
    and "\<not> len < 4 + iconhd_header m"
    and "\<not> len > base_size parser"
    and "\<not> len < 4 + fst hs"
    and "len = iconhd_nbytes m d p (fst hs) (snd hs) (snd tn) (snd iv)"
    and "parser' = parser
           \<lparr>base_size := len, mode := md, nsamples := snd tn,
            samplesize := snd hs, headersize := fst hs, settings := st,
            interval := fst iv, samplerate := snd iv,
            ntanks := of_nat (fst tks), ngasmixes := of_nat (fst gms),
            gasmix := copy_slots (fst gms) (snd gms) (gasmix parser),
            tank := copy_slots (fst tks) (snd tks) (tank parser),
            cached := 1\<rparr>"
  using ok
  unfolding mares_iconhd_cache_def Let_def d_def m_def len_def tn_def md_def hs_def p_def
    st_def iv_def gms_def tks_def
  by (auto simp: case_prod_beta split: if_splits)



lemma genius_cache_Inr:
  assumes ok: "mares_genius_cache parser = Inr parser'"
  defines "d \<equiv> base_data parser"
  defines "sl \<equiv> genius_slots d 0
                     (0, 0, replicate NGASMIXES_GENIUS gasmix_zero,
                      replicate NTANKS_GENIUS tank_zero)"
  shows "\<not> base_size parser < 4"
    and "u16 d 0 = 1" and "d ! 2 = 0" and "d ! 3 = 0"
    and "\<not> 0xB8 > base_size parser"
    and "\<not> genius_nbytes 0xB8 (u16 d 0x20) > base_size parser"
    and "parser' = parser
           \<lparr>mode := array_uint32_le d 0x0C AND 0xF, nsamples := u16 d 0x20,
            samplesize := DPRS_SIZE, headersize := 0xB8, settings := array_uint32_le d 0x0C,
            interval := 5, samplerate := 1,
            ntanks := of_nat (fst (snd sl)), ngasmixes := of_nat (fst sl),
            gasmix := copy_slots (fst sl) (fst (snd (snd sl))) (gasmix parser),
            tank := copy_slots (fst (snd sl)) (snd (snd (snd sl))) (tank parser),
            cached := 1\<rparr>"
  using ok
  unfolding mares_genius_cache_def Let_def d_def sl_def
  by (auto simp: case_prod_beta split: if_splits)

lemma genius_cache_Inl:
  "mares_genius_cache parser = Inl e \<Longrightarrow> e = DC_STATUS_DATAFORMAT"
  unfolding mares_genius_cache_def Let_def
  by (auto simp: case_prod_beta split: if_splits)

lemma iconhd_cache_Inl:
  "mares_iconhd_cache parser = Inl e \<Longrightarrow> e = DC_STATUS_DATAFORMAT"
  unfolding mares_iconhd_cache_def Let_def
  by (auto simp: case_prod_beta split: if_splits)

lemma genius_nbytes_unat:
  "unat (genius_nbytes 0xB8 (u16 d i)) =
     184 + 4 + 58 + 138 + unat (u16 d i) * 34 + (unat (u16 d i) div 4) * 16 + 162"
proof -
  let ?n = "unat (u16 d i)"
  have b: "?n < 65536" by (rule u16_bound)
  have d4: "unat (u16 d i div 4) = ?n div 4" by (simp add: unat_div)
  have "184 + 4 + 58 + 138 + ?n * 34 + (?n div 4) * 16 + 162 < 2 ^ 32"
    using b by simp
  then show ?thesis
    unfolding genius_nbytes_def record_defs
    by (simp add: unat_word_ariths d4)
qed

lemma genius_fail_raw:
  "(\<exists>e. mares_genius_cache parser = Inl e) \<longleftrightarrow>
     base_size parser < 4 \<or>
     (u16 (base_data parser) 0 \<noteq> 1 \<or> base_data parser ! 2 \<noteq> 0 \<or> base_data parser ! 3 \<noteq> 0) \<or>
     0xB8 > base_size parser \<or>
     genius_nbytes 0xB8 (u16 (base_data parser) 0x20) > base_size parser"
  unfolding mares_genius_cache_def Let_def
  by (simp add: case_prod_beta)

lemma genius_fail_iff:
  "(\<exists>e. mares_genius_cache parser = Inl e) \<longleftrightarrow>
     (u16 (base_data parser) 0 \<noteq> 1 \<or> base_data parser ! 2 \<noteq> 0 \<or> base_data parser ! 3 \<noteq> 0) \<or>
     unat (base_size parser) <
       184 + 4 + 58 + 138 + unat (u16 (base_data parser) 0x20) * 34
         + (unat (u16 (base_data parser) 0x20) div 4) * 16 + 162"
  (is "?F \<longleftrightarrow> ?T \<or> ?N")
proof -
  have tot: "genius_nbytes 0xB8 (u16 (base_data parser) 0x20) > base_size parser
      \<longleftrightarrow> ?N"
    by (simp only: word_less_nat_alt genius_nbytes_unat)
  have s4: "base_size parser < 4 \<Longrightarrow> ?N"
    by (simp add: word_less_nat_alt)
  have s184: "0xB8 > base_size parser \<Longrightarrow> ?N"
    by (simp add: word_less_nat_alt)
  from genius_fail_raw[of parser] tot s4 s184 show ?thesis
    by blast
qed



lemma unat_lin2:
  fixes ns :: uint
  assumes "unat ns < 65536" "unat c < 1000" "unat k \<le> 34" "unat j \<le> 16"
  shows "unat (c + ns * k + (ns div 4) * j) = unat c + unat ns * unat k + (unat ns div 4) * unat j"
proof -
  have d4: "unat (ns div 4) = unat ns div 4" by (simp add: unat_div)
  have a: "unat ns * unat k \<le> 65535 * 34" using assms by (intro mult_le_mono) auto
  have b: "(unat ns div 4) * unat j \<le> 65535 * 16" using assms by (intro mult_le_mono) auto
  have "unat c + unat ns * unat k + (unat ns div 4) * unat j < 2 ^ 32" using a b assms(2) by simp
  then show ?thesis
    by (simp add: unat_word_ariths d4 mod_simps)
qed

lemma iconhd_sizes_cases:
  "iconhd_sizes m md \<in> {(0x80, 12), (0x84, 12), (0x2E, 6), (0x5C, 8), (0x50, 14)}"
  unfolding iconhd_sizes_def by simp

lemma iconhd_nbytes_unat:
  assumes ns: "unat ns < 65536" and m: "m \<noteq> SMARTAPNEA"
    and hs: "(hsize, ssize) = iconhd_sizes m md"
  shows "unat (iconhd_nbytes m d p hsize ssize ns sr) =
     4 + unat hsize + unat ns * unat ssize +
       (if m = ICONHDNET \<or> m = QUADAIR \<or> m = SMARTAIR then (unat ns div 4) * 8 else 0)"
proof -
  have c: "unat (4 + hsize) = 4 + unat hsize" "unat (4 + hsize) < 1000" "unat ssize \<le> 34"
    using iconhd_sizes_cases[of m md] hs[symmetric] by auto
  show ?thesis
  proof (cases "m = ICONHDNET \<or> m = QUADAIR \<or> m = SMARTAIR")
    case True
    then show ?thesis
      using unat_lin2[OF ns c(2) c(3), of 8] c(1)
      by (simp add: iconhd_nbytes_def Let_def)
  next
    case False
    then show ?thesis
      using unat_lin[OF ns c(2) c(3)] c(1) m
      by (simp add: iconhd_nbytes_def Let_def)
  qed
qed

lemma iconhd_nbytes_apnea:
  "unat (iconhd_nbytes SMARTAPNEA d p hsize ssize ns sr) =
     (4 + unat hsize + unat ns * unat ssize + unat (array_uint32_le d (p + 0x24)) * unat sr * 2)
       mod 2 ^ 32"
  by (simp add: iconhd_nbytes_def Let_def model_defs unat_word_ariths mod_simps)

lemma type_nsamples_bound: "unat (snd (iconhd_type_nsamples m d len header)) < 65536"
  unfolding iconhd_type_nsamples_def by (simp add: u16_bound)

lemma C1_std:
  assumes ok: "mares_iconhd_cache parser = Inr parser'"
  shows "(headersize parser', samplesize parser') = iconhd_sizes (model parser) (mode parser')"
    and "model parser \<noteq> SMARTAPNEA \<Longrightarrow>
            unat (array_uint32_le (base_data parser) 0) =
              4 + unat (headersize parser') + unat (nsamples parser') * unat (samplesize parser')
              + (if model parser = ICONHDNET \<or> model parser = QUADAIR \<or> model parser = SMARTAIR
                 then (unat (nsamples parser') div 4) * 8 else 0)"
    and "model parser = SMARTAPNEA \<Longrightarrow>
            unat (array_uint32_le (base_data parser) 0) =
              (4 + unat (headersize parser') + unat (nsamples parser') * unat (samplesize parser')
               + unat (array_uint32_le (base_data parser)
                        (unat (array_uint32_le (base_data parser) 0) - unat (headersize parser') + 0x24))
                 * unat (samplerate parser') * 2) mod 2 ^ 32"
proof -
  note f = iconhd_cache_Inr[OF ok]
  show hs: "(headersize parser', samplesize parser') = iconhd_sizes (model parser) (mode parser')"
    by (simp add: f(6))
  have ns: "unat (nsamples parser') < 65536"
    by (simp add: f(6) type_nsamples_bound)
  {
    assume m: "model parser \<noteq> SMARTAPNEA"
    show "unat (array_uint32_le (base_data parser) 0) =
              4 + unat (headersize parser') + unat (nsamples parser') * unat (samplesize parser')
              + (if model parser = ICONHDNET \<or> model parser = QUADAIR \<or> model parser = SMARTAIR
                 then (unat (nsamples parser') div 4) * 8 else 0)"
      apply (subst f(5))
      apply (subst iconhd_nbytes_unat[where md = "mode parser'"])
      using ns m hs apply (simp_all add: f(6))
      done
  }
  {
    assume m: "model parser = SMARTAPNEA"
    show "unat (array_uint32_le (base_data parser) 0) =
              (4 + unat (headersize parser') + unat (nsamples parser') * unat (samplesize parser')
               + unat (array_uint32_le (base_data parser)
                        (unat (array_uint32_le (base_data parser) 0) - unat (headersize parser') + 0x24))
                 * unat (samplerate parser') * 2) mod 2 ^ 32"
      apply (subst f(5))
      apply (simp only: m iconhd_nbytes_apnea)
      apply (simp add: f(6) m iconhd_p_def)
      done
  }
qed

lemmas iconhd_cache_defs =
  mares_iconhd_parser_cache_def mares_iconhd_cache_def iconhd_header_def
  iconhd_type_nsamples_def iconhd_sizes_def iconhd_p_def iconhd_settings_def
  iconhd_interval_def iconhd_nbytes_def iconhd_gasmixes_def iconhd_tanks_def

lemmas parser_init_defs =
  mares_iconhd_parser_set_data_def mares_iconhd_parser_create_def

lemma replicate_slots:
  "replicate 5 x = [x, x, x, x, x]" "replicate 3 x = [x, x, x]"
  by (simp_all add: numeral_eq_Suc)

lemmas read_defs = u16_def array_uint16_le_def array_uint32_le_def array_uint32_be_def

lemma iconhd_header_sizes:
  "m \<noteq> SMART \<Longrightarrow> m \<noteq> SMARTAPNEA \<Longrightarrow> m \<noteq> SMARTAIR \<Longrightarrow>
     fst (iconhd_sizes m md) = iconhd_header m"
  by (simp add: iconhd_sizes_def iconhd_header_def)

subsection \<open>Reads in a buffer made of pieces\<close>

lemma u16_append_l: "i + 2 \<le> length xs \<Longrightarrow> u16 (xs @ ys) i = u16 xs i"
  by (simp add: u16_def array_uint16_le_def nth_append)

lemma u16_append_r: "length xs \<le> i \<Longrightarrow> u16 (xs @ ys) i = u16 ys (i - length xs)"
  by (simp add: u16_def array_uint16_le_def nth_append Suc_diff_le)

lemma u16le_append_l: "i + 2 \<le> length xs \<Longrightarrow> array_uint16_le (xs @ ys) i = array_uint16_le xs i"
  by (simp add: array_uint16_le_def nth_append)

lemma u16le_append_r:
  "length xs \<le> i \<Longrightarrow> array_uint16_le (xs @ ys) i = array_uint16_le ys (i - length xs)"
  by (simp add: array_uint16_le_def nth_append Suc_diff_le)

lemma u32le_append_l: "i + 4 \<le> length xs \<Longrightarrow> array_uint32_le (xs @ ys) i = array_uint32_le xs i"
  by (simp add: array_uint32_le_def nth_append)

lemma u32le_append_r:
  "length xs \<le> i \<Longrightarrow> array_uint32_le (xs @ ys) i = array_uint32_le ys (i - length xs)"
  by (simp add: array_uint32_le_def nth_append Suc_diff_le)

lemma u32be_append_l: "i + 4 \<le> length xs \<Longrightarrow> array_uint32_be (xs @ ys) i = array_uint32_be xs i"
  by (simp add: array_uint32_be_def nth_append)

lemma u32be_append_r:
  "length xs \<le> i \<Longrightarrow> array_uint32_be (xs @ ys) i = array_uint32_be ys (i - length xs)"
  by (simp add: array_uint32_be_def nth_append Suc_diff_le)

lemma isvalid_append_l:
  "pos + sz \<le> length xs \<Longrightarrow>
     mares_genius_isvalid crc (xs @ ys) pos sz t = mares_genius_isvalid crc xs pos sz t"
  by (cases "sz < 10")
     (simp_all add: mares_genius_isvalid_def Let_def u32be_append_l u16le_append_l)

lemma isvalid_shift:
  "mares_genius_isvalid crc (xs @ ys) (length xs + k) sz t = mares_genius_isvalid crc ys k sz t"
proof (cases "sz < 10")
  case True
  then show ?thesis by (simp add: mares_genius_isvalid_def)
next
  case False
  then have a: "length xs + k + sz - 4 = length xs + (k + sz - 4)"
    and b: "length xs + k + sz - 6 = length xs + (k + sz - 6)"
    and c: "length xs + k + 4 = length xs + (k + 4)"
    by simp_all
  show ?thesis
    unfolding mares_genius_isvalid_def Let_def a b c
    by (simp add: u32be_append_r u16le_append_r)
qed

lemma isvalid_append_r:
  "length xs \<le> pos \<Longrightarrow>
     mares_genius_isvalid crc (xs @ ys) pos sz t
       = mares_genius_isvalid crc ys (pos - length xs) sz t"
  using isvalid_shift[of crc xs ys "pos - length xs" sz t] by simp

lemmas append_reads =
  u16_append_l u16_append_r u32le_append_l u32le_append_r isvalid_append_l isvalid_append_r
  nth_append

lemma crc16_byte_unfold:
  "crc16_byte c b =
     crc16_bit (crc16_bit (crc16_bit (crc16_bit (crc16_bit (crc16_bit (crc16_bit (crc16_bit
       (c XOR push_bit 8 (ucast b)))))))))"
  by (simp add: crc16_byte_def numeral_eq_Suc)

lemma crc16_byte_zero: "crc16_byte 0 0 = 0"
  by (simp add: crc16_byte_unfold crc16_bit_def)

lemma crc16_zeros: "checksum_crc16_ccitt (replicate n 0) 0 = 0"
  unfolding checksum_crc16_ccitt_def
  by (induction n) (simp_all add: crc16_byte_zero)

lemma replicate_num: "replicate (numeral k) x = x # replicate (pred_numeral k) x"
  by (simp add: numeral_eq_Suc)

lemmas crc_eval = checksum_crc16_ccitt_def crc16_byte_unfold crc16_bit_def

lemmas genius_piece_defs =
  genius_header_def genius_profile_def genius_dstr_def genius_tiss_def genius_sample1_def
  genius_sample2_def genius_sample3_def genius_sample4_def genius_airs_def genius_dend_def
  genius_dend_flipped_def

lemma genius_piece_lengths:
  "length genius_header = 184"
  "length genius_profile = 4"
  "length genius_dstr = 58"
  "length genius_tiss = 138"
  "length genius_sample1 = 34"
  "length genius_sample2 = 34"
  "length genius_sample3 = 34"
  "length genius_sample4 = 34"
  "length genius_airs = 16"
  "length genius_dend = 162"
  "length genius_dend_flipped = 162"
  by (simp_all add: genius_piece_defs)

lemma genius_header_reads:
  "u16 genius_header 0 = 1"
  "genius_header ! 2 = 0"
  "genius_header ! 3 = 0"
  "u16 genius_header 32 = 4"
  "array_uint32_le genius_header 12 = 2"
  "genius_header ! 52 = 1"
  "array_uint32_le genius_header 84 = 4204437"
  "u16 genius_header 88 = 20000"
  "u16 genius_header 90 = 5000"
  "u16 genius_header 92 = 12"
  "u16 genius_header 94 = 232"
  "array_uint32_le genius_header 104 = 2103602"
  "u16 genius_header 108 = 20000"
  "u16 genius_header 110 = 18000"
  "u16 genius_header 112 = 7"
  "u16 genius_header 114 = 200"
  "array_uint32_le genius_header 124 = 0"
  "u16 genius_header 128 = 0"
  "u16 genius_header 130 = 0"
  "u16 genius_header 132 = 0"
  "u16 genius_header 134 = 0"
  "array_uint32_le genius_header 144 = 2105888"
  "u16 genius_header 148 = 0"
  "u16 genius_header 150 = 36000"
  "u16 genius_header 152 = 0"
  "u16 genius_header 154 = 0"
  "array_uint32_le genius_header 164 = 0"
  "u16 genius_header 168 = 0"
  "u16 genius_header 170 = 0"
  "u16 genius_header 172 = 0"
  "u16 genius_header 174 = 0"
  by (simp_all add: genius_header_def read_defs nth_append)

lemma genius_profile_reads:
  "u16 genius_profile 0 = 0" "genius_profile ! 2 = 2" "genius_profile ! 3 = 0"
  by (simp_all add: genius_profile_def read_defs)

lemma genius_sample1_reads:
  "u16 genius_sample1 4 = 100" "u16 genius_sample1 8 = 200" "u16 genius_sample1 14 = 0"
  "array_uint32_le genius_sample1 16 = 0" "array_uint32_le genius_sample1 24 = 0"
  by (simp_all add: genius_sample1_def read_defs nth_append)

lemma genius_sample2_reads:
  "u16 genius_sample2 4 = 150" "u16 genius_sample2 8 = 198" "u16 genius_sample2 14 = 0"
  "array_uint32_le genius_sample2 16 = 4" "array_uint32_le genius_sample2 24 = 0"
  by (simp_all add: genius_sample2_def read_defs nth_append)

lemma genius_sample3_reads:
  "u16 genius_sample3 4 = 200" "u16 genius_sample3 8 = 195" "u16 genius_sample3 14 = 2"
  "array_uint32_le genius_sample3 16 = 0" "array_uint32_le genius_sample3 24 = 1835072"
  by (simp_all add: genius_sample3_def read_defs nth_append)

lemma genius_sample4_reads:
  "u16 genius_sample4 4 = 120" "u16 genius_sample4 8 = 196" "u16 genius_sample4 14 = 0"
  "array_uint32_le genius_sample4 16 = 0" "array_uint32_le genius_sample4 24 = 64"
  by (simp_all add: genius_sample4_def read_defs nth_append)

lemma genius_airs_reads:
  "u16 genius_airs 4 = 15000"
  by (simp_all add: genius_airs_def read_defs)

lemma genius_dstr_valid:
  "mares_genius_isvalid checksum_crc16_ccitt genius_dstr 0 58 DSTR_TYPE"
  by (simp add: mares_genius_isvalid_def genius_dstr_def read_defs record_defs Let_def nth_append
      crc16_zeros)

lemma genius_tiss_valid:
  "mares_genius_isvalid checksum_crc16_ccitt genius_tiss 0 138 TISS_TYPE"
  by (simp add: mares_genius_isvalid_def genius_tiss_def read_defs record_defs Let_def nth_append
      crc16_zeros)

lemma genius_sample1_valid:
  "mares_genius_isvalid checksum_crc16_ccitt genius_sample1 0 34 DPRS_TYPE"
  by (simp add: mares_genius_isvalid_def genius_sample1_def read_defs record_defs Let_def nth_append
      replicate_num crc_eval)

lemma genius_sample2_valid:
  "mares_genius_isvalid checksum_crc16_ccitt genius_sample2 0 34 DPRS_TYPE"
  by (simp add: mares_genius_isvalid_def genius_sample2_def read_defs record_defs Let_def nth_append
      replicate_num crc_eval)

lemma genius_sample3_valid:
  "mares_genius_isvalid checksum_crc16_ccitt genius_sample3 0 34 DPRS_TYPE"
  by (simp add: mares_genius_isvalid_def genius_sample3_def read_defs record_defs Let_def nth_append
      replicate_num crc_eval)

lemma genius_sample4_valid:
  "mares_genius_isvalid checksum_crc16_ccitt genius_sample4 0 34 DPRS_TYPE"
  by (simp add: mares_genius_isvalid_def genius_sample4_def read_defs record_defs Let_def nth_append
      replicate_num crc_eval)

lemma genius_airs_valid:
  "mares_genius_isvalid checksum_crc16_ccitt genius_airs 0 16 AIRS_TYPE"
  by (simp add: mares_genius_isvalid_def genius_airs_def read_defs record_defs Let_def nth_append
      replicate_num crc_eval)

lemma genius_dend_valid:
  "mares_genius_isvalid checksum_crc16_ccitt genius_dend 0 162 DEND_TYPE"
  by (simp add: mares_genius_isvalid_def genius_dend_def read_defs record_defs Let_def nth_append
      crc16_zeros)

lemma genius_dend_flipped_invalid:
  "\<not> mares_genius_isvalid checksum_crc16_ccitt genius_dend_flipped 0 162 DEND_TYPE"
  by (simp add: mares_genius_isvalid_def genius_dend_flipped_def read_defs record_defs Let_def nth_append
      crc16_zeros)

lemmas genius_piece_facts =
  genius_piece_lengths genius_header_reads genius_profile_reads genius_sample1_reads
  genius_sample2_reads genius_sample3_reads genius_sample4_reads genius_airs_reads
  genius_dstr_valid genius_tiss_valid genius_sample1_valid genius_sample2_valid
  genius_sample3_valid genius_sample4_valid genius_airs_valid genius_dend_valid
  genius_dend_flipped_invalid

lemma genius_dive_cache:
  "mares_iconhd_parser_cache genius_dive_parser = Inr (genius_dive_cached genius_dive_parser)"
  by (simp add: genius_dive_parser_def genius_dive_cached_def genius_dive_buffer_def
      parser_init_defs mares_iconhd_parser_cache_def mares_genius_cache_def genius_nbytes_def
      genius_slots.simps genius_slot_def append_reads genius_piece_facts
      model_defs mode_defs count_defs record_defs GASMIX_OFF_def
      Let_def gasmix_zero_def tank_zero_def replicate_slots)

lemma genius_dive_cached_fields:
  "base_data (genius_dive_cached genius_dive_parser) = genius_dive_buffer"
  "model (genius_dive_cached genius_dive_parser) = GENIUS"
  "nsamples (genius_dive_cached genius_dive_parser) = 4"
  "samplesize (genius_dive_cached genius_dive_parser) = 34"
  "headersize (genius_dive_cached genius_dive_parser) = 184"
  "interval (genius_dive_cached genius_dive_parser) = 5"
  "ngasmixes (genius_dive_cached genius_dive_parser) = 2"
  "ntanks (genius_dive_cached genius_dive_parser) = 2"
  "mode (genius_dive_cached genius_dive_parser) = 2"
  by (simp_all add: genius_dive_cached_def genius_dive_parser_def parser_init_defs)

lemmas walk_defs =
  walk_record_def walk_sample_def sample_fields_def emit_time_depth_temperature_def
  emit_gasmix_def emit_deco_alarms_def walk_airs_def walk_init_def alarm_event_type_def
  ALARM_FAST_ASCENT_def ALARM_UNCONTROLLED_ASCENT_def ALARM_MISSED_DECO_def
  ALARM_DIVE_VIOLATION_DECO_def

lemmas record_size_defs =
  DSTR_SIZE_def TISS_SIZE_def DPRS_SIZE_def AIRS_SIZE_def DEND_SIZE_def

lemma genius_dive_foreach:
  "mares_iconhd_parser_samples_foreach checksum_crc16_ccitt genius_dive_parser =
     (Inr (), genius_dive_events, genius_dive_cached genius_dive_parser)"
  by (simp add: mares_iconhd_parser_samples_foreach_def genius_dive_cache
      genius_dive_cached_fields genius_dive_buffer_def genius_dive_events_def
      walk_loop.simps alarm_events.simps walk_defs append_reads genius_piece_facts
      model_defs mode_defs record_size_defs Let_def word_le_nat_alt word_less_nat_alt)

lemma take_drop_range:
  assumes "m + n \<le> length xs"
  shows "take n (drop m xs) = map (\<lambda>i. xs ! i) [m..<m + n]"
  using assms by (auto intro!: nth_equalityI)

lemma genius_oddmode_cache:
  "mares_iconhd_parser_cache genius_oddmode_parser = Inr genius_oddmode_cached"
  by (simp add: genius_oddmode_cached_def genius_oddmode_parser_def genius_oddmode_buffer_def
      parser_init_defs mares_iconhd_parser_cache_def mares_genius_cache_def genius_nbytes_def
      genius_slots.simps genius_slot_def read_defs nth_append
      model_defs mode_defs count_defs record_defs GASMIX_OFF_def
      Let_def gasmix_zero_def tank_zero_def replicate_slots)

lemma active_prefix_gap:
  "active_prefix P n k \<Longrightarrow> \<not> P i \<Longrightarrow> k \<le> i"
  unfolding active_prefix_def by (meson not_le)

lemma gasmix_scan_prefix:
  assumes "iconhd_gasmix_scan d p n gm = (n', gm')"
    and "n \<le> NGASMIXES_ICONHD" and "\<forall>i<n. iconhd_gasmix_enabled d p i"
  shows "active_prefix (iconhd_gasmix_enabled d p) NGASMIXES_ICONHD n'"
  using assms
proof (induction d p n gm arbitrary: n' gm' rule: iconhd_gasmix_scan.induct)
  case (1 d p n gm)
  show ?case
  proof (cases "n < NGASMIXES_ICONHD")
    case False
    with "1.prems" show ?thesis
      by (simp add: iconhd_gasmix_scan.simps[of d p n gm] active_prefix_def)
  next
    case lt: True
    show ?thesis
    proof (cases "d ! (p + 0x10 + n * 4 + 1) AND 0x80 \<noteq> 0")
      case True
      with lt "1.prems" show ?thesis
        by (simp add: iconhd_gasmix_scan.simps[of d p n gm] active_prefix_def
            iconhd_gasmix_enabled_def)
    next
      case False
      then have en: "iconhd_gasmix_enabled d p n" by (simp add: iconhd_gasmix_enabled_def)
      have all: "\<forall>i<Suc n. iconhd_gasmix_enabled d p i"
        using "1.prems"(3) en by (simp add: less_Suc_eq)
      from lt False "1.prems"(1)
      have rec: "iconhd_gasmix_scan d p (Suc n)
           (gm[n := \<lparr>oxygen = ucast (d ! (p + 0x10 + n * 4)), helium = 0\<rparr>]) = (n', gm')"
        by (simp add: iconhd_gasmix_scan.simps[of d p n gm])
      from "1.IH"[OF lt False rec _ all] lt show ?thesis by simp
    qed
  qed
qed

lemma tank_scan_prefix:
  assumes "iconhd_tank_scan d p off n tk = (n', tk')"
    and "n \<le> NTANKS_ICONHD" and "\<forall>i<n. iconhd_tank_active d p off i"
    and "length tk = NTANKS_ICONHD"
  shows "active_prefix (iconhd_tank_active d p off) NTANKS_ICONHD n'"
  using assms
proof (induction d p off n tk arbitrary: n' tk' rule: iconhd_tank_scan.induct)
  case (1 d p off n tk)
  show ?case
  proof (cases "n < NTANKS_ICONHD")
    case False
    with "1.prems" show ?thesis
      by (simp add: iconhd_tank_scan.simps[of d p off n tk] active_prefix_def)
  next
    case lt: True
    let ?tk = "tk[n := iconhd_tank_at d p off n]"
    have at: "?tk ! n = iconhd_tank_at d p off n"
      using lt "1.prems"(4) by simp
    have act: "iconhd_tank_active d p off n \<longleftrightarrow>
        \<not> (beginpressure (?tk ! n) = 0 \<and> (endpressure (?tk ! n) = 0 \<or> endpressure (?tk ! n) = 36000))"
      unfolding at by (simp add: iconhd_tank_active_def tank_active_def iconhd_tank_at_def)
    show ?thesis
    proof (cases "iconhd_tank_active d p off n")
      case False
      with lt "1.prems" act show ?thesis
        by (simp add: iconhd_tank_scan.simps[of d p off n tk] active_prefix_def Let_def)
    next
      case True
      have all: "\<forall>i<Suc n. iconhd_tank_active d p off i"
        using "1.prems"(3) True by (simp add: less_Suc_eq)
      from lt True act "1.prems"(1)
      have rec: "iconhd_tank_scan d p off (Suc n) ?tk = (n', tk')"
        by (auto simp: iconhd_tank_scan.simps[of d p off n tk] Let_def split: if_splits)
      have na: "\<not> (beginpressure (?tk ! n) = 0 \<and>
           (endpressure (?tk ! n) = 0 \<or> endpressure (?tk ! n) = 36000))"
        using True act by simp
      from "1.IH"[OF lt refl na rec _ all] lt "1.prems"(4) show ?thesis by simp
    qed
  qed
qed


lemma active_prefix_no_gap: "active_prefix P n k \<Longrightarrow> no_active_after_gap P k"
  unfolding no_active_after_gap_def using active_prefix_gap[of P n k] by fastforce

lemma active_prefix_step:
  assumes "active_prefix P i k"
  shows "active_prefix P (Suc i) (if P i \<and> k = i then Suc k else k)"
  using assms unfolding active_prefix_def
  by (auto simp: less_Suc_eq)

lemma genius_slot_counts:
  "fst (genius_slot d i (ngm, ntk, gm, tk)) =
     (if genius_gasmix_active d i \<and> ngm = i then Suc ngm else ngm)"
  "fst (snd (genius_slot d i (ngm, ntk, gm, tk))) =
     (if genius_tank_active d i \<and> ntk = i then Suc ntk else ntk)"
  by (simp_all add: genius_slot_def Let_def genius_gasmix_active_def genius_tank_active_def
      tank_active_def case_prod_beta)

lemma genius_slots_prefix:
  assumes "i \<le> NGASMIXES_GENIUS"
    and "active_prefix (genius_gasmix_active d) i (fst acc)"
    and "active_prefix (genius_tank_active d) i (fst (snd acc))"
  shows "active_prefix (genius_gasmix_active d) NGASMIXES_GENIUS (fst (genius_slots d i acc)) \<and>
         active_prefix (genius_tank_active d) NGASMIXES_GENIUS (fst (snd (genius_slots d i acc)))"
  using assms
proof (induction d i acc rule: genius_slots.induct)
  case (1 d i acc)
  show ?case
  proof (cases "i < NGASMIXES_GENIUS")
    case False
    then have stop: "genius_slots d i acc = acc"
      by (simp add: genius_slots.simps[of d i acc])
    from False "1.prems"(1) have "i = NGASMIXES_GENIUS" by simp
    with "1.prems" show ?thesis
      unfolding stop by simp
  next
    case True
    obtain ngm ntk gm tk where acc: "acc = (ngm, ntk, gm, tk)"
      by (cases acc) auto
    have g: "active_prefix (genius_gasmix_active d) (Suc i) (fst (genius_slot d i acc))"
      using active_prefix_step[OF "1.prems"(2)] unfolding acc
      by (auto simp: genius_slot_counts split: if_splits)
    have t: "active_prefix (genius_tank_active d) (Suc i) (fst (snd (genius_slot d i acc)))"
      using active_prefix_step[OF "1.prems"(3)] unfolding acc
      by (auto simp: genius_slot_counts split: if_splits)
    from "1.IH"[OF True _ g t] True show ?thesis
      by (simp add: genius_slots.simps[of d i acc])
  qed
qed

lemma active_prefix_0: "active_prefix P 0 0"
  by (simp add: active_prefix_def)

lemma unat_count: "n \<le> 5 \<Longrightarrow> unat (of_nat n :: uint) = n"
  by (simp add: unat_of_nat)

lemma word_and_3_cases:
  fixes w :: uint
  shows "w AND 3 = 0 \<or> w AND 3 = 1 \<or> w AND 3 = 2 \<or> w AND 3 = 3"
proof -
  have "w AND 3 \<le> 3" by (rule word_and_le1)
  then have le: "unat (w AND 3) \<le> 3" by (simp add: word_le_nat_alt)
  have eq: "w AND 3 = of_nat (unat (w AND 3))" by simp
  from le have "unat (w AND 3) = 0 \<or> unat (w AND 3) = 1 \<or> unat (w AND 3) = 2
      \<or> unat (w AND 3) = 3" by auto
  then show ?thesis
    using eq by (elim disjE) simp_all
qed

lemma active_prefix_le: "active_prefix P n k \<Longrightarrow> k \<le> n"
  by (simp add: active_prefix_def)

lemma iconhdnet_nitrox_cache:
  "mares_iconhd_parser_cache iconhdnet_nitrox_parser = Inr iconhdnet_nitrox_cached"
  by (simp add: iconhdnet_nitrox_cached_def iconhdnet_nitrox_parser_def iconhdnet_nitrox_buffer_def
      parser_init_defs iconhd_cache_defs iconhd_gasmix_scan.simps iconhd_tank_scan.simps
      iconhd_tank_at_def read_defs model_defs mode_defs count_defs Let_def nth_append
      gasmix_zero_def tank_zero_def replicate_slots)

lemma copy_slots_beyond: "n \<le> i \<Longrightarrow> copy_slots n src dst ! i = dst ! i"
  by (induction n) simp_all

lemma iconhd_gasmixes_le: "fst (iconhd_gasmixes md d p) \<le> 5"
proof -
  obtain n' gm' where sc: "iconhd_gasmix_scan d p 0 (replicate NGASMIXES_ICONHD gasmix_zero)
      = (n', gm')" by fastforce
  from gasmix_scan_prefix[OF sc] have "n' \<le> 3"
    by (simp add: active_prefix_def count_defs)
  then show ?thesis
    using sc by (simp add: iconhd_gasmixes_def Let_def)
qed

lemma iconhd_tanks_le: "fst (iconhd_tanks m d p) \<le> 5"
proof -
  let ?off = "if m = ICONHDNET then 0x58 else 0x5C :: nat"
  obtain n' tk' where sc: "iconhd_tank_scan d p ?off 0 (replicate NTANKS_ICONHD tank_zero)
      = (n', tk')" by fastforce
  from tank_scan_prefix[OF sc] have "n' \<le> 3"
    by (simp add: active_prefix_def count_defs)
  then show ?thesis
    using sc by (simp add: iconhd_tanks_def Let_def)
qed

lemma genius_slots_le:
  "fst (genius_slots d 0 (0, 0, gm, tk)) \<le> 5" "fst (snd (genius_slots d 0 (0, 0, gm, tk))) \<le> 5"
  using genius_slots_prefix[of 0 d "(0, 0, gm, tk)"]
  by (simp_all add: active_prefix_def count_defs)

lemma cache_after_set_data:
  assumes ok: "mares_iconhd_parser_cache (mares_iconhd_parser_set_data parser0 d) = Inr parser"
  shows "\<exists>ngm ntk. ngm \<le> 5 \<and> ntk \<le> 5 \<and>
           ngasmixes parser = of_nat ngm \<and> ntanks parser = of_nat ntk \<and>
           (\<forall>i. ngm \<le> i \<and> i < 5 \<longrightarrow> gasmix parser ! i = gasmix_zero) \<and>
           (\<forall>i. ntk \<le> i \<and> i < 5 \<longrightarrow> tank parser ! i = tank_zero)"
proof -
  let ?q = "mares_iconhd_parser_set_data parser0 d"
  have q: "cached ?q = 0" "gasmix ?q = replicate 5 gasmix_zero" "tank ?q = replicate 5 tank_zero"
    by (simp_all add: mares_iconhd_parser_set_data_def count_defs)
  show ?thesis
  proof (cases "model ?q = GENIUS")
    case True
    with ok q have ok': "mares_genius_cache ?q = Inr parser"
      by (simp add: mares_iconhd_parser_cache_def)
    note f = genius_cache_Inr[OF ok']
    let ?sl = "genius_slots (base_data ?q) 0
                 (0, 0, replicate NGASMIXES_GENIUS gasmix_zero, replicate NTANKS_GENIUS tank_zero)"
    have ng: "ngasmixes parser = of_nat (fst ?sl)" and nt: "ntanks parser = of_nat (fst (snd ?sl))"
      and gm: "gasmix parser = copy_slots (fst ?sl) (fst (snd (snd ?sl))) (replicate 5 gasmix_zero)"
      and tk: "tank parser = copy_slots (fst (snd ?sl)) (snd (snd (snd ?sl))) (replicate 5 tank_zero)"
      by (simp_all add: f(7) q)
    have "\<forall>i. fst ?sl \<le> i \<and> i < 5 \<longrightarrow> gasmix parser ! i = gasmix_zero"
      by (simp add: gm copy_slots_beyond)
    moreover have "\<forall>i. fst (snd ?sl) \<le> i \<and> i < 5 \<longrightarrow> tank parser ! i = tank_zero"
      by (simp add: tk copy_slots_beyond)
    ultimately show ?thesis
      using ng nt genius_slots_le[of "base_data ?q"] by blast
  next
    case False
    with ok q have ok': "mares_iconhd_cache ?q = Inr parser"
      by (simp add: mares_iconhd_parser_cache_def)
    note f = iconhd_cache_Inr[OF ok']
    let ?p = "iconhd_p (model ?q) (base_size parser) (headersize parser)"
    let ?gms = "iconhd_gasmixes (mode parser) (base_data ?q) ?p"
    let ?tks = "iconhd_tanks (model ?q) (base_data ?q) ?p"
    have ng: "ngasmixes parser = of_nat (fst ?gms)" and nt: "ntanks parser = of_nat (fst ?tks)"
      and gm: "gasmix parser = copy_slots (fst ?gms) (snd ?gms) (replicate 5 gasmix_zero)"
      and tk: "tank parser = copy_slots (fst ?tks) (snd ?tks) (replicate 5 tank_zero)"
      by (simp_all add: f(6) q)
    have "\<forall>i. fst ?gms \<le> i \<and> i < 5 \<longrightarrow> gasmix parser ! i = gasmix_zero"
      by (simp add: gm copy_slots_beyond)
    moreover have "\<forall>i. fst ?tks \<le> i \<and> i < 5 \<longrightarrow> tank parser ! i = tank_zero"
      by (simp add: tk copy_slots_beyond)
    ultimately show ?thesis
      using ng nt iconhd_gasmixes_le iconhd_tanks_le by blast
  qed
qed

lemma iconhd_gauge_cache:
  "mares_iconhd_parser_cache iconhd_gauge_parser = Inr iconhd_gauge_cached"
  by (simp add: iconhd_gauge_cached_def iconhd_gauge_parser_def iconhd_gauge_buffer_def
      parser_init_defs iconhd_cache_defs read_defs model_defs mode_defs count_defs Let_def
      nth_append gasmix_zero_def tank_zero_def replicate_slots)

lemma iconhd_badmix_cache:
  "mares_iconhd_parser_cache iconhd_badmix_parser = Inr iconhd_badmix_cached"
  by (simp add: iconhd_badmix_cached_def iconhd_badmix_parser_def iconhd_badmix_buffer_def
      parser_init_defs iconhd_cache_defs read_defs model_defs mode_defs count_defs Let_def
      nth_append gasmix_zero_def tank_zero_def replicate_slots)

lemma iconhd_gauge_cached_fields:
  "base_data iconhd_gauge_cached = iconhd_gauge_buffer"
  "model iconhd_gauge_cached = ICONHD"
  "mode iconhd_gauge_cached = 1"
  "nsamples iconhd_gauge_cached = 1"
  "samplesize iconhd_gauge_cached = 8"
  "interval iconhd_gauge_cached = 1"
  "ngasmixes iconhd_gauge_cached = 0"
  "ntanks iconhd_gauge_cached = 0"
  by (simp_all add: iconhd_gauge_cached_def iconhd_gauge_parser_def parser_init_defs)

lemma iconhd_badmix_cached_fields:
  "base_data iconhd_badmix_cached = iconhd_badmix_buffer"
  "model iconhd_badmix_cached = ICONHD"
  "mode iconhd_badmix_cached = 0"
  "nsamples iconhd_badmix_cached = 1"
  "samplesize iconhd_badmix_cached = 8"
  "interval iconhd_badmix_cached = 1"
  "ngasmixes iconhd_badmix_cached = 1"
  "ntanks iconhd_badmix_cached = 0"
  by (simp_all add: iconhd_badmix_cached_def iconhd_badmix_parser_def parser_init_defs)

lemma sample_times_append [simp]: "sample_times (xs @ ys) = sample_times xs @ sample_times ys"
  by (induction xs rule: sample_times.induct) simp_all

lemma gasmix_changes_append [simp]:
  "gasmix_changes (xs @ ys) = gasmix_changes xs @ gasmix_changes ys"
  by (induction xs rule: gasmix_changes.induct) simp_all

lemma alarm_events_plain [simp]:
  "sample_times (alarm_events v i) = []" "gasmix_changes (alarm_events v i) = []"
proof (induction v i rule: alarm_events.induct)
  case (1 v i)
  {
    case 1
    show ?case
      using "1.IH"(1) by (subst alarm_events.simps) simp
  next
    case 2
    show ?case
      using "1.IH"(2) by (subst alarm_events.simps) simp
  }
qed

lemma emit_gasmix_events:
  "w_events (emit_gasmix parser mix w) =
     w_events w @ (if 0 < ngasmixes parser \<and> mix \<noteq> w_gasmix_previous w
                   then [DC_SAMPLE_GASMIX mix] else [])"
  "0 < ngasmixes parser \<Longrightarrow> w_gasmix_previous (emit_gasmix parser mix w) = mix"
  "ngasmixes parser = 0 \<Longrightarrow> w_gasmix_previous (emit_gasmix parser mix w) = w_gasmix_previous w"
  by (auto simp: emit_gasmix_def)

lemma emit_deco_alarms_events [simp]:
  "sample_times (w_events (emit_deco_alarms parser off marker misc alarms w))
     = sample_times (w_events w)"
  "gasmix_changes (w_events (emit_deco_alarms parser off marker misc alarms w))
     = gasmix_changes (w_events w)"
  by (simp_all add: emit_deco_alarms_def Let_def)

lemma walk_airs_events:
  "sample_times (w_events (snd (walk_airs crc parser base marker air mix w)))
     = sample_times (w_events w)"
  "gasmix_changes (w_events (snd (walk_airs crc parser base marker air mix w)))
     = gasmix_changes (w_events w)"
  "w_gasmix_previous (snd (walk_airs crc parser base marker air mix w)) = w_gasmix_previous w"
  "w_time (snd (walk_airs crc parser base marker air mix w)) = w_time w"
  "model parser \<noteq> GENIUS \<Longrightarrow> fst (walk_airs crc parser base marker air mix w) = None"
  by (simp_all add: walk_airs_def Let_def)

lemma walk_sample_cases:
  assumes f: "sample_fields parser (base + unat (w_offset w)) marker
                = (depth, temperature, alarms, misc, mix)"
    and v: "model parser = GENIUS \<longrightarrow>
              mares_genius_isvalid crc (base_data parser) (base + unat (w_offset w))
                (unat DPRS_SIZE) DPRS_TYPE"
  shows "0 < ngasmixes parser \<and> ngasmixes parser \<le> mix \<Longrightarrow>
           walk_sample crc parser base marker air w =
             (Some DC_STATUS_DATAFORMAT, emit_time_depth_temperature parser depth temperature w)"
    and "\<not> (0 < ngasmixes parser \<and> ngasmixes parser \<le> mix) \<Longrightarrow>
           walk_sample crc parser base marker air w =
             walk_airs crc parser base marker air mix
               ((emit_deco_alarms parser (base + unat (w_offset w)) marker misc alarms
                  (emit_gasmix parser mix
                    (emit_time_depth_temperature parser depth temperature w)))
                \<lparr>w_offset := w_offset w + samplesize parser,
                 w_nsamples := w_nsamples w + 1\<rparr>)"
  using v by (auto simp: walk_sample_def f Let_def)


lemma walk_loop_abort:
  "w_nsamples w < nsamples parser \<Longrightarrow>
   walk_record crc parser base marker air w = (Some rc, w') \<Longrightarrow>
   walk_loop crc parser base marker air w = (Some rc, w')"
  by (subst walk_loop.simps) simp

lemma walk_record_sample:
  "model parser \<noteq> SMARTAPNEA \<Longrightarrow> model parser = GENIUS \<or> mode parser \<noteq> ICONHD_FREEDIVE \<Longrightarrow>
   walk_record crc parser base marker air w = walk_sample crc parser base marker air w"
  by (auto simp: walk_record_def Let_def)

lemma less_not_max: "(x :: uint) < n \<Longrightarrow> x \<noteq> 0xFFFFFFFF"
proof
  assume "x < n" and "x = 0xFFFFFFFF"
  then have "unat (0xFFFFFFFF :: uint) < unat n" by (simp add: word_less_nat_alt)
  moreover have "unat n < 2 ^ 32" using unsigned_less[of n, where ?'a = nat] by simp
  ultimately show False by simp
qed

lemma emit_gasmix_times [simp]:
  "sample_times (w_events (emit_gasmix parser mix w)) = sample_times (w_events w)"
  by (simp add: emit_gasmix_def)

lemma genius_walk_sample_times:
  assumes m: "model parser = GENIUS" and i: "interval parser = 5"
    and r: "walk_sample crc parser base marker air w = (rc, w')"
  shows "(rc \<noteq> None \<and> sample_times (w_events w') = sample_times (w_events w)) \<or>
         (sample_times (w_events w') = sample_times (w_events w) @ [w_time w + 5] \<and>
          (rc = None \<longrightarrow> w_time w' = w_time w + 5))"
proof (cases "mares_genius_isvalid crc (base_data parser) (base + unat (w_offset w))
                (unat DPRS_SIZE) DPRS_TYPE")
  case False
  with m r show ?thesis by (auto simp: walk_sample_def)
next
  case True
  obtain depth temperature alarms misc mix where
    f: "sample_fields parser (base + unat (w_offset w)) marker
          = (depth, temperature, alarms, misc, mix)"
    by (metis prod_cases5)
  from True have v: "model parser = GENIUS \<longrightarrow>
      mares_genius_isvalid crc (base_data parser) (base + unat (w_offset w))
        (unat DPRS_SIZE) DPRS_TYPE" by simp
  note c = walk_sample_cases[OF f v, of air]
  let ?w4 = "(emit_deco_alarms parser (base + unat (w_offset w)) marker misc alarms
                  (emit_gasmix parser mix
                    (emit_time_depth_temperature parser depth temperature w)))
                \<lparr>w_offset := w_offset w + samplesize parser,
                 w_nsamples := w_nsamples w + 1\<rparr>"
  show ?thesis
  proof (cases "0 < ngasmixes parser \<and> ngasmixes parser \<le> mix")
    case True
    from c(1)[OF True] r i show ?thesis by auto
  next
    case False
    from c(2)[OF False] r have g: "walk_airs crc parser base marker air mix ?w4 = (rc, w')"
      by simp
    from walk_airs_events(1)[of crc parser base marker air mix ?w4]
      walk_airs_events(4)[of crc parser base marker air mix ?w4] g i
    show ?thesis by simp
  qed
qed

lemma unat_Suc_less:
  fixes k n :: uint
  assumes "k < n"
  shows "unat (k + 1) = Suc (unat k)"
proof -
  have lt: "unat k < unat n" using assms by (simp add: word_less_nat_alt)
  have "unat n < 2 ^ 32" using unsigned_less[of n, where ?'a = nat] by simp
  then have "unat k + unat (1 :: uint) < 2 ^ LENGTH(32)" using lt by simp
  then have "unat (k + 1) = unat k + unat (1 :: uint)" by (simp only: unat_add_lem)
  then show ?thesis by simp
qed

lemma time_steps_Suc: "time_steps (Suc m) = time_steps m @ [5 * of_nat m + 5]"
  by (simp add: time_steps_def algebra_simps)

lemma genius_walk_loop_times:
  assumes "model parser = GENIUS" and "interval parser = 5"
    and "walk_loop crc parser base marker air w = (rc, w')"
    and "sample_times (w_events w) = time_steps (unat (w_nsamples w))"
    and "w_time w = 5 * of_nat (unat (w_nsamples w))"
    and "w_nsamples w \<le> nsamples parser"
  shows "\<exists>m \<le> unat (nsamples parser).
           sample_times (w_events w') = time_steps m \<and>
           (rc = None \<longrightarrow> m = unat (nsamples parser))"
  using assms
proof (induction crc parser base marker air w rule: walk_loop.induct)
  case (1 crc parser base marker air w)
  show ?case
  proof (cases "w_nsamples w < nsamples parser")
    case False
    with "1.prems"(6) have eq: "w_nsamples w = nsamples parser" by simp
    from False "1.prems"(3) have "rc = None" "w' = w"
      by (simp_all add: walk_loop.simps[of crc parser base marker air w])
    with "1.prems"(4) eq show ?thesis by auto
  next
    case lt: True
    obtain rc1 w1 where st: "walk_record crc parser base marker air w = (rc1, w1)"
      by fastforce
    have ws: "walk_sample crc parser base marker air w = (rc1, w1)"
      using st "1.prems"(1) walk_record_sample[of parser crc base marker air w]
      by (simp add: model_defs)
    have j: "unat (w_nsamples w) < unat (nsamples parser)"
      using lt by (simp add: word_less_nat_alt)
    from genius_walk_sample_times[OF "1.prems"(1,2) ws]
    show ?thesis
    proof
      assume a: "rc1 \<noteq> None \<and> sample_times (w_events w1) = sample_times (w_events w)"
      then obtain e where e: "rc1 = Some e" by auto
      from lt st e "1.prems"(3) have "rc = Some e" "w' = w1"
        by (simp_all add: walk_loop.simps[of crc parser base marker air w])
      with a "1.prems"(4) j show ?thesis
        by (intro exI[of _ "unat (w_nsamples w)"]) simp
    next
      assume a: "sample_times (w_events w1) = sample_times (w_events w) @ [w_time w + 5] \<and>
          (rc1 = None \<longrightarrow> w_time w1 = w_time w + 5)"
      then have t1: "sample_times (w_events w1) = time_steps (Suc (unat (w_nsamples w)))"
        using "1.prems"(4,5) by (simp add: time_steps_Suc)
      show ?thesis
      proof (cases rc1)
        case (Some e)
        from lt st Some "1.prems"(3) have "rc = Some e" "w' = w1"
          by (simp_all add: walk_loop.simps[of crc parser base marker air w])
        with t1 j show ?thesis
          by (intro exI[of _ "Suc (unat (w_nsamples w))"]) simp
      next
        case None
        from lt st None "1.prems"(3)
        have rec: "walk_loop crc parser base marker air w1 = (rc, w')"
          by (simp add: walk_loop.simps[of crc parser base marker air w])
        have n1: "w_nsamples w1 = w_nsamples w + 1"
          using walk_record_nsamples st None by simp
        have u1: "unat (w_nsamples w1) = Suc (unat (w_nsamples w))"
          using unat_Suc_less[OF lt] n1 by simp
        have le1: "w_nsamples w1 \<le> nsamples parser"
          using u1 j by (simp add: word_le_nat_alt)
        have tm: "w_time w1 = 5 * of_nat (unat (w_nsamples w1))"
          using a None "1.prems"(5) u1 by (simp add: algebra_simps)
        have ts: "sample_times (w_events w1) = time_steps (unat (w_nsamples w1))"
          using t1 u1 by simp
        from "1.IH"[OF lt st[symmetric] None "1.prems"(1,2) rec ts tm le1]
        show ?thesis .
      qed
    qed
  qed
qed

subsection \<open>The bytes the walk of a GENIUS dive reads\<close>

lemma genius_foreach_unfold:
  assumes "mares_iconhd_parser_cache parser = Inr parser'" and "model parser' = GENIUS"
    and "genius_prelude_ok crc parser'"
    and "walk_loop crc parser' (unat (headersize parser')) 4 True
           (walk_init\<lparr>w_offset := 4 + DSTR_SIZE + TISS_SIZE\<rparr>) = (rc, w)"
  shows "mares_iconhd_parser_samples_foreach crc parser =
           (case rc of
              Some e \<Rightarrow> (Inl e, w_events w, parser')
            | None \<Rightarrow>
                if \<not> mares_genius_isvalid crc (base_data parser')
                       (unat (headersize parser') + unat (w_offset w)) (unat DEND_SIZE) DEND_TYPE
                then (Inl DC_STATUS_DATAFORMAT, w_events w, parser')
                else (Inr (), w_events w, parser'))"
  using assms
  by (simp add: mares_iconhd_parser_samples_foreach_def genius_prelude_ok_def Let_def
      split: option.splits)

lemma nth_agree: "take K d2 = take K d1 \<Longrightarrow> i < K \<Longrightarrow> d2 ! i = d1 ! i"
  by (metis nth_take)

lemma reads_agree:
  assumes "take K d2 = take K d1"
  shows "i + 2 \<le> K \<Longrightarrow> array_uint16_le d2 i = array_uint16_le d1 i"
    and "i + 2 \<le> K \<Longrightarrow> u16 d2 i = u16 d1 i"
    and "i + 4 \<le> K \<Longrightarrow> array_uint32_le d2 i = array_uint32_le d1 i"
    and "i + 4 \<le> K \<Longrightarrow> array_uint32_be d2 i = array_uint32_be d1 i"
  using nth_agree[OF assms]
  by (simp_all add: array_uint16_le_def u16_def array_uint32_le_def array_uint32_be_def)

lemma window_agree:
  assumes "take K d2 = take K d1" and "m + n \<le> K"
  shows "take n (drop m d2) = take n (drop m d1)"
proof -
  have "take (n + m) (take K d2) = take (n + m) (take K d1)"
    using assms(1) by simp
  then have "take (n + m) d2 = take (n + m) d1"
    using assms(2) by (simp add: min_def)
  then show ?thesis by (simp add: take_drop)
qed

lemma isvalid_agree:
  assumes a: "take K d2 = take K d1" and b: "pos + sz \<le> K"
  shows "mares_genius_isvalid crc d2 pos sz t = mares_genius_isvalid crc d1 pos sz t"
proof (cases "sz < 10")
  case True
  then show ?thesis by (simp add: mares_genius_isvalid_def)
next
  case False
  have 1: "array_uint32_be d2 pos = array_uint32_be d1 pos"
    using False b by (intro reads_agree(4)[OF a]) simp
  have 2: "array_uint32_be d2 (pos + sz - 4) = array_uint32_be d1 (pos + sz - 4)"
    using False b by (intro reads_agree(4)[OF a]) simp
  have 3: "array_uint16_le d2 (pos + sz - 6) = array_uint16_le d1 (pos + sz - 6)"
    using False b by (intro reads_agree(1)[OF a]) simp
  have 4: "take (sz - 10) (drop (pos + 4) d2) = take (sz - 10) (drop (pos + 4) d1)"
    using False b by (intro window_agree[OF a]) simp
  show ?thesis by (simp add: mares_genius_isvalid_def 1 2 3 4)
qed


lemma genius_slot_agree:
  assumes a: "take K d2 = take K d1" and k: "0xB8 \<le> K" and i: "i < NGASMIXES_GENIUS"
  shows "genius_slot d2 i acc = genius_slot d1 i acc"
proof -
  from i have i4: "i \<le> 4" by (simp add: count_defs)
  have r: "array_uint32_le d2 (0x54 + i * 20 + 0) = array_uint32_le d1 (0x54 + i * 20 + 0)"
    "u16 d2 (0x54 + i * 20 + 4) = u16 d1 (0x54 + i * 20 + 4)"
    "u16 d2 (0x54 + i * 20 + 6) = u16 d1 (0x54 + i * 20 + 6)"
    "u16 d2 (0x54 + i * 20 + 8) = u16 d1 (0x54 + i * 20 + 8)"
    "u16 d2 (0x54 + i * 20 + 10) = u16 d1 (0x54 + i * 20 + 10)"
    using i4 k by (intro reads_agree[OF a]; simp)+
  show ?thesis by (simp only: genius_slot_def Let_def r)
qed

lemma genius_slots_agree:
  assumes a: "take K d2 = take K d1" and k: "0xB8 \<le> K"
  shows "genius_slots d2 i acc = genius_slots d1 i acc"
proof (induction "NGASMIXES_GENIUS - i" arbitrary: i acc)
  case 0
  then show ?case
    by (simp add: genius_slots.simps[of d2 i acc] genius_slots.simps[of d1 i acc])
next
  case (Suc n)
  then have lt: "i < NGASMIXES_GENIUS" and n: "n = NGASMIXES_GENIUS - Suc i" by simp_all
  from Suc.hyps(1)[OF n, of "genius_slot d1 i acc"] genius_slot_agree[OF a k lt, of acc] lt
  show ?case
    by (simp add: genius_slots.simps[of d2 i acc] genius_slots.simps[of d1 i acc])
qed


lemma genius_cache_agree:
  assumes a: "take K d2 = take K (base_data p)" and k: "0xB8 \<le> K"
  shows "mares_genius_cache (p\<lparr>base_data := d2\<rparr>) =
           (case mares_genius_cache p of Inl e \<Rightarrow> Inl e | Inr q \<Rightarrow> Inr (q\<lparr>base_data := d2\<rparr>))"
proof -
  have r: "u16 d2 0 = u16 (base_data p) 0" "d2 ! 2 = base_data p ! 2" "d2 ! 3 = base_data p ! 3"
    "u16 d2 0x20 = u16 (base_data p) 0x20"
    "array_uint32_le d2 0x0C = array_uint32_le (base_data p) 0x0C"
    using k by (simp_all add: reads_agree[OF a] nth_agree[OF a])
  show ?thesis
    by (simp add: mares_genius_cache_def Let_def r genius_slots_agree[OF a k] case_prod_beta)
qed

lemma sample_fields_agree:
  assumes m: "model q = GENIUS" and a: "take K d2 = take K (base_data q)"
    and b: "off + 4 + 0x18 \<le> K"
  shows "sample_fields (q\<lparr>base_data := d2\<rparr>) off 4 = sample_fields q off 4"
proof -
  have r: "u16 d2 (off + 4 + 0) = u16 (base_data q) (off + 4 + 0)"
    "u16 d2 (off + 4 + 4) = u16 (base_data q) (off + 4 + 4)"
    "array_uint32_le d2 (off + 4 + 0x0C) = array_uint32_le (base_data q) (off + 4 + 0x0C)"
    "array_uint32_le d2 (off + 4 + 0x14) = array_uint32_le (base_data q) (off + 4 + 0x14)"
    using b by (intro reads_agree[OF a]; simp)+
  show ?thesis using m r by (simp add: sample_fields_def Let_def)
qed

lemma emit_agree:
  "emit_time_depth_temperature (q\<lparr>base_data := d2\<rparr>) depth temperature w
     = emit_time_depth_temperature q depth temperature w"
  "emit_gasmix (q\<lparr>base_data := d2\<rparr>) mix w = emit_gasmix q mix w"
  by (simp_all add: emit_time_depth_temperature_def emit_gasmix_def)

lemma emit_deco_alarms_agree:
  assumes a: "take K d2 = take K (base_data q)" and b: "off + 4 + 0x0C \<le> K"
  shows "emit_deco_alarms (q\<lparr>base_data := d2\<rparr>) off 4 misc alarms w
           = emit_deco_alarms q off 4 misc alarms w"
proof -
  have r: "u16 d2 (off + 4 + 0x0A) = u16 (base_data q) (off + 4 + 0x0A)"
    using b by (intro reads_agree[OF a]) simp
  show ?thesis using r by (simp add: emit_deco_alarms_def Let_def)
qed

lemma walk_airs_agree:
  assumes a: "take K d2 = take K (base_data q)"
    and b: "w_nsamples w mod 4 = 0 \<longrightarrow> base + unat (w_offset w) + unat AIRS_SIZE \<le> K"
  shows "walk_airs crc (q\<lparr>base_data := d2\<rparr>) base 4 True mix w = walk_airs crc q base 4 True mix w"
proof (cases "w_nsamples w mod 4 = 0")
  case False
  then show ?thesis by (simp add: walk_airs_def)
next
  case True
  with b have k: "base + unat (w_offset w) + unat AIRS_SIZE \<le> K" by simp
  have v: "mares_genius_isvalid crc d2 (base + unat (w_offset w)) (unat AIRS_SIZE) AIRS_TYPE
             = mares_genius_isvalid crc (base_data q) (base + unat (w_offset w)) (unat AIRS_SIZE) AIRS_TYPE"
    by (rule isvalid_agree[OF a k])
  have r: "u16 d2 (base + unat (w_offset w) + 4 + 0) = u16 (base_data q) (base + unat (w_offset w) + 4 + 0)"
    using k by (intro reads_agree[OF a]) (simp add: AIRS_SIZE_def)
  show ?thesis using r by (simp add: walk_airs_def Let_def v)
qed

lemma walk_sample_agree:
  assumes m: "model q = GENIUS" and a: "take K d2 = take K (base_data q)"
    and b1: "base + unat (w_offset w) + unat DPRS_SIZE \<le> K"
    and b2: "(w_nsamples w + 1) mod 4 = 0 \<longrightarrow>
               base + unat (w_offset w + samplesize q) + unat AIRS_SIZE \<le> K"
  shows "walk_sample crc (q\<lparr>base_data := d2\<rparr>) base 4 True w = walk_sample crc q base 4 True w"
proof -
  let ?off = "base + unat (w_offset w)"
  have v: "mares_genius_isvalid crc d2 ?off (unat DPRS_SIZE) DPRS_TYPE
             = mares_genius_isvalid crc (base_data q) ?off (unat DPRS_SIZE) DPRS_TYPE"
    by (rule isvalid_agree[OF a b1])
  have f: "sample_fields (q\<lparr>base_data := d2\<rparr>) ?off 4 = sample_fields q ?off 4"
    using b1 by (intro sample_fields_agree[OF m a]) (simp add: DPRS_SIZE_def)
  have e: "emit_deco_alarms (q\<lparr>base_data := d2\<rparr>) ?off 4 misc alarms w'
             = emit_deco_alarms q ?off 4 misc alarms w'" for misc alarms w'
    using b1 by (intro emit_deco_alarms_agree[OF a]) (simp add: DPRS_SIZE_def)
  have ar: "walk_airs crc (q\<lparr>base_data := d2\<rparr>) base 4 True mix
              (w'\<lparr>w_offset := w_offset w + samplesize q, w_nsamples := w_nsamples w + 1\<rparr>)
            = walk_airs crc q base 4 True mix
              (w'\<lparr>w_offset := w_offset w + samplesize q, w_nsamples := w_nsamples w + 1\<rparr>)"
    for mix w'
    using b2 by (intro walk_airs_agree[OF a]) simp
  show ?thesis
    by (simp add: walk_sample_def Let_def v f e emit_agree ar split: prod.splits)
qed


lemma walk_airs_offset:
  assumes "walk_airs crc q base marker True mix w = (None, w')" and "model q = GENIUS"
  shows "w_offset w' = w_offset w + (if w_nsamples w mod 4 = 0 then AIRS_SIZE else 0)"
  using assms unfolding walk_airs_def Let_def
  by (auto split: if_splits)

lemma walk_sample_offset:
  assumes r: "walk_sample crc q base marker True w = (None, w')" and m: "model q = GENIUS"
  shows "w_offset w' = w_offset w + samplesize q
           + (if (w_nsamples w + 1) mod 4 = 0 then AIRS_SIZE else 0)"
proof -
  obtain depth temperature alarms misc mix where
    f: "sample_fields q (base + unat (w_offset w)) marker = (depth, temperature, alarms, misc, mix)"
    by (metis prod_cases5)
  have v: "mares_genius_isvalid crc (base_data q) (base + unat (w_offset w))
             (unat DPRS_SIZE) DPRS_TYPE"
  proof (rule ccontr)
    assume "\<not> ?thesis"
    with m have "walk_sample crc q base marker True w = (Some DC_STATUS_DATAFORMAT, w)"
      by (simp add: walk_sample_def)
    with r show False by simp
  qed
  then have v': "model q = GENIUS \<longrightarrow>
      mares_genius_isvalid crc (base_data q) (base + unat (w_offset w)) (unat DPRS_SIZE) DPRS_TYPE"
    by simp
  have g: "\<not> (0 < ngasmixes q \<and> ngasmixes q \<le> mix)"
    using walk_sample_cases(1)[OF f v', of True] r by auto
  from walk_sample_cases(2)[OF f v' g, of True] r
  have "walk_airs crc q base marker True mix
          ((emit_deco_alarms q (base + unat (w_offset w)) marker misc alarms
             (emit_gasmix q mix (emit_time_depth_temperature q depth temperature w)))
           \<lparr>w_offset := w_offset w + samplesize q, w_nsamples := w_nsamples w + 1\<rparr>) = (None, w')"
    by simp
  from walk_airs_offset[OF this m] show ?thesis by simp
qed

lemma genius_offset_Suc:
  "genius_offset (Suc j) = genius_offset j + 34 + (if Suc j mod 4 = 0 then 16 else 0)"
proof -
  have "Suc j div 4 = j div 4 + (if Suc j mod 4 = 0 then 1 else 0)" by presburger
  then show ?thesis by (simp add: genius_offset_def record_size_defs)
qed

lemma genius_offset_mono: "i \<le> j \<Longrightarrow> genius_offset i \<le> genius_offset j"
  by (simp add: genius_offset_def add_mono mult_le_mono1 div_le_mono)

lemma genius_offset_bound: "j < 65536 \<Longrightarrow> genius_offset j < 4000000"
  by (simp add: genius_offset_def record_size_defs)

lemma word_mod4: "(x :: uint) mod 4 = 0 \<longleftrightarrow> unat x mod 4 = 0"
proof -
  have "unat (x mod 4) = unat x mod 4" by (simp add: unat_mod)
  then show ?thesis by (metis unat_eq_zero)
qed

lemma genius_step_offset:
  assumes m: "model q = GENIUS" and ss: "samplesize q = DPRS_SIZE"
    and nb: "unat (nsamples q) < 65536" and lt: "w_nsamples w < nsamples q"
    and off: "unat (w_offset w) = genius_offset (unat (w_nsamples w))"
  shows "unat (w_nsamples w + 1) = Suc (unat (w_nsamples w))"
    and "unat (w_offset w + samplesize q) = genius_offset (unat (w_nsamples w)) + 34"
    and "unat (w_offset w + samplesize q + (if (w_nsamples w + 1) mod 4 = 0 then AIRS_SIZE else 0))
           = genius_offset (Suc (unat (w_nsamples w)))"
proof -
  let ?j = "unat (w_nsamples w)"
  show s: "unat (w_nsamples w + 1) = Suc ?j" by (rule unat_Suc_less[OF lt])
  have j: "?j < 65536" using lt nb by (simp add: word_less_nat_alt)
  have ob: "unat (w_offset w) < 4000000" using genius_offset_bound[OF j] off by simp
  have "unat (w_offset w) + unat (34 :: uint) < 2 ^ LENGTH(32)" using ob by simp
  then have "unat (w_offset w + 34) = unat (w_offset w) + unat (34 :: uint)"
    by (simp only: unat_add_lem)
  then show o1: "unat (w_offset w + samplesize q) = genius_offset ?j + 34"
    by (simp add: ss DPRS_SIZE_def off)
  have md: "(w_nsamples w + 1) mod 4 = 0 \<longleftrightarrow> Suc ?j mod 4 = 0"
    by (simp only: word_mod4 s)
  have "unat (w_offset w + samplesize q) + unat (16 :: uint) < 2 ^ LENGTH(32)"
    using ob o1 off by simp
  then have "unat (w_offset w + samplesize q + 16) = unat (w_offset w + samplesize q) + unat (16 :: uint)"
    by (simp only: unat_add_lem)
  with o1 md show "unat (w_offset w + samplesize q + (if (w_nsamples w + 1) mod 4 = 0 then AIRS_SIZE else 0))
           = genius_offset (Suc ?j)"
    by (simp add: genius_offset_Suc AIRS_SIZE_def)
qed

lemma genius_walk_loop_agree:
  assumes m: "model q = GENIUS" and ss: "samplesize q = DPRS_SIZE"
    and nb: "unat (nsamples q) < 65536"
    and a: "take K d2 = take K (base_data q)"
    and k: "base + genius_offset (unat (nsamples q)) \<le> K"
  shows "w_nsamples w \<le> nsamples q \<Longrightarrow>
         unat (w_offset w) = genius_offset (unat (w_nsamples w)) \<Longrightarrow>
         walk_loop crc (q\<lparr>base_data := d2\<rparr>) base 4 True w = walk_loop crc q base 4 True w \<and>
         (\<forall>w'. walk_loop crc q base 4 True w = (None, w') \<longrightarrow>
            w_nsamples w' = nsamples q \<and>
            unat (w_offset w') = genius_offset (unat (nsamples q)))"
proof (induction "unat (nsamples q) - unat (w_nsamples w)" arbitrary: w)
  case 0
  then have "\<not> w_nsamples w < nsamples q" by (simp add: word_less_nat_alt)
  moreover from this "0.prems"(1) have "w_nsamples w = nsamples q" by simp
  ultimately show ?case using "0.prems"(2)
    by (simp add: walk_loop.simps[of crc _ base 4 True w])
next
  case (Suc n)
  let ?q2 = "q\<lparr>base_data := d2\<rparr>"
  let ?j = "unat (w_nsamples w)"
  from Suc.hyps(2) have lt: "w_nsamples w < nsamples q" by (simp add: word_less_nat_alt)
  then have jl: "Suc ?j \<le> unat (nsamples q)" by (simp add: word_less_nat_alt)
  note st = genius_step_offset[OF m ss nb lt Suc.prems(2)]
  have kk: "base + genius_offset (Suc ?j) \<le> K"
    using genius_offset_mono[OF jl] k by simp
  have b1: "base + unat (w_offset w) + unat DPRS_SIZE \<le> K"
    using kk Suc.prems(2) by (simp add: genius_offset_Suc DPRS_SIZE_def)
  have b2: "(w_nsamples w + 1) mod 4 = 0 \<longrightarrow>
               base + unat (w_offset w + samplesize q) + unat AIRS_SIZE \<le> K"
  proof
    assume z: "(w_nsamples w + 1) mod 4 = 0"
    then have "Suc ?j mod 4 = 0" by (simp only: word_mod4 st(1))
    then show "base + unat (w_offset w + samplesize q) + unat AIRS_SIZE \<le> K"
      using kk st(2) by (simp add: genius_offset_Suc AIRS_SIZE_def)
  qed
  have sa: "walk_sample crc ?q2 base 4 True w = walk_sample crc q base 4 True w"
    by (rule walk_sample_agree[OF m a b1 b2])
  have r1: "walk_record crc q base 4 True w = walk_sample crc q base 4 True w"
    using m by (intro walk_record_sample) (simp_all add: model_defs)
  have r2: "walk_record crc ?q2 base 4 True w = walk_sample crc ?q2 base 4 True w"
    using m by (intro walk_record_sample) (simp_all add: model_defs)
  obtain rc1 w1 where ws: "walk_sample crc q base 4 True w = (rc1, w1)" by fastforce
  show ?case
  proof (cases rc1)
    case (Some e)
    with ws sa r1 r2 lt show ?thesis
      by (simp add: walk_loop.simps[of crc _ base 4 True w])
  next
    case None
    with ws have wn: "walk_sample crc q base 4 True w = (None, w1)" by simp
    have n1: "w_nsamples w1 = w_nsamples w + 1" by (rule walk_sample_nsamples[OF wn])
    have o1: "unat (w_offset w1) = genius_offset (unat (w_nsamples w1))"
      using walk_sample_offset[OF wn m] st(3) st(1) n1 by simp
    have le1: "w_nsamples w1 \<le> nsamples q"
      using jl st(1) n1 by (simp add: word_le_nat_alt)
    have ms: "n = unat (nsamples q) - unat (w_nsamples w1)"
      using Suc.hyps(2) st(1) n1 by simp
    from Suc.hyps(1)[OF ms le1 o1] wn sa r1 r2 lt show ?thesis
      by (simp add: walk_loop.simps[of crc _ base 4 True w])
  qed
qed


lemma genius_prelude_agree:
  assumes a: "take K d2 = take K (base_data q)" and h: "headersize q = 0xB8"
    and k: "0xB8 + genius_offset 0 \<le> K"
  shows "genius_prelude_ok crc (q\<lparr>base_data := d2\<rparr>) = genius_prelude_ok crc q"
proof -
  from k have k': "384 \<le> K" by (simp add: genius_offset_def record_size_defs)
  have r: "u16 d2 184 = u16 (base_data q) 184" "d2 ! 186 = base_data q ! 186"
    "d2 ! 187 = base_data q ! 187"
    using k' by (simp_all add: reads_agree[OF a] nth_agree[OF a])
  have v1: "mares_genius_isvalid crc d2 188 58 DSTR_TYPE
              = mares_genius_isvalid crc (base_data q) 188 58 DSTR_TYPE"
    using k' by (intro isvalid_agree[OF a]) simp
  have v2: "mares_genius_isvalid crc d2 246 138 TISS_TYPE
              = mares_genius_isvalid crc (base_data q) 246 138 TISS_TYPE"
    using k' by (intro isvalid_agree[OF a]) simp
  show ?thesis
    by (simp add: genius_prelude_ok_def Let_def h record_size_defs r v1 v2)
qed

lemma genius_flipped_cache:
  "mares_iconhd_parser_cache genius_flipped_parser = Inr (genius_dive_cached genius_flipped_parser)"
  by (simp add: genius_flipped_parser_def genius_dive_cached_def genius_flipped_buffer_def
      parser_init_defs mares_iconhd_parser_cache_def mares_genius_cache_def genius_nbytes_def
      genius_slots.simps genius_slot_def append_reads genius_piece_facts
      model_defs mode_defs count_defs record_defs GASMIX_OFF_def
      Let_def gasmix_zero_def tank_zero_def replicate_slots)

lemma genius_flipped_cached_fields:
  "base_data (genius_dive_cached genius_flipped_parser) = genius_flipped_buffer"
  "base_data genius_flipped_parser = genius_flipped_buffer"
  "cached genius_flipped_parser = 0"
  "model genius_flipped_parser = GENIUS"
  "model (genius_dive_cached genius_flipped_parser) = GENIUS"
  "nsamples (genius_dive_cached genius_flipped_parser) = 4"
  "samplesize (genius_dive_cached genius_flipped_parser) = 34"
  "headersize (genius_dive_cached genius_flipped_parser) = 184"
  "interval (genius_dive_cached genius_flipped_parser) = 5"
  "ngasmixes (genius_dive_cached genius_flipped_parser) = 2"
  "ntanks (genius_dive_cached genius_flipped_parser) = 2"
  "mode (genius_dive_cached genius_flipped_parser) = 2"
  by (simp_all add: genius_dive_cached_def genius_flipped_parser_def parser_init_defs)

lemma genius_flipped_prelude:
  "genius_prelude_ok checksum_crc16_ccitt (genius_dive_cached genius_flipped_parser)"
  by (simp add: genius_prelude_ok_def genius_flipped_cached_fields genius_flipped_buffer_def
      append_reads genius_piece_facts record_size_defs Let_def)

lemma genius_flipped_walk:
  "\<exists>w. walk_loop checksum_crc16_ccitt (genius_dive_cached genius_flipped_parser)
          (unat (headersize (genius_dive_cached genius_flipped_parser))) 4 True
          (walk_init\<lparr>w_offset := 4 + DSTR_SIZE + TISS_SIZE\<rparr>) = (None, w) \<and>
        w_events w = genius_dive_events"
  by (simp add: genius_flipped_cached_fields genius_flipped_buffer_def genius_dive_events_def
      walk_loop.simps alarm_events.simps walk_defs append_reads genius_piece_facts
      model_defs mode_defs record_size_defs Let_def word_le_nat_alt word_less_nat_alt)

lemma genius_flipped_dend:
  "\<not> mares_genius_isvalid checksum_crc16_ccitt (base_data genius_flipped_parser)
       (genius_dend_index (genius_dive_cached genius_flipped_parser)) (unat DEND_SIZE) DEND_TYPE"
  by (simp add: genius_dend_index_def genius_offset_def genius_flipped_cached_fields
      genius_flipped_buffer_def append_reads genius_piece_facts record_size_defs)

lemma genius_flipped_agree:
  "take (genius_dend_index (genius_dive_cached genius_flipped_parser)) genius_dive_buffer
     = take (genius_dend_index (genius_dive_cached genius_flipped_parser))
         (base_data genius_flipped_parser)"
  by (simp add: genius_dend_index_def genius_offset_def genius_flipped_cached_fields
      genius_flipped_buffer_def genius_dive_buffer_def genius_piece_lengths record_size_defs)

lemma genius_dive_dend:
  "mares_genius_isvalid checksum_crc16_ccitt genius_dive_buffer
       (genius_dend_index (genius_dive_cached genius_flipped_parser)) (unat DEND_SIZE) DEND_TYPE"
  by (simp add: genius_dend_index_def genius_offset_def genius_flipped_cached_fields
      genius_dive_buffer_def append_reads genius_piece_facts record_size_defs)

lemma genius_truncated_valid:
  "mares_genius_isvalid checksum_crc16_ccitt genius_truncated_buffer 384 34 DPRS_TYPE"
  "mares_genius_isvalid checksum_crc16_ccitt genius_truncated_buffer 418 34 DPRS_TYPE"
  "mares_genius_isvalid checksum_crc16_ccitt genius_truncated_buffer 452 34 DPRS_TYPE"
  "mares_genius_isvalid checksum_crc16_ccitt genius_truncated_buffer 486 34 DPRS_TYPE"
  "mares_genius_isvalid checksum_crc16_ccitt genius_truncated_buffer 520 16 AIRS_TYPE"
  by (simp_all add: genius_truncated_buffer_def append_reads genius_piece_facts)

lemma genius_truncated_header:
  "genius_dive_buffer = genius_truncated_buffer @ genius_dend"
  "u16 genius_truncated_buffer 0x20 = 4"
  "mares_genius_isvalid checksum_crc16_ccitt genius_truncated_buffer 188 58 DSTR_TYPE"
  "mares_genius_isvalid checksum_crc16_ccitt genius_truncated_buffer 246 138 TISS_TYPE"
  by (simp_all add: genius_truncated_buffer_def genius_dive_buffer_def append_reads
      genius_piece_facts)

lemma genius_truncated_length: "length genius_truncated_buffer = 536"
  by (simp add: genius_truncated_buffer_def genius_piece_lengths)

lemma genius_truncated_foreach:
  "mares_iconhd_parser_samples_foreach checksum_crc16_ccitt genius_truncated_parser
     = (Inl DC_STATUS_DATAFORMAT, [], genius_truncated_parser)"
  by (simp add: mares_iconhd_parser_samples_foreach_def genius_truncated_parser_def
      genius_truncated_buffer_def
      parser_init_defs mares_iconhd_parser_cache_def mares_genius_cache_def genius_nbytes_def
      append_reads genius_piece_facts
      model_defs mode_defs count_defs record_defs Let_def word_le_nat_alt word_less_nat_alt)


lemma genius_cache_fields:
  assumes c: "cached parser = 0" and m: "model parser = GENIUS"
    and ok: "mares_iconhd_parser_cache parser = Inr parser'"
  shows "mares_genius_cache parser = Inr parser'"
    and "model parser' = GENIUS" and "samplesize parser' = DPRS_SIZE"
    and "headersize parser' = 0xB8" and "interval parser' = 5"
    and "unat (nsamples parser') < 65536" and "base_data parser' = base_data parser"
    and "cached parser' \<noteq> 0"
proof -
  from c m ok show ok': "mares_genius_cache parser = Inr parser'"
    by (simp add: mares_iconhd_parser_cache_def)
  note f = genius_cache_Inr[OF ok']
  show "model parser' = GENIUS" "samplesize parser' = DPRS_SIZE" "headersize parser' = 0xB8"
    "interval parser' = 5" "base_data parser' = base_data parser" "cached parser' \<noteq> 0"
    using m by (simp_all add: f(7))
  have "nsamples parser' = u16 (base_data parser) 0x20" by (simp add: f(7))
  then show "unat (nsamples parser') < 65536" by (simp add: u16_bound)
qed

subsection \<open>The values copied into the cached lists\<close>

lemma copy_slots_length: "length (copy_slots n src dst) = length dst"
  by (induction n) simp_all

lemma copy_slots_below: "i < n \<Longrightarrow> n \<le> length dst \<Longrightarrow> copy_slots n src dst ! i = src ! i"
  by (induction n) (auto simp: less_Suc_eq nth_list_update copy_slots_length)

lemma gasmix_scan_values:
  assumes "iconhd_gasmix_scan d p n gm = (n', gm')"
    and "length gm = NGASMIXES_ICONHD" and "\<forall>i<n. gm ! i = iconhd_gasmix_at d p i"
  shows "\<forall>i<n'. gm' ! i = iconhd_gasmix_at d p i"
  using assms
proof (induction d p n gm arbitrary: n' gm' rule: iconhd_gasmix_scan.induct)
  case (1 d p n gm)
  show ?case
  proof (cases "n < NGASMIXES_ICONHD")
    case False
    with "1.prems" show ?thesis
      by (simp add: iconhd_gasmix_scan.simps[of d p n gm])
  next
    case lt: True
    show ?thesis
    proof (cases "d ! (p + 0x10 + n * 4 + 1) AND 0x80 \<noteq> 0")
      case True
      with lt "1.prems" show ?thesis
        by (simp add: iconhd_gasmix_scan.simps[of d p n gm])
    next
      case False
      let ?gm = "gm[n := \<lparr>oxygen = ucast (d ! (p + 0x10 + n * 4)), helium = 0\<rparr>]"
      from lt False "1.prems"(1)
      have rec: "iconhd_gasmix_scan d p (Suc n) ?gm = (n', gm')"
        by (simp add: iconhd_gasmix_scan.simps[of d p n gm])
      have len: "length ?gm = NGASMIXES_ICONHD" using "1.prems"(2) by simp
      have all: "\<forall>i<Suc n. ?gm ! i = iconhd_gasmix_at d p i"
        using "1.prems"(2,3) lt
        by (auto simp: less_Suc_eq nth_list_update iconhd_gasmix_at_def)
      from "1.IH"[OF lt False rec len all] show ?thesis .
    qed
  qed
qed

lemma tank_scan_values:
  assumes "iconhd_tank_scan d p off n tk = (n', tk')"
    and "length tk = NTANKS_ICONHD" and "\<forall>i<n. tk ! i = iconhd_tank_at d p off i"
  shows "\<forall>i<n'. tk' ! i = iconhd_tank_at d p off i"
  using assms
proof (induction d p off n tk arbitrary: n' tk' rule: iconhd_tank_scan.induct)
  case (1 d p off n tk)
  show ?case
  proof (cases "n < NTANKS_ICONHD")
    case False
    with "1.prems" show ?thesis
      by (simp add: iconhd_tank_scan.simps[of d p off n tk])
  next
    case lt: True
    let ?tk = "tk[n := iconhd_tank_at d p off n]"
    have len: "length ?tk = NTANKS_ICONHD" using "1.prems"(2) by simp
    have all: "\<forall>i<Suc n. ?tk ! i = iconhd_tank_at d p off i"
      using "1.prems"(2,3) lt by (auto simp: less_Suc_eq nth_list_update)
    show ?thesis
    proof (cases "beginpressure (?tk ! n) = 0 \<and>
           (endpressure (?tk ! n) = 0 \<or> endpressure (?tk ! n) = 36000)")
      case True
      with lt "1.prems"(1) have "n' = n" "tk' = ?tk"
        by (auto simp: iconhd_tank_scan.simps[of d p off n tk] Let_def)
      with "1.prems"(3) show ?thesis by simp
    next
      case False
      with lt "1.prems"(1)
      have rec: "iconhd_tank_scan d p off (Suc n) ?tk = (n', tk')"
        by (simp add: iconhd_tank_scan.simps[of d p off n tk] Let_def)
      from "1.IH"[OF lt refl False rec len all] show ?thesis .
    qed
  qed
qed

lemma genius_slot_values:
  "fst (snd (snd (genius_slot d i (ngm, ntk, gm, tk)))) =
     (if genius_gasmix_active d i \<and> ngm = i then gm[i := genius_gasmix_at d i] else gm)"
  "snd (snd (snd (genius_slot d i (ngm, ntk, gm, tk)))) =
     (if genius_tank_active d i \<and> ntk = i then tk[i := genius_tank_at d i] else tk)"
  by (simp_all add: genius_slot_def Let_def genius_gasmix_active_def genius_tank_active_def
      tank_active_def case_prod_beta genius_gasmix_at_def genius_tank_at_def)

lemma genius_slots_values:
  assumes "i \<le> NGASMIXES_GENIUS"
    and "length (fst (snd (snd acc))) = NGASMIXES_GENIUS"
    and "length (snd (snd (snd acc))) = NGASMIXES_GENIUS"
    and "fst acc \<le> i" and "fst (snd acc) \<le> i"
    and "\<forall>j<fst acc. fst (snd (snd acc)) ! j = genius_gasmix_at d j"
    and "\<forall>j<fst (snd acc). snd (snd (snd acc)) ! j = genius_tank_at d j"
  shows "(\<forall>j<fst (genius_slots d i acc).
            fst (snd (snd (genius_slots d i acc))) ! j = genius_gasmix_at d j) \<and>
         (\<forall>j<fst (snd (genius_slots d i acc)).
            snd (snd (snd (genius_slots d i acc))) ! j = genius_tank_at d j)"
  using assms
proof (induction d i acc rule: genius_slots.induct)
  case (1 d i acc)
  show ?case
  proof (cases "i < NGASMIXES_GENIUS")
    case False
    then have stop: "genius_slots d i acc = acc"
      by (simp add: genius_slots.simps[of d i acc])
    with "1.prems" show ?thesis by simp
  next
    case True
    obtain ngm ntk gm tk where acc: "acc = (ngm, ntk, gm, tk)"
      by (cases acc) auto
    let ?a = "genius_slot d i acc"
    have l1: "length (fst (snd (snd ?a))) = NGASMIXES_GENIUS"
      and l2: "length (snd (snd (snd ?a))) = NGASMIXES_GENIUS"
      using "1.prems"(2,3) unfolding acc by (simp_all add: genius_slot_values)
    have c1: "fst ?a \<le> Suc i" and c2: "fst (snd ?a) \<le> Suc i"
      using "1.prems"(4,5) unfolding acc by (simp_all add: genius_slot_counts)
    have v1: "\<forall>j<fst ?a. fst (snd (snd ?a)) ! j = genius_gasmix_at d j"
      using "1.prems"(2,4,6) True unfolding acc
      by (auto simp: genius_slot_counts genius_slot_values less_Suc_eq nth_list_update)
    have v2: "\<forall>j<fst (snd ?a). snd (snd (snd ?a)) ! j = genius_tank_at d j"
      using "1.prems"(3,5,7) True unfolding acc
      by (auto simp: genius_slot_counts genius_slot_values less_Suc_eq nth_list_update)
    from "1.IH"[OF True _ l1 l2 c1 c2 v1 v2] True show ?thesis
      by (simp add: genius_slots.simps[of d i acc])
  qed
qed

lemma iconhd_airoff_cache:
  "mares_iconhd_parser_cache iconhd_airoff_parser = Inr iconhd_airoff_cached"
  by (simp add: iconhd_airoff_cached_def iconhd_airoff_parser_def iconhd_airoff_buffer_def
      parser_init_defs iconhd_cache_defs
      read_defs model_defs mode_defs count_defs Let_def nth_append
      gasmix_zero_def tank_zero_def replicate_slots)


lemma iconhd_airoff_fields:
  "cached iconhd_airoff_parser = 0" "model iconhd_airoff_parser = ICONHD"
  "base_data iconhd_airoff_parser = iconhd_airoff_buffer"
  "length (gasmix iconhd_airoff_parser) = NGASMIXES"
  "length (tank iconhd_airoff_parser) = NTANKS"
  "mode iconhd_airoff_cached = ICONHD_AIR" "ngasmixes iconhd_airoff_cached = 1"
  "gasmix iconhd_airoff_cached ! 0 = \<lparr>oxygen = 21, helium = 0\<rparr>"
  "iconhd_p ICONHD (base_size iconhd_airoff_cached) (headersize iconhd_airoff_cached) = 8"
  by (simp_all add: iconhd_airoff_parser_def iconhd_airoff_cached_def parser_init_defs
      model_defs mode_defs iconhd_p_def)

subsection \<open>The events behind the gas mix change\<close>

lemma emit_deco_alarms_tail:
  "\<exists>dl. w_events (emit_deco_alarms parser off marker misc alarms w) = w_events w @ dl \<and>
        sample_times dl = [] \<and> gasmix_changes dl = [] \<and> (model parser \<noteq> GENIUS \<longrightarrow> dl = [])"
  by (simp add: emit_deco_alarms_def Let_def)

lemma walk_airs_tail:
  "\<exists>pl. w_events (snd (walk_airs crc parser base marker air mix w)) = w_events w @ pl \<and>
        sample_times pl = [] \<and> gasmix_changes pl = [] \<and> (\<not> air \<longrightarrow> pl = [])"
  by (simp add: walk_airs_def Let_def)

lemma walk_airs_rc:
  "fst (walk_airs crc parser base marker air mix w) =
     (if model parser = GENIUS \<and> air \<and> w_nsamples w mod 4 = 0 \<and>
         \<not> mares_genius_isvalid crc (base_data parser) (base + unat (w_offset w))
              (unat AIRS_SIZE) AIRS_TYPE
      then Some DC_STATUS_DATAFORMAT else None)"
  by (simp add: walk_airs_def Let_def)

lemma walk_sample_invalid:
  "model parser = GENIUS \<Longrightarrow>
   \<not> mares_genius_isvalid crc (base_data parser) (base + unat (w_offset w))
        (unat DPRS_SIZE) DPRS_TYPE \<Longrightarrow>
   walk_sample crc parser base marker air w = (Some DC_STATUS_DATAFORMAT, w)"
  by (simp add: walk_sample_def)

section \<open>The claims\<close>

text \<open>
  C1. Header caching of a non-GENIUS variant either fails with DataFormat or the declared
  length equals \<open>4 + headersize + nsamples * samplesize\<close>, plus \<open>(nsamples div 4) * 8\<close>
  for ICONHDNET, QUADAIR and SMARTAIR, plus \<open>divetime * samplerate * 2\<close> for SMARTAPNEA
  (the dive time read at \<open>p + 0x24\<close>), the latter sum taken modulo \<open>2 ^ 32\<close> as the
  \<^verbatim>\<open>unsigned int\<close> arithmetic of the source computes it. Header caching of the GENIUS
  variant fails only with DataFormat, and it fails exactly when the object type and
  version are not 1 and 0.0 or the recomputed total exceeds the buffer size: the size
  test is an upper bound, not an equality.
\<close>

theorem C1_length_check:
  "cached parser = 0 \<longrightarrow>
   (model parser \<noteq> GENIUS \<longrightarrow>
      mares_iconhd_parser_cache parser = Inl DC_STATUS_DATAFORMAT \<or>
      (\<exists>parser'. mares_iconhd_parser_cache parser = Inr parser' \<and>
         (headersize parser', samplesize parser') = iconhd_sizes (model parser) (mode parser') \<and>
         (model parser \<noteq> SMARTAPNEA \<longrightarrow>
            unat (array_uint32_le (base_data parser) 0) =
              4 + unat (headersize parser') + unat (nsamples parser') * unat (samplesize parser')
              + (if model parser = ICONHDNET \<or> model parser = QUADAIR \<or> model parser = SMARTAIR
                 then (unat (nsamples parser') div 4) * 8 else 0)) \<and>
         (model parser = SMARTAPNEA \<longrightarrow>
            unat (array_uint32_le (base_data parser) 0) =
              (4 + unat (headersize parser') + unat (nsamples parser') * unat (samplesize parser')
               + unat (array_uint32_le (base_data parser)
                        (unat (array_uint32_le (base_data parser) 0) - unat (headersize parser') + 0x24))
                 * unat (samplerate parser') * 2) mod 2 ^ 32))) \<and>
   (model parser = GENIUS \<longrightarrow>
      (mares_iconhd_parser_cache parser = Inl DC_STATUS_DATAFORMAT \<or>
       (\<exists>parser'. mares_iconhd_parser_cache parser = Inr parser')) \<and>
      (mares_iconhd_parser_cache parser = Inl DC_STATUS_DATAFORMAT \<longleftrightarrow>
         (u16 (base_data parser) 0 \<noteq> 1 \<or> base_data parser ! 2 \<noteq> 0 \<or> base_data parser ! 3 \<noteq> 0) \<or>
         unat (base_size parser) <
           184 + 4 + 58 + 138 + unat (u16 (base_data parser) 0x20) * 34
             + (unat (u16 (base_data parser) 0x20) div 4) * 16 + 162))"
proof (intro impI conjI)
  assume c: "cached parser = 0" and m: "model parser \<noteq> GENIUS"
  then have eq: "mares_iconhd_parser_cache parser = mares_iconhd_cache parser"
    by (simp add: mares_iconhd_parser_cache_def)
  show "mares_iconhd_parser_cache parser = Inl DC_STATUS_DATAFORMAT \<or>
      (\<exists>parser'. mares_iconhd_parser_cache parser = Inr parser' \<and>
         (headersize parser', samplesize parser') = iconhd_sizes (model parser) (mode parser') \<and>
         (model parser \<noteq> SMARTAPNEA \<longrightarrow>
            unat (array_uint32_le (base_data parser) 0) =
              4 + unat (headersize parser') + unat (nsamples parser') * unat (samplesize parser')
              + (if model parser = ICONHDNET \<or> model parser = QUADAIR \<or> model parser = SMARTAIR
                 then (unat (nsamples parser') div 4) * 8 else 0)) \<and>
         (model parser = SMARTAPNEA \<longrightarrow>
            unat (array_uint32_le (base_data parser) 0) =
              (4 + unat (headersize parser') + unat (nsamples parser') * unat (samplesize parser')
               + unat (array_uint32_le (base_data parser)
                        (unat (array_uint32_le (base_data parser) 0) - unat (headersize parser') + 0x24))
                 * unat (samplerate parser') * 2) mod 2 ^ 32))"
  proof (cases "mares_iconhd_cache parser")
    case (Inl e)
    then show ?thesis using iconhd_cache_Inl[OF Inl] eq by simp
  next
    case (Inr parser')
    show ?thesis
      using C1_std[OF Inr] Inr eq by (intro disjI2 exI[of _ parser']) simp
  qed
next
  assume c: "cached parser = 0" and m: "model parser = GENIUS"
  then have eq: "mares_iconhd_parser_cache parser = mares_genius_cache parser"
    by (simp add: mares_iconhd_parser_cache_def)
  show "mares_iconhd_parser_cache parser = Inl DC_STATUS_DATAFORMAT \<or>
       (\<exists>parser'. mares_iconhd_parser_cache parser = Inr parser')"
    using genius_cache_Inl[of parser] eq by (cases "mares_genius_cache parser") auto
  show "mares_iconhd_parser_cache parser = Inl DC_STATUS_DATAFORMAT \<longleftrightarrow>
         (u16 (base_data parser) 0 \<noteq> 1 \<or> base_data parser ! 2 \<noteq> 0 \<or> base_data parser ! 3 \<noteq> 0) \<or>
         unat (base_size parser) <
           184 + 4 + 58 + 138 + unat (u16 (base_data parser) 0x20) * 34
             + (unat (u16 (base_data parser) 0x20) div 4) * 16 + 162"
    using genius_fail_iff[of parser] genius_cache_Inl[of parser] eq by metis
qed

lemma smart_air_cache:
  "mares_iconhd_parser_cache smart_air_parser =
     Inr (smart_air_parser
       \<lparr>base_size := 96, mode := 0, nsamples := 0, samplesize := 8, headersize := 0x5C,
        settings := 0x0410, interval := 5, samplerate := 1, ntanks := 0, ngasmixes := 1,
        gasmix := [\<lparr>oxygen = 21, helium = 0\<rparr>, gasmix_zero, gasmix_zero, gasmix_zero, gasmix_zero],
        tank := replicate 5 tank_zero, cached := 1\<rparr>)"
  by (simp add: smart_air_parser_def smart_air_buffer_def parser_init_defs iconhd_cache_defs
      read_defs model_defs mode_defs count_defs Let_def nth_append gasmix_zero_def tank_zero_def replicate_slots)

theorem C1_length_check_witness:
  "cached smart_air_parser = 0 \<and> model smart_air_parser \<noteq> GENIUS \<and>
   model smart_air_parser \<noteq> SMARTAPNEA \<and>
   (\<exists>parser'. mares_iconhd_parser_cache smart_air_parser = Inr parser' \<and>
      unat (array_uint32_le (base_data smart_air_parser) 0) =
        4 + unat (headersize parser') + unat (nsamples parser') * unat (samplesize parser')) \<and>
   cached genius_empty_parser = 0 \<and> model genius_empty_parser = GENIUS \<and>
   mares_iconhd_parser_cache genius_empty_parser \<noteq> Inl DC_STATUS_DATAFORMAT \<and>
   unat (base_size genius_empty_parser) = 546"
proof -
  have h: "cached smart_air_parser = 0" "model smart_air_parser \<noteq> GENIUS"
    "model smart_air_parser \<noteq> SMARTAPNEA" "model smart_air_parser \<noteq> ICONHDNET"
    "model smart_air_parser \<noteq> QUADAIR" "model smart_air_parser \<noteq> SMARTAIR"
    by (simp_all add: smart_air_parser_def parser_init_defs model_defs)
  have ok: "mares_iconhd_parser_cache smart_air_parser \<noteq> Inl DC_STATUS_DATAFORMAT"
    by (simp add: smart_air_cache)
  have g: "cached genius_empty_parser = 0" "model genius_empty_parser = GENIUS"
    by (simp_all add: genius_empty_parser_def parser_init_defs)
  have gd: "u16 (base_data genius_empty_parser) 0 = 1" "base_data genius_empty_parser ! 2 = 0"
    "base_data genius_empty_parser ! 3 = 0" "u16 (base_data genius_empty_parser) 0x20 = 0"
    "unat (base_size genius_empty_parser) = 546"
    by (simp_all add: genius_empty_parser_def genius_empty_buffer_def parser_init_defs read_defs
        nth_append)
  from C1_length_check[of smart_air_parser] h ok
  have 1: "\<exists>parser'. mares_iconhd_parser_cache smart_air_parser = Inr parser' \<and>
      unat (array_uint32_le (base_data smart_air_parser) 0) =
        4 + unat (headersize parser') + unat (nsamples parser') * unat (samplesize parser')"
    by auto
  from C1_length_check[of genius_empty_parser] g gd
  have 2: "mares_iconhd_parser_cache genius_empty_parser \<noteq> Inl DC_STATUS_DATAFORMAT"
    by simp
  from 1 2 h g gd show ?thesis by simp
qed

theorem C1_length_check_counterexample:
  "mares_iconhd_parser_cache genius_badtag_parser = Inl DC_STATUS_DATAFORMAT \<and>
   unat (base_size genius_badtag_parser) = 1000 \<and>
   184 + 4 + 58 + 138 + unat (u16 (base_data genius_badtag_parser) 0x20) * 34
     + (unat (u16 (base_data genius_badtag_parser) 0x20) div 4) * 16 + 162 = 546 \<and>
   mares_iconhd_parser_cache apnea_wrap_parser =
     Inr (apnea_wrap_parser
       \<lparr>base_size := 84, mode := 0, nsamples := 0, samplesize := 14, headersize := 0x50,
        settings := 0, interval := 1, samplerate := 1, ntanks := 0, ngasmixes := 1,
        gasmix := [\<lparr>oxygen = 21, helium = 0\<rparr>, gasmix_zero, gasmix_zero, gasmix_zero, gasmix_zero],
        tank := replicate 5 tank_zero, cached := 1\<rparr>) \<and>
   unat (array_uint32_le (base_data apnea_wrap_parser) 0) = 84 \<and>
   4 + 0x50 + 0 * 14 + unat (array_uint32_le (base_data apnea_wrap_parser) (84 - 0x50 + 0x24)) * 1 * 2
     = (4294967380 :: nat)"
proof -
  have a: "mares_iconhd_parser_cache genius_badtag_parser = Inl DC_STATUS_DATAFORMAT"
    by (simp add: genius_badtag_parser_def parser_init_defs mares_iconhd_parser_cache_def
        mares_genius_cache_def read_defs model_defs Let_def)
  have b: "unat (base_size genius_badtag_parser) = 1000"
    "unat (u16 (base_data genius_badtag_parser) 0x20) = 0"
    by (simp_all add: genius_badtag_parser_def parser_init_defs read_defs)
  have c: "mares_iconhd_parser_cache apnea_wrap_parser =
     Inr (apnea_wrap_parser
       \<lparr>base_size := 84, mode := 0, nsamples := 0, samplesize := 14, headersize := 0x50,
        settings := 0, interval := 1, samplerate := 1, ntanks := 0, ngasmixes := 1,
        gasmix := [\<lparr>oxygen = 21, helium = 0\<rparr>, gasmix_zero, gasmix_zero, gasmix_zero, gasmix_zero],
        tank := replicate 5 tank_zero, cached := 1\<rparr>)"
    by (simp add: apnea_wrap_parser_def apnea_wrap_buffer_def parser_init_defs iconhd_cache_defs
        read_defs model_defs mode_defs count_defs Let_def nth_append gasmix_zero_def tank_zero_def replicate_slots)
  have d: "unat (array_uint32_le (base_data apnea_wrap_parser) 0) = 84"
    "unat (array_uint32_le (base_data apnea_wrap_parser) (84 - 0x50 + 0x24)) = 2147483648"
    by (simp_all add: apnea_wrap_parser_def apnea_wrap_buffer_def parser_init_defs read_defs nth_append)
  show ?thesis using a b c d by simp
qed

text \<open>
  C2. On the standard path the number of samples and the type are two 16-bit fields of a
  trailer of the buffer. SMART and SMARTAIR read it at declared length minus 4, SMARTAPNEA
  at declared length minus 6, the count first and the type second. Every other variant
  reads it at declared length minus \<open>headersize\<close>, with no further offset, the type first
  and the count second. The dive mode is the type masked with 3.
\<close>

theorem C2_trailer_fields:
  "cached parser = 0 \<and> model parser \<noteq> GENIUS \<and>
   mares_iconhd_parser_cache parser = Inr parser' \<longrightarrow>
     (model parser = SMART \<or> model parser = SMARTAIR \<longrightarrow>
        nsamples parser' = u16 (base_data parser) (unat (array_uint32_le (base_data parser) 0) - 4 + 0) \<and>
        mode parser' = u16 (base_data parser) (unat (array_uint32_le (base_data parser) 0) - 4 + 2) AND 0x03) \<and>
     (model parser = SMARTAPNEA \<longrightarrow>
        nsamples parser' = u16 (base_data parser) (unat (array_uint32_le (base_data parser) 0) - 6 + 0) \<and>
        mode parser' = u16 (base_data parser) (unat (array_uint32_le (base_data parser) 0) - 6 + 2) AND 0x03) \<and>
     (model parser \<noteq> SMART \<and> model parser \<noteq> SMARTAIR \<and> model parser \<noteq> SMARTAPNEA \<longrightarrow>
        mode parser' = u16 (base_data parser)
           (unat (array_uint32_le (base_data parser) 0) - unat (headersize parser') + 0) AND 0x03 \<and>
        nsamples parser' = u16 (base_data parser)
           (unat (array_uint32_le (base_data parser) 0) - unat (headersize parser') + 2))"
proof (intro impI, elim conjE)
  assume c: "cached parser = 0" and m: "model parser \<noteq> GENIUS"
    and ok: "mares_iconhd_parser_cache parser = Inr parser'"
  from c m ok have ok': "mares_iconhd_cache parser = Inr parser'"
    by (simp add: mares_iconhd_parser_cache_def)
  note f = iconhd_cache_Inr[OF ok']
  have md: "mode parser' = fst (iconhd_type_nsamples (model parser) (base_data parser)
              (array_uint32_le (base_data parser) 0) (iconhd_header (model parser))) AND 0x03"
    and ns: "nsamples parser' = snd (iconhd_type_nsamples (model parser) (base_data parser)
              (array_uint32_le (base_data parser) 0) (iconhd_header (model parser)))"
    and hs: "headersize parser' = fst (iconhd_sizes (model parser) (mode parser'))"
    by (simp_all add: f(6))
  show "(model parser = SMART \<or> model parser = SMARTAIR \<longrightarrow>
        nsamples parser' = u16 (base_data parser) (unat (array_uint32_le (base_data parser) 0) - 4 + 0) \<and>
        mode parser' = u16 (base_data parser) (unat (array_uint32_le (base_data parser) 0) - 4 + 2) AND 0x03) \<and>
     (model parser = SMARTAPNEA \<longrightarrow>
        nsamples parser' = u16 (base_data parser) (unat (array_uint32_le (base_data parser) 0) - 6 + 0) \<and>
        mode parser' = u16 (base_data parser) (unat (array_uint32_le (base_data parser) 0) - 6 + 2) AND 0x03) \<and>
     (model parser \<noteq> SMART \<and> model parser \<noteq> SMARTAIR \<and> model parser \<noteq> SMARTAPNEA \<longrightarrow>
        mode parser' = u16 (base_data parser)
           (unat (array_uint32_le (base_data parser) 0) - unat (headersize parser') + 0) AND 0x03 \<and>
        nsamples parser' = u16 (base_data parser)
           (unat (array_uint32_le (base_data parser) 0) - unat (headersize parser') + 2))"
  proof (intro conjI impI)
    assume a: "model parser = SMART \<or> model parser = SMARTAIR"
    have h: "iconhd_header SMART = 4" "iconhd_header SMARTAIR = 4"
      by (simp_all add: iconhd_header_def model_defs)
    show "nsamples parser' = u16 (base_data parser) (unat (array_uint32_le (base_data parser) 0) - 4 + 0)"
      using a by (auto simp: ns h iconhd_type_nsamples_def)
    show "mode parser' = u16 (base_data parser) (unat (array_uint32_le (base_data parser) 0) - 4 + 2) AND 0x03"
      using a by (auto simp: md h iconhd_type_nsamples_def)
  next
    assume a: "model parser = SMARTAPNEA"
    have h: "iconhd_header SMARTAPNEA = 6"
      by (simp add: iconhd_header_def model_defs)
    show "nsamples parser' = u16 (base_data parser) (unat (array_uint32_le (base_data parser) 0) - 6 + 0)"
      using a by (auto simp: ns h iconhd_type_nsamples_def)
    show "mode parser' = u16 (base_data parser) (unat (array_uint32_le (base_data parser) 0) - 6 + 2) AND 0x03"
      using a by (auto simp: md h iconhd_type_nsamples_def)
  next
    assume a: "model parser \<noteq> SMART \<and> model parser \<noteq> SMARTAIR \<and> model parser \<noteq> SMARTAPNEA"
    then have h: "iconhd_header (model parser) = headersize parser'"
      using iconhd_header_sizes[of "model parser" "mode parser'"] hs by simp
    show "mode parser' = u16 (base_data parser)
           (unat (array_uint32_le (base_data parser) 0) - unat (headersize parser') + 0) AND 0x03"
      using a by (simp add: md h iconhd_type_nsamples_def)
    show "nsamples parser' = u16 (base_data parser)
           (unat (array_uint32_le (base_data parser) 0) - unat (headersize parser') + 2)"
      using a by (simp add: ns h iconhd_type_nsamples_def)
  qed
qed


lemma iconhd_marker_cache:
  "mares_iconhd_parser_cache iconhd_marker_parser =
     Inr (iconhd_marker_parser
       \<lparr>base_size := 96, mode := 0, nsamples := 0, samplesize := 8, headersize := 0x5C,
        settings := 0, interval := 1, samplerate := 1, ntanks := 0, ngasmixes := 1,
        gasmix := [\<lparr>oxygen = 21, helium = 0\<rparr>, gasmix_zero, gasmix_zero, gasmix_zero, gasmix_zero],
        tank := replicate 5 tank_zero, cached := 1\<rparr>)"
  by (simp add: iconhd_marker_parser_def iconhd_marker_buffer_def parser_init_defs iconhd_cache_defs
      read_defs model_defs mode_defs count_defs Let_def nth_append gasmix_zero_def tank_zero_def
      replicate_slots)

lemma smart_tail_cache:
  "mares_iconhd_parser_cache smart_tail_parser =
     Inr (smart_tail_parser
       \<lparr>base_size := 96, mode := 0, nsamples := 0, samplesize := 8, headersize := 0x5C,
        settings := 0, interval := 1, samplerate := 1, ntanks := 0, ngasmixes := 1,
        gasmix := [\<lparr>oxygen = 21, helium = 0\<rparr>, gasmix_zero, gasmix_zero, gasmix_zero, gasmix_zero],
        tank := replicate 5 tank_zero, cached := 1\<rparr>)"
  by (simp add: smart_tail_parser_def smart_tail_buffer_def parser_init_defs iconhd_cache_defs
      read_defs model_defs mode_defs count_defs Let_def nth_append gasmix_zero_def tank_zero_def
      replicate_slots)

theorem C2_trailer_fields_witness:
  "cached iconhd_marker_parser = 0 \<and> model iconhd_marker_parser \<noteq> GENIUS \<and>
   (\<exists>parser'. mares_iconhd_parser_cache iconhd_marker_parser = Inr parser' \<and>
      mode parser' = u16 iconhd_marker_buffer (96 - unat (headersize parser') + 0) AND 0x03 \<and>
      nsamples parser' = u16 iconhd_marker_buffer (96 - unat (headersize parser') + 2)) \<and>
   cached smart_tail_parser = 0 \<and> model smart_tail_parser = SMART \<and>
   (\<exists>parser'. mares_iconhd_parser_cache smart_tail_parser = Inr parser' \<and>
      nsamples parser' = u16 smart_tail_buffer (96 - 4 + 0) \<and>
      mode parser' = u16 smart_tail_buffer (96 - 4 + 2) AND 0x03)"
proof -
  have h1: "cached iconhd_marker_parser = 0" "model iconhd_marker_parser \<noteq> GENIUS"
    "model iconhd_marker_parser \<noteq> SMART" "model iconhd_marker_parser \<noteq> SMARTAIR"
    "model iconhd_marker_parser \<noteq> SMARTAPNEA"
    "base_data iconhd_marker_parser = iconhd_marker_buffer"
    "unat (array_uint32_le iconhd_marker_buffer 0) = 96"
    by (simp_all add: iconhd_marker_parser_def iconhd_marker_buffer_def parser_init_defs
        model_defs read_defs)
  have h2: "cached smart_tail_parser = 0" "model smart_tail_parser \<noteq> GENIUS"
    "model smart_tail_parser = SMART"
    "base_data smart_tail_parser = smart_tail_buffer"
    "unat (array_uint32_le smart_tail_buffer 0) = 96"
    by (simp_all add: smart_tail_parser_def smart_tail_buffer_def parser_init_defs
        model_defs read_defs)
  obtain q1 where q1: "mares_iconhd_parser_cache iconhd_marker_parser = Inr q1"
    using iconhd_marker_cache by simp
  obtain q2 where q2: "mares_iconhd_parser_cache smart_tail_parser = Inr q2"
    using smart_tail_cache by simp
  from C2_trailer_fields[of iconhd_marker_parser q1] h1 q1
  have 1: "mode q1 = u16 iconhd_marker_buffer (96 - unat (headersize q1) + 0) AND 0x03 \<and>
      nsamples q1 = u16 iconhd_marker_buffer (96 - unat (headersize q1) + 2)"
    by simp
  from C2_trailer_fields[of smart_tail_parser q2] h2 q2
  have 2: "nsamples q2 = u16 smart_tail_buffer (96 - 4 + 0) \<and>
      mode q2 = u16 smart_tail_buffer (96 - 4 + 2) AND 0x03"
    by simp
  from 1 2 q1 q2 h1 h2 show ?thesis by simp
qed

theorem C2_trailer_fields_counterexample:
  "mares_iconhd_parser_cache iconhd_marker_parser =
     Inr (iconhd_marker_parser
       \<lparr>base_size := 96, mode := 0, nsamples := 0, samplesize := 8, headersize := 0x5C,
        settings := 0, interval := 1, samplerate := 1, ntanks := 0, ngasmixes := 1,
        gasmix := [\<lparr>oxygen = 21, helium = 0\<rparr>, gasmix_zero, gasmix_zero, gasmix_zero, gasmix_zero],
        tank := replicate 5 tank_zero, cached := 1\<rparr>) \<and>
   array_uint32_le iconhd_marker_buffer 0 = 96 \<and>
   spec_type_nsamples ICONHD iconhd_marker_buffer 96 0x5C = (1, 1) \<and>
   mares_iconhd_parser_cache smart_tail_parser =
     Inr (smart_tail_parser
       \<lparr>base_size := 96, mode := 0, nsamples := 0, samplesize := 8, headersize := 0x5C,
        settings := 0, interval := 1, samplerate := 1, ntanks := 0, ngasmixes := 1,
        gasmix := [\<lparr>oxygen = 21, helium = 0\<rparr>, gasmix_zero, gasmix_zero, gasmix_zero, gasmix_zero],
        tank := replicate 5 tank_zero, cached := 1\<rparr>) \<and>
   array_uint32_le smart_tail_buffer 0 = 96 \<and>
   spec_type_nsamples SMART smart_tail_buffer 96 0x5C = (3, 1)"
proof -
  have "array_uint32_le iconhd_marker_buffer 0 = 96"
    "spec_type_nsamples ICONHD iconhd_marker_buffer 96 0x5C = (1, 1)"
    "array_uint32_le smart_tail_buffer 0 = 96"
    "spec_type_nsamples SMART smart_tail_buffer 96 0x5C = (3, 1)"
    by (simp_all add: spec_type_nsamples_def iconhd_marker_buffer_def smart_tail_buffer_def
        read_defs model_defs Let_def nth_append)
  then show ?thesis using iconhd_marker_cache smart_tail_cache by simp
qed

text \<open>
  C3. The settings of a SMART dive in freedive mode: the source tests the field
  \<^verbatim>\<open>parser->mode\<close>, which still holds \<^verbatim>\<open>ICONHD_AIR\<close> when the header is cached, and
  not the mode decoded from the buffer. On the buffer below the cached mode is freedive,
  the settings are read at \<open>p + 0x0C\<close> (value 0, interval 1) and not at \<open>p + 0x08\<close>
  (value \<open>0x0400\<close>, interval 5).
\<close>

theorem C3_settings_offset_freedive:
  "mares_iconhd_parser_cache smart_freedive_parser =
     Inr (smart_freedive_parser
       \<lparr>base_size := 50, mode := ICONHD_FREEDIVE, nsamples := 0, samplesize := 6,
        headersize := 0x2E, settings := 0, interval := 1, samplerate := 1,
        ntanks := 0, ngasmixes := 0, cached := 1\<rparr>) \<and>
   mode smart_freedive_parser = ICONHD_AIR \<and>
   iconhd_p SMART 50 0x2E = 4 \<and>
   u16 smart_freedive_buffer (4 + 0x08) = 0x0400 \<and>
   u16 smart_freedive_buffer (4 + 0x0C) = 0 \<and>
   iconhd_interval SMART 0x0400 = (5, 1)"
proof -
  have a: "mares_iconhd_parser_cache smart_freedive_parser =
     Inr (smart_freedive_parser
       \<lparr>base_size := 50, mode := ICONHD_FREEDIVE, nsamples := 0, samplesize := 6,
        headersize := 0x2E, settings := 0, interval := 1, samplerate := 1,
        ntanks := 0, ngasmixes := 0, cached := 1\<rparr>)"
    by (simp add: smart_freedive_parser_def smart_freedive_buffer_def parser_init_defs
        iconhd_cache_defs read_defs model_defs mode_defs count_defs Let_def nth_append
        gasmix_zero_def tank_zero_def replicate_slots)
  have b: "mode smart_freedive_parser = ICONHD_AIR" "iconhd_p SMART 50 0x2E = 4"
    "u16 smart_freedive_buffer (4 + 0x08) = 0x0400" "u16 smart_freedive_buffer (4 + 0x0C) = 0"
    "iconhd_interval SMART 0x0400 = (5, 1)"
    by (simp_all add: smart_freedive_parser_def smart_freedive_buffer_def parser_init_defs
        iconhd_p_def iconhd_interval_def read_defs model_defs mode_defs Let_def nth_append)
  from a b show ?thesis by simp
qed

text \<open>
  C6. \<^verbatim>\<open>mares_genius_isvalid\<close> on a record of \<open>sz\<close> bytes at index \<open>pos\<close> of the buffer
  returns true if and only if \<open>sz\<close> is at least 10, the big-endian 32-bit tags in the
  first and the last four bytes both equal the expected type, and the little-endian
  16-bit checksum at \<open>sz - 6\<close> equals the checksum, started at 0, of the bytes
  \<open>[4, sz - 6)\<close> of the record.
\<close>

theorem C6_isvalid_iff:
  assumes "pos + sz \<le> length d"
  shows "mares_genius_isvalid crc d pos sz type \<longleftrightarrow>
     sz \<ge> 10 \<and>
     array_uint32_be d pos = type \<and>
     array_uint32_be d (pos + sz - 4) = type \<and>
     array_uint16_le d (pos + sz - 6) = crc (map (\<lambda>i. d ! i) [pos + 4..<pos + sz - 6]) 0x0000"
proof (cases "sz < 10")
  case True
  then show ?thesis by (simp add: mares_genius_isvalid_def)
next
  case False
  then have "pos + 4 + (sz - 10) \<le> length d" and e: "pos + 4 + (sz - 10) = pos + sz - 6"
    using assms by simp_all
  then have "take (sz - 10) (drop (pos + 4) d) = map (\<lambda>i. d ! i) [pos + 4..<pos + sz - 6]"
    using take_drop_range[of "pos + 4" "sz - 10" d] by simp
  with False show ?thesis
    by (auto simp: mares_genius_isvalid_def Let_def)
qed

theorem C6_isvalid_iff_witness:
  "0 + 34 \<le> length genius_sample1 \<and>
   mares_genius_isvalid checksum_crc16_ccitt genius_sample1 0 34 DPRS_TYPE \<and>
   array_uint32_be genius_sample1 0 = DPRS_TYPE \<and>
   array_uint32_be genius_sample1 (0 + 34 - 4) = DPRS_TYPE \<and>
   array_uint16_le genius_sample1 (0 + 34 - 6) =
     checksum_crc16_ccitt (map (\<lambda>i. genius_sample1 ! i) [0 + 4..<0 + 34 - 6]) 0x0000"
proof -
  have len: "0 + 34 \<le> length genius_sample1"
    by (simp add: genius_piece_lengths)
  from C6_isvalid_iff[OF len, of checksum_crc16_ccitt DPRS_TYPE] genius_sample1_valid len
  show ?thesis by simp
qed

text \<open>
  C10. Whenever header caching succeeds, \<^verbatim>\<open>mares_iconhd_parser_get_field\<close> with a null
  \<^verbatim>\<open>value\<close> returns success for every field kind and every index, and
  \<^verbatim>\<open>mares_iconhd_parser_get_datetime\<close> with a null \<^verbatim>\<open>datetime\<close> returns success without
  writing a date. With a non-null pointer the same call returns Unsupported for a field
  kind without a case, and DataFormat for an unknown GENIUS mode code, for the GENIUS
  salinity code 3, and for a tank with working pressure 0 under the imperial setting.
\<close>

theorem C10_null_output:
  "mares_iconhd_parser_cache parser = Inr parser' \<longrightarrow>
     mares_iconhd_parser_get_field parser type flags False = (Inr None, parser') \<and>
     mares_iconhd_parser_get_datetime parser False = (Inr None, parser') \<and>
     mares_iconhd_parser_get_field parser (DC_FIELD_OTHER k) flags True
       = (Inl DC_STATUS_UNSUPPORTED, parser') \<and>
     (model parser' = GENIUS \<and> 5 < mode parser' \<longrightarrow>
        mares_iconhd_parser_get_field parser DC_FIELD_DIVEMODE flags True
          = (Inl DC_STATUS_DATAFORMAT, parser')) \<and>
     (model parser' = GENIUS \<and> drop_bit 5 (settings parser') AND 0x03 = 3 \<longrightarrow>
        mares_iconhd_parser_get_field parser DC_FIELD_SALINITY flags True
          = (Inl DC_STATUS_DATAFORMAT, parser')) \<and>
     (model parser' \<noteq> GENIUS \<and> settings parser' AND 0x0100 = 0 \<and>
      workpressure (tank parser' ! unat flags) = 0 \<longrightarrow>
        mares_iconhd_parser_get_field parser DC_FIELD_TANK flags True
          = (Inl DC_STATUS_DATAFORMAT, parser'))"
proof (intro impI conjI)
  assume ok: "mares_iconhd_parser_cache parser = Inr parser'"
  show "mares_iconhd_parser_get_field parser type flags False = (Inr None, parser')"
    using ok by (simp add: mares_iconhd_parser_get_field_def)
  show "mares_iconhd_parser_get_datetime parser False = (Inr None, parser')"
    using ok by (simp add: mares_iconhd_parser_get_datetime_def Let_def)
  show "mares_iconhd_parser_get_field parser (DC_FIELD_OTHER k) flags True
       = (Inl DC_STATUS_UNSUPPORTED, parser')"
    using ok by (simp add: mares_iconhd_parser_get_field_def get_field_switch_def Let_def)
  {
    assume "model parser' = GENIUS \<and> 5 < mode parser'"
    then show "mares_iconhd_parser_get_field parser DC_FIELD_DIVEMODE flags True
          = (Inl DC_STATUS_DATAFORMAT, parser')"
      using ok
      by (auto simp: mares_iconhd_parser_get_field_def get_field_switch_def Let_def mode_defs)
  }
  {
    assume "model parser' = GENIUS \<and> drop_bit 5 (settings parser') AND 0x03 = 3"
    then show "mares_iconhd_parser_get_field parser DC_FIELD_SALINITY flags True
          = (Inl DC_STATUS_DATAFORMAT, parser')"
      using ok
      by (simp add: mares_iconhd_parser_get_field_def get_field_switch_def Let_def
          WATER_FRESH_def WATER_SALT_def WATER_EN13319_def)
  }
  {
    assume "model parser' \<noteq> GENIUS \<and> settings parser' AND 0x0100 = 0 \<and>
      workpressure (tank parser' ! unat flags) = 0"
    then show "mares_iconhd_parser_get_field parser DC_FIELD_TANK flags True
          = (Inl DC_STATUS_DATAFORMAT, parser')"
      using ok
      by (simp add: mares_iconhd_parser_get_field_def get_field_switch_def Let_def)
  }
qed

theorem C10_null_output_witness:
  "mares_iconhd_parser_cache smart_air_parser = Inr smart_air_cached \<and>
   mares_iconhd_parser_get_field smart_air_parser DC_FIELD_TANK 0 False = (Inr None, smart_air_cached) \<and>
   mares_iconhd_parser_get_field smart_air_parser DC_FIELD_TANK 0 True
     = (Inl DC_STATUS_DATAFORMAT, smart_air_cached) \<and>
   mares_iconhd_parser_get_field smart_air_parser (DC_FIELD_OTHER 0) 0 False
     = (Inr None, smart_air_cached) \<and>
   mares_iconhd_parser_get_field smart_air_parser (DC_FIELD_OTHER 0) 0 True
     = (Inl DC_STATUS_UNSUPPORTED, smart_air_cached) \<and>
   mares_iconhd_parser_get_datetime smart_air_parser False = (Inr None, smart_air_cached) \<and>
   mares_iconhd_parser_cache genius_oddmode_parser = Inr genius_oddmode_cached \<and>
   mares_iconhd_parser_get_field genius_oddmode_parser DC_FIELD_DIVEMODE 0 False
     = (Inr None, genius_oddmode_cached) \<and>
   mares_iconhd_parser_get_field genius_oddmode_parser DC_FIELD_DIVEMODE 0 True
     = (Inl DC_STATUS_DATAFORMAT, genius_oddmode_cached) \<and>
   mares_iconhd_parser_get_field genius_oddmode_parser DC_FIELD_SALINITY 0 False
     = (Inr None, genius_oddmode_cached) \<and>
   mares_iconhd_parser_get_field genius_oddmode_parser DC_FIELD_SALINITY 0 True
     = (Inl DC_STATUS_DATAFORMAT, genius_oddmode_cached)"
proof -
  have a: "mares_iconhd_parser_cache smart_air_parser = Inr smart_air_cached"
    by (simp add: smart_air_cache smart_air_cached_def)
  have af: "model smart_air_cached \<noteq> GENIUS" "settings smart_air_cached AND 0x0100 = 0"
    "workpressure (tank smart_air_cached ! unat (0 :: uint)) = 0"
    by (simp_all add: smart_air_cached_def smart_air_parser_def parser_init_defs model_defs
        tank_zero_def replicate_slots)
  have gf: "model genius_oddmode_cached = GENIUS" "5 < mode genius_oddmode_cached"
    "drop_bit 5 (settings genius_oddmode_cached) AND 0x03 = 3"
    by (simp_all add: genius_oddmode_cached_def genius_oddmode_parser_def parser_init_defs)
  from C10_null_output[of smart_air_parser smart_air_cached DC_FIELD_TANK 0 0]
       C10_null_output[of smart_air_parser smart_air_cached "DC_FIELD_OTHER 0" 0 0]
       C10_null_output[of genius_oddmode_parser genius_oddmode_cached DC_FIELD_DIVEMODE 0 0]
       C10_null_output[of genius_oddmode_parser genius_oddmode_cached DC_FIELD_SALINITY 0 0]
       a af gf genius_oddmode_cache
  show ?thesis by simp
qed

text \<open>
  C5. After a successful header caching the cached lists are filled from a prefix of the
  slots of the buffer. On the GENIUS path, for the five gas mix and the five tank slots,
  and on the standard path, for the three gas mix slots in nitrox mode and the three tank
  slots of the air-integrated variants: the count is the number of leading active slots
  (every slot below the count is active and the slot at the count, if there is one, is
  not), and the cached entry at every index below the count holds the values of the slot
  of the buffer with that index. On the standard path gauge and freedive mode report no
  gas mix, the variants that are not air-integrated report no tank, and air mode
  reports one gas mix of 21 percent oxygen that is not read from a slot: it is reported
  whether the first slot is enabled or not. In every case no slot behind an inactive slot
  is reported.
\<close>

theorem C5_active_prefix:
  "cached parser = 0 \<and> length (gasmix parser) = NGASMIXES \<and> length (tank parser) = NTANKS \<and>
   mares_iconhd_parser_cache parser = Inr parser' \<longrightarrow>
    (model parser = GENIUS \<longrightarrow>
       active_prefix (genius_gasmix_active (base_data parser)) NGASMIXES_GENIUS
         (unat (ngasmixes parser')) \<and>
       no_active_after_gap (genius_gasmix_active (base_data parser)) (unat (ngasmixes parser')) \<and>
       (\<forall>i < unat (ngasmixes parser').
          gasmix parser' ! i = genius_gasmix_at (base_data parser) i) \<and>
       active_prefix (genius_tank_active (base_data parser)) NTANKS_GENIUS
         (unat (ntanks parser')) \<and>
       no_active_after_gap (genius_tank_active (base_data parser)) (unat (ntanks parser')) \<and>
       (\<forall>i < unat (ntanks parser').
          tank parser' ! i = genius_tank_at (base_data parser) i)) \<and>
    (model parser \<noteq> GENIUS \<longrightarrow>
       (let d = base_data parser;
            p = iconhd_p (model parser) (base_size parser') (headersize parser');
            tankoffset = (if model parser = ICONHDNET then 0x58 else 0x5C);
            airintegrated = (model parser = ICONHDNET \<or> model parser = QUADAIR
                               \<or> model parser = SMARTAIR)
        in
        (mode parser' = ICONHD_GAUGE \<or> mode parser' = ICONHD_FREEDIVE \<longrightarrow>
           ngasmixes parser' = 0) \<and>
        (mode parser' = ICONHD_AIR \<longrightarrow>
           ngasmixes parser' = 1 \<and> gasmix parser' ! 0 = \<lparr>oxygen = 21, helium = 0\<rparr>) \<and>
        (mode parser' = ICONHD_NITROX \<longrightarrow>
           active_prefix (iconhd_gasmix_enabled d p) NGASMIXES_ICONHD (unat (ngasmixes parser')) \<and>
           (\<forall>i < unat (ngasmixes parser'). gasmix parser' ! i = iconhd_gasmix_at d p i)) \<and>
        no_active_after_gap (iconhd_gasmix_enabled d p) (unat (ngasmixes parser')) \<and>
        (airintegrated \<longrightarrow>
           active_prefix (iconhd_tank_active d p tankoffset) NTANKS_ICONHD (unat (ntanks parser')) \<and>
           no_active_after_gap (iconhd_tank_active d p tankoffset) (unat (ntanks parser')) \<and>
           (\<forall>i < unat (ntanks parser'). tank parser' ! i = iconhd_tank_at d p tankoffset i)) \<and>
        (\<not> airintegrated \<longrightarrow> ntanks parser' = 0)))"
proof (intro impI, elim conjE, intro conjI impI)
  assume c: "cached parser = 0" and ok: "mares_iconhd_parser_cache parser = Inr parser'"
    and lg: "length (gasmix parser) = NGASMIXES" and lt: "length (tank parser) = NTANKS"
  {
    assume m: "model parser = GENIUS"
    with c ok have ok': "mares_genius_cache parser = Inr parser'"
      by (simp add: mares_iconhd_parser_cache_def)
    note f = genius_cache_Inr[OF ok']
    let ?sl = "genius_slots (base_data parser) 0
                 (0, 0, replicate NGASMIXES_GENIUS gasmix_zero, replicate NTANKS_GENIUS tank_zero)"
    have pre: "active_prefix (genius_gasmix_active (base_data parser)) NGASMIXES_GENIUS (fst ?sl) \<and>
         active_prefix (genius_tank_active (base_data parser)) NGASMIXES_GENIUS (fst (snd ?sl))"
      by (rule genius_slots_prefix) (simp_all add: active_prefix_0)
    then have le: "fst ?sl \<le> 5" "fst (snd ?sl) \<le> 5"
      using active_prefix_le by (fastforce simp: count_defs)+
    have ng: "unat (ngasmixes parser') = fst ?sl" and nt: "unat (ntanks parser') = fst (snd ?sl)"
      using le by (simp_all add: f(7) unat_count)
    have vals: "(\<forall>j<fst ?sl. fst (snd (snd ?sl)) ! j = genius_gasmix_at (base_data parser) j) \<and>
         (\<forall>j<fst (snd ?sl). snd (snd (snd ?sl)) ! j = genius_tank_at (base_data parser) j)"
      by (rule genius_slots_values) (simp_all add: count_defs)
    show "active_prefix (genius_gasmix_active (base_data parser)) NGASMIXES_GENIUS
         (unat (ngasmixes parser'))"
      using pre ng by simp
    then show "no_active_after_gap (genius_gasmix_active (base_data parser)) (unat (ngasmixes parser'))"
      by (rule active_prefix_no_gap)
    have gmx: "gasmix parser' = copy_slots (fst ?sl) (fst (snd (snd ?sl))) (gasmix parser)"
      and tkx: "tank parser' = copy_slots (fst (snd ?sl)) (snd (snd (snd ?sl))) (tank parser)"
      by (simp_all add: f(7))
    have "\<forall>i < fst ?sl. gasmix parser' ! i = genius_gasmix_at (base_data parser) i"
      using vals le(1) lg by (simp add: gmx copy_slots_below count_defs)
    then show "\<forall>i < unat (ngasmixes parser').
        gasmix parser' ! i = genius_gasmix_at (base_data parser) i"
      unfolding ng .
    show "active_prefix (genius_tank_active (base_data parser)) NTANKS_GENIUS
         (unat (ntanks parser'))"
      using pre nt by (simp add: count_defs)
    then show "no_active_after_gap (genius_tank_active (base_data parser)) (unat (ntanks parser'))"
      by (rule active_prefix_no_gap)
    have "\<forall>i < fst (snd ?sl). tank parser' ! i = genius_tank_at (base_data parser) i"
      using vals le(2) lt by (simp add: tkx copy_slots_below count_defs)
    then show "\<forall>i < unat (ntanks parser').
        tank parser' ! i = genius_tank_at (base_data parser) i"
      unfolding nt .
  }
  {
    assume m: "model parser \<noteq> GENIUS"
    with c ok have ok': "mares_iconhd_cache parser = Inr parser'"
      by (simp add: mares_iconhd_parser_cache_def)
    note f = iconhd_cache_Inr[OF ok']
    let ?d = "base_data parser"
    let ?p = "iconhd_p (model parser) (base_size parser') (headersize parser')"
    let ?gms = "iconhd_gasmixes (mode parser') ?d ?p"
    let ?tks = "iconhd_tanks (model parser) ?d ?p"
    let ?off = "if model parser = ICONHDNET then 0x58 else 0x5C :: nat"
    have ngm: "ngasmixes parser' = of_nat (fst ?gms)" and ntk: "ntanks parser' = of_nat (fst ?tks)"
      and gmx: "gasmix parser' = copy_slots (fst ?gms) (snd ?gms) (gasmix parser)"
      and tkx: "tank parser' = copy_slots (fst ?tks) (snd ?tks) (tank parser)"
      by (simp_all add: f(6))
    have gauge: "mode parser' = ICONHD_GAUGE \<or> mode parser' = ICONHD_FREEDIVE \<Longrightarrow> fst ?gms = 0"
      and air: "mode parser' = ICONHD_AIR \<Longrightarrow> fst ?gms = 1"
      and airv: "mode parser' = ICONHD_AIR \<Longrightarrow> snd ?gms ! 0 = \<lparr>oxygen = 21, helium = 0\<rparr>"
      by (auto simp: iconhd_gasmixes_def Let_def mode_defs count_defs)
    have nitrox: "active_prefix (iconhd_gasmix_enabled ?d ?p) NGASMIXES_ICONHD (fst ?gms)"
      and nitroxv: "\<forall>i<fst ?gms. snd ?gms ! i = iconhd_gasmix_at ?d ?p i"
      if "mode parser' = ICONHD_NITROX"
    proof -
      obtain n' gm' where sc: "iconhd_gasmix_scan ?d ?p 0 (replicate NGASMIXES_ICONHD gasmix_zero)
          = (n', gm')" by fastforce
      from gasmix_scan_prefix[OF sc] have "active_prefix (iconhd_gasmix_enabled ?d ?p) NGASMIXES_ICONHD n'"
        by simp
      moreover from gasmix_scan_values[OF sc] have "\<forall>i<n'. gm' ! i = iconhd_gasmix_at ?d ?p i"
        by simp
      moreover have "?gms = (n', gm')"
        using that sc by (simp add: iconhd_gasmixes_def Let_def mode_defs)
      ultimately show "active_prefix (iconhd_gasmix_enabled ?d ?p) NGASMIXES_ICONHD (fst ?gms)"
        and "\<forall>i<fst ?gms. snd ?gms ! i = iconhd_gasmix_at ?d ?p i"
        by simp_all
    qed
    have mode4: "mode parser' = ICONHD_AIR \<or> mode parser' = ICONHD_GAUGE
        \<or> mode parser' = ICONHD_NITROX \<or> mode parser' = ICONHD_FREEDIVE"
      using word_and_3_cases[of "fst (iconhd_type_nsamples (model parser) (base_data parser)
              (array_uint32_le (base_data parser) 0) (iconhd_header (model parser)))"]
      by (simp add: f(6) mode_defs)
    have gle: "fst ?gms \<le> 5"
      using gauge air nitrox mode4 active_prefix_le[of _ NGASMIXES_ICONHD "fst ?gms"]
      by (fastforce simp: count_defs)
    have ung: "unat (ngasmixes parser') = fst ?gms"
      using gle by (simp add: ngm unat_count)
    have tanks: "active_prefix (iconhd_tank_active ?d ?p ?off) NTANKS_ICONHD (fst ?tks)"
      and tanksv: "\<forall>i<fst ?tks. snd ?tks ! i = iconhd_tank_at ?d ?p ?off i"
      if "model parser = ICONHDNET \<or> model parser = QUADAIR \<or> model parser = SMARTAIR"
    proof -
      obtain n' tk' where sc: "iconhd_tank_scan ?d ?p ?off 0 (replicate NTANKS_ICONHD tank_zero)
          = (n', tk')" by fastforce
      from tank_scan_prefix[OF sc] have "active_prefix (iconhd_tank_active ?d ?p ?off) NTANKS_ICONHD n'"
        by simp
      moreover from tank_scan_values[OF sc] have "\<forall>i<n'. tk' ! i = iconhd_tank_at ?d ?p ?off i"
        by simp
      moreover have "?tks = (n', tk')"
        using that sc by (simp add: iconhd_tanks_def Let_def)
      ultimately show "active_prefix (iconhd_tank_active ?d ?p ?off) NTANKS_ICONHD (fst ?tks)"
        and "\<forall>i<fst ?tks. snd ?tks ! i = iconhd_tank_at ?d ?p ?off i"
        by simp_all
    qed
    have notanks: "fst ?tks = 0"
      if "\<not> (model parser = ICONHDNET \<or> model parser = QUADAIR \<or> model parser = SMARTAIR)"
      using that by (simp add: iconhd_tanks_def Let_def)
    have tle: "fst ?tks \<le> 5"
      using tanks notanks active_prefix_le[of _ NTANKS_ICONHD "fst ?tks"]
      by (fastforce simp: count_defs)
    have unt: "unat (ntanks parser') = fst ?tks"
      using tle by (simp add: ntk unat_count)
    have nogap: "no_active_after_gap (iconhd_gasmix_enabled ?d ?p) (unat (ngasmixes parser'))"
      using mode4 gauge air nitrox[THEN active_prefix_no_gap] ung
      by (auto simp: no_active_after_gap_def)
    have gv: "gasmix parser' ! i = snd ?gms ! i" if "i < fst ?gms" for i
      using that gle lg by (simp add: gmx copy_slots_below count_defs)
    have tv: "tank parser' ! i = snd ?tks ! i" if "i < fst ?tks" for i
      using that tle lt by (simp add: tkx copy_slots_below count_defs)
    have airc: "ngasmixes parser' = 1 \<and> gasmix parser' ! 0 = \<lparr>oxygen = 21, helium = 0\<rparr>"
      if a: "mode parser' = ICONHD_AIR"
      using air[OF a] airv[OF a] gv[of 0] ngm by simp
    have nitroxc: "active_prefix (iconhd_gasmix_enabled ?d ?p) NGASMIXES_ICONHD
                     (unat (ngasmixes parser')) \<and>
           (\<forall>i < unat (ngasmixes parser'). gasmix parser' ! i = iconhd_gasmix_at ?d ?p i)"
      if a: "mode parser' = ICONHD_NITROX"
      using nitrox[OF a] nitroxv[OF a] gv ung by simp
    have tankc: "active_prefix (iconhd_tank_active ?d ?p ?off) NTANKS_ICONHD
                   (unat (ntanks parser')) \<and>
           no_active_after_gap (iconhd_tank_active ?d ?p ?off) (unat (ntanks parser')) \<and>
           (\<forall>i < unat (ntanks parser'). tank parser' ! i = iconhd_tank_at ?d ?p ?off i)"
      if a: "model parser = ICONHDNET \<or> model parser = QUADAIR \<or> model parser = SMARTAIR"
      using tanks[OF a] tanks[OF a, THEN active_prefix_no_gap] tanksv[OF a] tv unt by simp
    have gaugec: "ngasmixes parser' = 0"
      if a: "mode parser' = ICONHD_GAUGE \<or> mode parser' = ICONHD_FREEDIVE"
      using gauge[OF a] ngm by simp
    have notankc: "ntanks parser' = 0"
      if a: "\<not> (model parser = ICONHDNET \<or> model parser = QUADAIR \<or> model parser = SMARTAIR)"
      using notanks[OF a] ntk by simp
    show "let d = base_data parser;
            p = iconhd_p (model parser) (base_size parser') (headersize parser');
            tankoffset = (if model parser = ICONHDNET then 0x58 else 0x5C);
            airintegrated = (model parser = ICONHDNET \<or> model parser = QUADAIR
                               \<or> model parser = SMARTAIR)
        in
        (mode parser' = ICONHD_GAUGE \<or> mode parser' = ICONHD_FREEDIVE \<longrightarrow>
           ngasmixes parser' = 0) \<and>
        (mode parser' = ICONHD_AIR \<longrightarrow>
           ngasmixes parser' = 1 \<and> gasmix parser' ! 0 = \<lparr>oxygen = 21, helium = 0\<rparr>) \<and>
        (mode parser' = ICONHD_NITROX \<longrightarrow>
           active_prefix (iconhd_gasmix_enabled d p) NGASMIXES_ICONHD (unat (ngasmixes parser')) \<and>
           (\<forall>i < unat (ngasmixes parser'). gasmix parser' ! i = iconhd_gasmix_at d p i)) \<and>
        no_active_after_gap (iconhd_gasmix_enabled d p) (unat (ngasmixes parser')) \<and>
        (airintegrated \<longrightarrow>
           active_prefix (iconhd_tank_active d p tankoffset) NTANKS_ICONHD (unat (ntanks parser')) \<and>
           no_active_after_gap (iconhd_tank_active d p tankoffset) (unat (ntanks parser')) \<and>
           (\<forall>i < unat (ntanks parser'). tank parser' ! i = iconhd_tank_at d p tankoffset i)) \<and>
        (\<not> airintegrated \<longrightarrow> ntanks parser' = 0)"
      unfolding Let_def
      using gaugec airc nitroxc nogap tankc notankc
      by blast
  }
qed


theorem C5_active_prefix_witness:
  "cached genius_dive_parser = 0 \<and>
   mares_iconhd_parser_cache genius_dive_parser = Inr (genius_dive_cached genius_dive_parser) \<and>
   active_prefix (genius_gasmix_active genius_dive_buffer) NGASMIXES_GENIUS 2 \<and>
   no_active_after_gap (genius_gasmix_active genius_dive_buffer) 2 \<and>
   \<not> genius_gasmix_active genius_dive_buffer 2 \<and>
   genius_gasmix_active genius_dive_buffer 3 \<and>
   active_prefix (genius_tank_active genius_dive_buffer) NTANKS_GENIUS 2 \<and>
   genius_gasmix_at genius_dive_buffer 0 = \<lparr>oxygen = 21, helium = 0\<rparr> \<and>
   genius_gasmix_at genius_dive_buffer 1 = \<lparr>oxygen = 50, helium = 0\<rparr> \<and>
   genius_tank_at genius_dive_buffer 1
     = \<lparr>volume = 7, workpressure = 200, beginpressure = 20000, endpressure = 18000\<rparr> \<and>
   cached iconhdnet_nitrox_parser = 0 \<and>
   mares_iconhd_parser_cache iconhdnet_nitrox_parser = Inr iconhdnet_nitrox_cached \<and>
   active_prefix (iconhd_gasmix_enabled iconhdnet_nitrox_buffer 8) NGASMIXES_ICONHD 1 \<and>
   no_active_after_gap (iconhd_gasmix_enabled iconhdnet_nitrox_buffer 8) 1 \<and>
   \<not> iconhd_gasmix_enabled iconhdnet_nitrox_buffer 8 1 \<and>
   iconhd_gasmix_enabled iconhdnet_nitrox_buffer 8 2 \<and>
   active_prefix (iconhd_tank_active iconhdnet_nitrox_buffer 8 0x58) NTANKS_ICONHD 1 \<and>
   \<not> iconhd_tank_active iconhdnet_nitrox_buffer 8 0x58 1 \<and>
   iconhd_tank_active iconhdnet_nitrox_buffer 8 0x58 2 \<and>
   iconhd_gasmix_at iconhdnet_nitrox_buffer 8 0 = \<lparr>oxygen = 32, helium = 0\<rparr> \<and>
   iconhd_tank_at iconhdnet_nitrox_buffer 8 0x58 0
     = \<lparr>volume = 12, workpressure = 232, beginpressure = 20000, endpressure = 5000\<rparr> \<and>
   cached iconhd_airoff_parser = 0 \<and>
   mares_iconhd_parser_cache iconhd_airoff_parser = Inr iconhd_airoff_cached \<and>
   mode iconhd_airoff_cached = ICONHD_AIR \<and>
   ngasmixes iconhd_airoff_cached = 1 \<and>
   gasmix iconhd_airoff_cached ! 0 = \<lparr>oxygen = 21, helium = 0\<rparr>"
proof -
  have g: "cached genius_dive_parser = 0" "model genius_dive_parser = GENIUS"
    "base_data genius_dive_parser = genius_dive_buffer"
    "length (gasmix genius_dive_parser) = NGASMIXES"
    "length (tank genius_dive_parser) = NTANKS"
    "unat (ngasmixes (genius_dive_cached genius_dive_parser)) = 2"
    "unat (ntanks (genius_dive_cached genius_dive_parser)) = 2"
    by (simp_all add: genius_dive_parser_def genius_dive_cached_def parser_init_defs)
  have gv: "gasmix (genius_dive_cached genius_dive_parser) ! 0 = \<lparr>oxygen = 21, helium = 0\<rparr>"
    "gasmix (genius_dive_cached genius_dive_parser) ! 1 = \<lparr>oxygen = 50, helium = 0\<rparr>"
    "tank (genius_dive_cached genius_dive_parser) ! 1
       = \<lparr>volume = 7, workpressure = 200, beginpressure = 20000, endpressure = 18000\<rparr>"
    by (simp_all add: genius_dive_cached_def)
  have gs: "\<not> genius_gasmix_active genius_dive_buffer 2"
    "genius_gasmix_active genius_dive_buffer 3"
    by (simp_all add: genius_gasmix_active_def genius_dive_buffer_def append_reads
        genius_piece_facts GASMIX_OFF_def)
  have n: "cached iconhdnet_nitrox_parser = 0" "model iconhdnet_nitrox_parser \<noteq> GENIUS"
    "model iconhdnet_nitrox_parser = ICONHDNET"
    "base_data iconhdnet_nitrox_parser = iconhdnet_nitrox_buffer"
    "length (gasmix iconhdnet_nitrox_parser) = NGASMIXES"
    "length (tank iconhdnet_nitrox_parser) = NTANKS"
    "unat (ngasmixes iconhdnet_nitrox_cached) = 1"
    "unat (ntanks iconhdnet_nitrox_cached) = 1"
    "mode iconhdnet_nitrox_cached = ICONHD_NITROX"
    "iconhd_p ICONHDNET (base_size iconhdnet_nitrox_cached) (headersize iconhdnet_nitrox_cached) = 8"
    by (simp_all add: iconhdnet_nitrox_parser_def iconhdnet_nitrox_cached_def parser_init_defs
        model_defs mode_defs iconhd_p_def)
  have nv: "gasmix iconhdnet_nitrox_cached ! 0 = \<lparr>oxygen = 32, helium = 0\<rparr>"
    "tank iconhdnet_nitrox_cached ! 0
       = \<lparr>volume = 12, workpressure = 232, beginpressure = 20000, endpressure = 5000\<rparr>"
    by (simp_all add: iconhdnet_nitrox_cached_def)
  have ns: "\<not> iconhd_gasmix_enabled iconhdnet_nitrox_buffer 8 1"
    "iconhd_gasmix_enabled iconhdnet_nitrox_buffer 8 2"
    "\<not> iconhd_tank_active iconhdnet_nitrox_buffer 8 0x58 1"
    "iconhd_tank_active iconhdnet_nitrox_buffer 8 0x58 2"
    by (simp_all add: iconhd_gasmix_enabled_def iconhd_tank_active_def tank_active_def
        iconhdnet_nitrox_buffer_def read_defs nth_append)
  have a: "model iconhd_airoff_parser \<noteq> GENIUS"
    using iconhd_airoff_fields(2) by (simp add: model_defs)
  from C5_active_prefix[of genius_dive_parser "genius_dive_cached genius_dive_parser"]
    g genius_dive_cache
  have 1: "active_prefix (genius_gasmix_active genius_dive_buffer) NGASMIXES_GENIUS 2 \<and>
   no_active_after_gap (genius_gasmix_active genius_dive_buffer) 2 \<and>
   active_prefix (genius_tank_active genius_dive_buffer) NTANKS_GENIUS 2 \<and>
   (\<forall>i<2. gasmix (genius_dive_cached genius_dive_parser) ! i
            = genius_gasmix_at genius_dive_buffer i) \<and>
   (\<forall>i<2. tank (genius_dive_cached genius_dive_parser) ! i
            = genius_tank_at genius_dive_buffer i)"
    by simp
  have v1: "genius_gasmix_at genius_dive_buffer 0 = \<lparr>oxygen = 21, helium = 0\<rparr> \<and>
   genius_gasmix_at genius_dive_buffer 1 = \<lparr>oxygen = 50, helium = 0\<rparr> \<and>
   genius_tank_at genius_dive_buffer 1
     = \<lparr>volume = 7, workpressure = 200, beginpressure = 20000, endpressure = 18000\<rparr>"
  proof -
    from 1 have A: "\<And>i. i < 2 \<Longrightarrow> gasmix (genius_dive_cached genius_dive_parser) ! i
            = genius_gasmix_at genius_dive_buffer i"
      and B: "\<And>i. i < 2 \<Longrightarrow> tank (genius_dive_cached genius_dive_parser) ! i
            = genius_tank_at genius_dive_buffer i"
      by simp_all
    from A[of 0] A[of 1] B[of 1] gv show ?thesis by simp
  qed
  from C5_active_prefix[of iconhdnet_nitrox_parser iconhdnet_nitrox_cached]
    n iconhdnet_nitrox_cache
  have 2: "active_prefix (iconhd_gasmix_enabled iconhdnet_nitrox_buffer 8) NGASMIXES_ICONHD 1 \<and>
   no_active_after_gap (iconhd_gasmix_enabled iconhdnet_nitrox_buffer 8) 1 \<and>
   active_prefix (iconhd_tank_active iconhdnet_nitrox_buffer 8 0x58) NTANKS_ICONHD 1 \<and>
   gasmix iconhdnet_nitrox_cached ! 0 = iconhd_gasmix_at iconhdnet_nitrox_buffer 8 0 \<and>
   tank iconhdnet_nitrox_cached ! 0 = iconhd_tank_at iconhdnet_nitrox_buffer 8 0x58 0"
    by (simp add: Let_def)
  from C5_active_prefix[of iconhd_airoff_parser iconhd_airoff_cached]
    iconhd_airoff_fields(1,3,4,5,6) a iconhd_airoff_cache
  have 3: "ngasmixes iconhd_airoff_cached = 1 \<and>
    gasmix iconhd_airoff_cached ! 0 = \<lparr>oxygen = 21, helium = 0\<rparr>"
    by (simp add: Let_def)
  from 1 v1 2 3 g gs n nv ns genius_dive_cache iconhdnet_nitrox_cache
    iconhd_airoff_fields(1,6) iconhd_airoff_cache
  show ?thesis by simp
qed

theorem C5_active_prefix_counterexample:
  "mares_iconhd_parser_cache iconhd_airoff_parser = Inr iconhd_airoff_cached \<and>
   iconhd_p ICONHD (base_size iconhd_airoff_cached) (headersize iconhd_airoff_cached) = 8 \<and>
   \<not> iconhd_gasmix_enabled iconhd_airoff_buffer 8 0 \<and>
   iconhd_gasmix_at iconhd_airoff_buffer 8 0 = \<lparr>oxygen = 32, helium = 0\<rparr> \<and>
   ngasmixes iconhd_airoff_cached = 1 \<and>
   gasmix iconhd_airoff_cached ! 0 = \<lparr>oxygen = 21, helium = 0\<rparr>"
proof -
  have "\<not> iconhd_gasmix_enabled iconhd_airoff_buffer 8 0"
    "iconhd_gasmix_at iconhd_airoff_buffer 8 0 = \<lparr>oxygen = 32, helium = 0\<rparr>"
    by (simp_all add: iconhd_gasmix_enabled_def iconhd_gasmix_at_def iconhd_airoff_buffer_def
        nth_append)
  with iconhd_airoff_cache iconhd_airoff_fields(7,8,9) show ?thesis by simp
qed

text \<open>
  C9. \<^verbatim>\<open>mares_iconhd_parser_get_field\<close> does not compare the index with the cached
  counts. After \<^verbatim>\<open>set_data\<close> and a successful header caching, for an index below the
  capacity 5 that is not below the gas mix count, the gas mix slot is the zero slot and
  the GASMIX field is returned with success (oxygen 0, helium 0, nitrogen 1). For an index
  that is not below the tank count the tank slot is the zero slot; the TANK field is
  returned with success under the metric setting, with the gas mix association
  \<^verbatim>\<open>DC_GASMIX_UNKNOWN\<close> unless the index is below the gas mix count, and with DataFormat
  (working pressure 0) under the imperial setting.
\<close>

theorem C9_no_bounds_check:
  "mares_iconhd_parser_cache (mares_iconhd_parser_set_data parser0 d) = Inr parser \<and>
   unat flags < NGASMIXES \<longrightarrow>
     (ngasmixes parser \<le> flags \<longrightarrow>
        gasmix parser ! unat flags = gasmix_zero \<and>
        mares_iconhd_parser_get_field (mares_iconhd_parser_set_data parser0 d)
            DC_FIELD_GASMIX flags True
          = (Inr (Some (Gasmix \<lparr>gm_helium = 0, gm_oxygen = 0, gm_nitrogen = 1\<rparr>)), parser)) \<and>
     (ntanks parser \<le> flags \<longrightarrow>
        tank parser ! unat flags = tank_zero \<and>
        mares_iconhd_parser_get_field (mares_iconhd_parser_set_data parser0 d)
            DC_FIELD_TANK flags True
          = (if (if model parser = GENIUS then ucast (base_data parser ! 0x34)
                 else settings parser AND 0x0100) \<noteq> (0 :: uint)
             then Inr (Some (Tank
                    \<lparr>tk_gasmix = (if flags < ngasmixes parser then flags else DC_GASMIX_UNKNOWN),
                     tk_type = DC_TANKVOLUME_METRIC, tk_volume = 0, tk_workpressure = 0,
                     tk_beginpressure = 0, tk_endpressure = 0\<rparr>))
             else Inl DC_STATUS_DATAFORMAT,
             parser))"
proof (intro impI, elim conjE)
  assume ok: "mares_iconhd_parser_cache (mares_iconhd_parser_set_data parser0 d) = Inr parser"
    and fl: "unat flags < NGASMIXES"
  from cache_after_set_data[OF ok] obtain ngm ntk where
    le: "ngm \<le> 5" "ntk \<le> 5" and
    ng: "ngasmixes parser = of_nat ngm" and nt: "ntanks parser = of_nat ntk" and
    gz: "\<forall>i. ngm \<le> i \<and> i < 5 \<longrightarrow> gasmix parser ! i = gasmix_zero" and
    tz: "\<forall>i. ntk \<le> i \<and> i < 5 \<longrightarrow> tank parser ! i = tank_zero"
    by blast
  have fl5: "unat flags < 5" using fl by (simp add: count_defs)
  have p0: "model parser = GENIUS \<Longrightarrow> accessor_p parser = 0"
    by (simp add: accessor_p_def)
  show "(ngasmixes parser \<le> flags \<longrightarrow>
        gasmix parser ! unat flags = gasmix_zero \<and>
        mares_iconhd_parser_get_field (mares_iconhd_parser_set_data parser0 d)
            DC_FIELD_GASMIX flags True
          = (Inr (Some (Gasmix \<lparr>gm_helium = 0, gm_oxygen = 0, gm_nitrogen = 1\<rparr>)), parser)) \<and>
     (ntanks parser \<le> flags \<longrightarrow>
        tank parser ! unat flags = tank_zero \<and>
        mares_iconhd_parser_get_field (mares_iconhd_parser_set_data parser0 d)
            DC_FIELD_TANK flags True
          = (if (if model parser = GENIUS then ucast (base_data parser ! 0x34)
                 else settings parser AND 0x0100) \<noteq> (0 :: uint)
             then Inr (Some (Tank
                    \<lparr>tk_gasmix = (if flags < ngasmixes parser then flags else DC_GASMIX_UNKNOWN),
                     tk_type = DC_TANKVOLUME_METRIC, tk_volume = 0, tk_workpressure = 0,
                     tk_beginpressure = 0, tk_endpressure = 0\<rparr>))
             else Inl DC_STATUS_DATAFORMAT,
             parser))"
  proof (intro conjI impI)
    assume a: "ngasmixes parser \<le> flags"
    then have "ngm \<le> unat flags"
      using le by (simp add: ng word_le_nat_alt unat_count)
    with gz fl5 show z: "gasmix parser ! unat flags = gasmix_zero" by simp
    show "mares_iconhd_parser_get_field (mares_iconhd_parser_set_data parser0 d)
            DC_FIELD_GASMIX flags True
          = (Inr (Some (Gasmix \<lparr>gm_helium = 0, gm_oxygen = 0, gm_nitrogen = 1\<rparr>)), parser)"
      using ok z
      by (simp add: mares_iconhd_parser_get_field_def get_field_switch_def Let_def gasmix_zero_def)
  next
    assume a: "ntanks parser \<le> flags"
    then have "ntk \<le> unat flags"
      using le by (simp add: nt word_le_nat_alt unat_count)
    with tz fl5 show z: "tank parser ! unat flags = tank_zero" by simp
    show "mares_iconhd_parser_get_field (mares_iconhd_parser_set_data parser0 d)
            DC_FIELD_TANK flags True
          = (if (if model parser = GENIUS then ucast (base_data parser ! 0x34)
                 else settings parser AND 0x0100) \<noteq> (0 :: uint)
             then Inr (Some (Tank
                    \<lparr>tk_gasmix = (if flags < ngasmixes parser then flags else DC_GASMIX_UNKNOWN),
                     tk_type = DC_TANKVOLUME_METRIC, tk_volume = 0, tk_workpressure = 0,
                     tk_beginpressure = 0, tk_endpressure = 0\<rparr>))
             else Inl DC_STATUS_DATAFORMAT,
             parser)"
      using ok z p0
      by (simp add: mares_iconhd_parser_get_field_def get_field_switch_def Let_def tank_zero_def)
  qed
qed

theorem C9_no_bounds_check_witness:
  "mares_iconhd_parser_cache (mares_iconhd_parser_set_data (mares_iconhd_parser_create GENIUS)
      genius_dive_buffer) = Inr (genius_dive_cached genius_dive_parser) \<and>
   unat (3 :: uint) < NGASMIXES \<and>
   ngasmixes (genius_dive_cached genius_dive_parser) \<le> 3 \<and>
   ntanks (genius_dive_cached genius_dive_parser) \<le> 3 \<and>
   mares_iconhd_parser_get_field genius_dive_parser DC_FIELD_GASMIX 3 True
     = (Inr (Some (Gasmix \<lparr>gm_helium = 0, gm_oxygen = 0, gm_nitrogen = 1\<rparr>)),
        genius_dive_cached genius_dive_parser) \<and>
   mares_iconhd_parser_get_field genius_dive_parser DC_FIELD_TANK 3 True
     = (Inr (Some (Tank
          \<lparr>tk_gasmix = DC_GASMIX_UNKNOWN, tk_type = DC_TANKVOLUME_METRIC, tk_volume = 0,
           tk_workpressure = 0, tk_beginpressure = 0, tk_endpressure = 0\<rparr>)),
        genius_dive_cached genius_dive_parser)"
proof -
  have c: "mares_iconhd_parser_cache (mares_iconhd_parser_set_data (mares_iconhd_parser_create GENIUS)
      genius_dive_buffer) = Inr (genius_dive_cached genius_dive_parser)"
    using genius_dive_cache by (simp add: genius_dive_parser_def)
  have h: "unat (3 :: uint) < NGASMIXES"
    "ngasmixes (genius_dive_cached genius_dive_parser) \<le> 3"
    "ntanks (genius_dive_cached genius_dive_parser) \<le> 3"
    "\<not> 3 < ngasmixes (genius_dive_cached genius_dive_parser)"
    "model (genius_dive_cached genius_dive_parser) = GENIUS"
    "base_data (genius_dive_cached genius_dive_parser) ! 0x34 = 1"
    by (simp_all add: genius_dive_cached_def genius_dive_parser_def parser_init_defs count_defs
        genius_dive_buffer_def append_reads genius_piece_facts)
  from C9_no_bounds_check[of "mares_iconhd_parser_create GENIUS" genius_dive_buffer
      "genius_dive_cached genius_dive_parser" 3] c h
  show ?thesis
    by (simp add: genius_dive_parser_def)
qed

text \<open>
  C4. A per-interval record of the standard or the GENIUS shape. A GENIUS record that
  fails its DPRS validation returns DataFormat and delivers nothing. Every other record
  first delivers Time, Depth and Temperature. Then, if the cached gas mix count is not
  zero and the gas mix index of the record is greater than or equal to it, the walk
  returns DataFormat: these three events stay delivered and nothing else of the record
  is. Otherwise (the count is zero, where the index is not checked, or the index is below
  the count) the record is accepted: right behind the three events a GasMixChange is
  delivered exactly when the count is not zero and the index differs from the previous
  one, which is then the index; the events that follow hold no Time and no GasMixChange
  (there are none for a standard record without tank pressure); and the record returns
  no failure, but for a GENIUS record whose AIRS record, due after every fourth sample,
  does not validate. The initial previous index differs from every index below a count,
  so the first accepted record delivers a GasMixChange when mixes exist.
\<close>

theorem C4_gasmix_index:
  "sample_fields parser (base + unat (w_offset w)) marker
     = (depth, temperature, alarms, misc, mix) \<and>
   walk_sample crc parser base marker air w = (rc, w') \<longrightarrow>
     (model parser = GENIUS \<and>
      \<not> mares_genius_isvalid crc (base_data parser) (base + unat (w_offset w))
           (unat DPRS_SIZE) DPRS_TYPE \<longrightarrow>
        rc = Some DC_STATUS_DATAFORMAT \<and> w' = w) \<and>
     ((model parser = GENIUS \<longrightarrow>
         mares_genius_isvalid crc (base_data parser) (base + unat (w_offset w))
           (unat DPRS_SIZE) DPRS_TYPE) \<longrightarrow>
        (0 < ngasmixes parser \<and> ngasmixes parser \<le> mix \<longrightarrow>
           rc = Some DC_STATUS_DATAFORMAT \<and>
           w_events w' =
             w_events w @ [DC_SAMPLE_TIME (w_time w + interval parser),
                           DC_SAMPLE_DEPTH (real (unat depth) / 10),
                           DC_SAMPLE_TEMPERATURE (real (unat temperature) / 10)] \<and>
           (w_nsamples w < nsamples parser \<and> model parser \<noteq> SMARTAPNEA \<and>
            (model parser = GENIUS \<or> mode parser \<noteq> ICONHD_FREEDIVE) \<longrightarrow>
              walk_loop crc parser base marker air w = (Some DC_STATUS_DATAFORMAT, w'))) \<and>
        (ngasmixes parser = 0 \<or> mix < ngasmixes parser \<longrightarrow>
           (\<exists>rest.
              w_events w' =
                w_events w @ [DC_SAMPLE_TIME (w_time w + interval parser),
                              DC_SAMPLE_DEPTH (real (unat depth) / 10),
                              DC_SAMPLE_TEMPERATURE (real (unat temperature) / 10)]
                  @ (if 0 < ngasmixes parser \<and> mix \<noteq> w_gasmix_previous w
                     then [DC_SAMPLE_GASMIX mix] else [])
                  @ rest \<and>
              sample_times rest = [] \<and> gasmix_changes rest = [] \<and>
              (model parser \<noteq> GENIUS \<and> \<not> air \<longrightarrow> rest = [])) \<and>
           w_gasmix_previous w' = (if 0 < ngasmixes parser then mix else w_gasmix_previous w) \<and>
           rc = (if model parser = GENIUS \<and> air \<and> (w_nsamples w + 1) mod 4 = 0 \<and>
                    \<not> mares_genius_isvalid crc (base_data parser)
                         (base + unat (w_offset w + samplesize parser))
                         (unat AIRS_SIZE) AIRS_TYPE
                 then Some DC_STATUS_DATAFORMAT else None)) \<and>
        (0 < ngasmixes parser \<and> mix < ngasmixes parser \<longrightarrow>
           mix \<noteq> w_gasmix_previous walk_init))"
proof (intro impI, elim conjE)
  assume f: "sample_fields parser (base + unat (w_offset w)) marker
              = (depth, temperature, alarms, misc, mix)"
    and r: "walk_sample crc parser base marker air w = (rc, w')"
  let ?valid = "mares_genius_isvalid crc (base_data parser) (base + unat (w_offset w))
                  (unat DPRS_SIZE) DPRS_TYPE"
  let ?tdt = "[DC_SAMPLE_TIME (w_time w + interval parser),
               DC_SAMPLE_DEPTH (real (unat depth) / 10),
               DC_SAMPLE_TEMPERATURE (real (unat temperature) / 10)]"
  let ?w1 = "emit_time_depth_temperature parser depth temperature w"
  let ?w2 = "emit_gasmix parser mix ?w1"
  let ?w3 = "emit_deco_alarms parser (base + unat (w_offset w)) marker misc alarms ?w2"
  let ?w4 = "?w3\<lparr>w_offset := w_offset w + samplesize parser, w_nsamples := w_nsamples w + 1\<rparr>"
  have invalid: "rc = Some DC_STATUS_DATAFORMAT \<and> w' = w"
    if "model parser = GENIUS \<and> \<not> ?valid"
    using walk_sample_invalid[of parser crc base w marker air] that r by simp
  have bad: "rc = Some DC_STATUS_DATAFORMAT \<and>
        w_events w' = w_events w @ ?tdt \<and>
        (w_nsamples w < nsamples parser \<and> model parser \<noteq> SMARTAPNEA \<and>
         (model parser = GENIUS \<or> mode parser \<noteq> ICONHD_FREEDIVE) \<longrightarrow>
           walk_loop crc parser base marker air w = (Some DC_STATUS_DATAFORMAT, w'))"
    if v: "model parser = GENIUS \<longrightarrow> ?valid"
      and b: "0 < ngasmixes parser \<and> ngasmixes parser \<le> mix"
  proof -
    from walk_sample_cases(1)[OF f v b, of air] r have rc: "rc = Some DC_STATUS_DATAFORMAT"
      and w': "w' = ?w1"
      by simp_all
    have "walk_loop crc parser base marker air w = (Some DC_STATUS_DATAFORMAT, w')"
      if "w_nsamples w < nsamples parser" "model parser \<noteq> SMARTAPNEA"
        "model parser = GENIUS \<or> mode parser \<noteq> ICONHD_FREEDIVE"
      using walk_loop_abort[OF that(1), of crc base marker air "DC_STATUS_DATAFORMAT" w']
        walk_record_sample[OF that(2,3), of crc base marker air w] r rc
      by simp
    then show ?thesis using rc w' by simp
  qed
  have good: "(\<exists>rest.
              w_events w' =
                w_events w @ ?tdt
                  @ (if 0 < ngasmixes parser \<and> mix \<noteq> w_gasmix_previous w
                     then [DC_SAMPLE_GASMIX mix] else [])
                  @ rest \<and>
              sample_times rest = [] \<and> gasmix_changes rest = [] \<and>
              (model parser \<noteq> GENIUS \<and> \<not> air \<longrightarrow> rest = [])) \<and>
           w_gasmix_previous w' = (if 0 < ngasmixes parser then mix else w_gasmix_previous w) \<and>
           rc = (if model parser = GENIUS \<and> air \<and> (w_nsamples w + 1) mod 4 = 0 \<and>
                    \<not> mares_genius_isvalid crc (base_data parser)
                         (base + unat (w_offset w + samplesize parser))
                         (unat AIRS_SIZE) AIRS_TYPE
                 then Some DC_STATUS_DATAFORMAT else None)"
    if v: "model parser = GENIUS \<longrightarrow> ?valid"
      and a: "ngasmixes parser = 0 \<or> mix < ngasmixes parser"
  proof -
    from a have g: "\<not> (0 < ngasmixes parser \<and> ngasmixes parser \<le> mix)" by auto
    from walk_sample_cases(2)[OF f v g, of air] r
    have wa: "walk_airs crc parser base marker air mix ?w4 = (rc, w')" by simp
    then have w': "w' = snd (walk_airs crc parser base marker air mix ?w4)"
      and rc: "rc = fst (walk_airs crc parser base marker air mix ?w4)" by simp_all
    obtain dl where dl: "w_events ?w3 = w_events ?w2 @ dl" "sample_times dl = []"
      "gasmix_changes dl = []" "model parser \<noteq> GENIUS \<longrightarrow> dl = []"
      using emit_deco_alarms_tail[of parser "base + unat (w_offset w)" marker misc alarms ?w2]
      by blast
    obtain pl where pl: "w_events w' = w_events ?w4 @ pl" "sample_times pl = []"
      "gasmix_changes pl = []" "\<not> air \<longrightarrow> pl = []"
      using walk_airs_tail[of crc parser base marker air mix ?w4] unfolding w' by blast
    have e4: "w_events ?w4 = w_events ?w3" by simp
    have ev: "\<exists>rest.
              w_events w' =
                w_events w @ ?tdt
                  @ (if 0 < ngasmixes parser \<and> mix \<noteq> w_gasmix_previous w
                     then [DC_SAMPLE_GASMIX mix] else [])
                  @ rest \<and>
              sample_times rest = [] \<and> gasmix_changes rest = [] \<and>
              (model parser \<noteq> GENIUS \<and> \<not> air \<longrightarrow> rest = [])"
      by (rule exI[of _ "dl @ pl"]) (simp add: pl e4 dl emit_gasmix_events(1))
    have pv: "w_gasmix_previous w' = (if 0 < ngasmixes parser then mix else w_gasmix_previous w)"
    proof (cases "0 < ngasmixes parser")
      case True
      then show ?thesis
        unfolding w' by (simp add: walk_airs_events(3) emit_gasmix_events(2))
    next
      case False
      then have "ngasmixes parser = 0" by (simp add: word_gt_0)
      then show ?thesis
        unfolding w' by (simp add: walk_airs_events(3) emit_gasmix_events(3))
    qed
    have rcv: "rc = (if model parser = GENIUS \<and> air \<and> (w_nsamples w + 1) mod 4 = 0 \<and>
                    \<not> mares_genius_isvalid crc (base_data parser)
                         (base + unat (w_offset w + samplesize parser))
                         (unat AIRS_SIZE) AIRS_TYPE
                 then Some DC_STATUS_DATAFORMAT else None)"
      unfolding rc walk_airs_rc by simp
    from ev pv rcv show ?thesis by blast
  qed
  have first: "mix \<noteq> w_gasmix_previous walk_init"
    if "0 < ngasmixes parser \<and> mix < ngasmixes parser"
    using less_not_max[of mix "ngasmixes parser"] that by (simp add: walk_init_def)
  from invalid bad good first
  show "(model parser = GENIUS \<and> \<not> ?valid \<longrightarrow>
        rc = Some DC_STATUS_DATAFORMAT \<and> w' = w) \<and>
     ((model parser = GENIUS \<longrightarrow> ?valid) \<longrightarrow>
        (0 < ngasmixes parser \<and> ngasmixes parser \<le> mix \<longrightarrow>
           rc = Some DC_STATUS_DATAFORMAT \<and>
           w_events w' = w_events w @ ?tdt \<and>
           (w_nsamples w < nsamples parser \<and> model parser \<noteq> SMARTAPNEA \<and>
            (model parser = GENIUS \<or> mode parser \<noteq> ICONHD_FREEDIVE) \<longrightarrow>
              walk_loop crc parser base marker air w = (Some DC_STATUS_DATAFORMAT, w'))) \<and>
        (ngasmixes parser = 0 \<or> mix < ngasmixes parser \<longrightarrow>
           (\<exists>rest.
              w_events w' =
                w_events w @ ?tdt
                  @ (if 0 < ngasmixes parser \<and> mix \<noteq> w_gasmix_previous w
                     then [DC_SAMPLE_GASMIX mix] else [])
                  @ rest \<and>
              sample_times rest = [] \<and> gasmix_changes rest = [] \<and>
              (model parser \<noteq> GENIUS \<and> \<not> air \<longrightarrow> rest = [])) \<and>
           w_gasmix_previous w' = (if 0 < ngasmixes parser then mix else w_gasmix_previous w) \<and>
           rc = (if model parser = GENIUS \<and> air \<and> (w_nsamples w + 1) mod 4 = 0 \<and>
                    \<not> mares_genius_isvalid crc (base_data parser)
                         (base + unat (w_offset w + samplesize parser))
                         (unat AIRS_SIZE) AIRS_TYPE
                 then Some DC_STATUS_DATAFORMAT else None)) \<and>
        (0 < ngasmixes parser \<and> mix < ngasmixes parser \<longrightarrow>
           mix \<noteq> w_gasmix_previous walk_init))"
    by (intro conjI impI) blast+
qed

theorem C4_gasmix_index_witness:
  "sample_fields iconhd_badmix_cached (0 + unat (w_offset walk_init)) 0 = (100, 200, 0, 0, 1) \<and>
   0 < ngasmixes iconhd_badmix_cached \<and> ngasmixes iconhd_badmix_cached \<le> 1 \<and>
   w_nsamples walk_init < nsamples iconhd_badmix_cached \<and>
   walk_loop checksum_crc16_ccitt iconhd_badmix_cached 0 0 False walk_init =
     (Some DC_STATUS_DATAFORMAT,
      snd (walk_sample checksum_crc16_ccitt iconhd_badmix_cached 0 0 False walk_init)) \<and>
   w_events (snd (walk_sample checksum_crc16_ccitt iconhd_badmix_cached 0 0 False walk_init)) =
     [DC_SAMPLE_TIME 1, DC_SAMPLE_DEPTH 10, DC_SAMPLE_TEMPERATURE 20] \<and>
   sample_fields iconhd_gauge_cached (0 + unat (w_offset walk_init)) 0 = (100, 200, 0, 0, 0) \<and>
   ngasmixes iconhd_gauge_cached = 0 \<and>
   fst (walk_sample checksum_crc16_ccitt iconhd_gauge_cached 0 0 False walk_init) = None \<and>
   w_events (snd (walk_sample checksum_crc16_ccitt iconhd_gauge_cached 0 0 False walk_init)) =
     [DC_SAMPLE_TIME 1, DC_SAMPLE_DEPTH 10, DC_SAMPLE_TEMPERATURE 20] \<and>
   sample_fields (genius_dive_cached genius_dive_parser)
     (184 + unat (w_offset (walk_init\<lparr>w_offset := 200\<rparr>))) 4 = (100, 200, 0, 0, 0) \<and>
   0 < ngasmixes (genius_dive_cached genius_dive_parser) \<and>
   fst (walk_sample checksum_crc16_ccitt (genius_dive_cached genius_dive_parser)
        184 4 True (walk_init\<lparr>w_offset := 200\<rparr>)) = None \<and>
   take 4 (w_events (snd (walk_sample checksum_crc16_ccitt (genius_dive_cached genius_dive_parser)
        184 4 True (walk_init\<lparr>w_offset := 200\<rparr>)))) =
     [DC_SAMPLE_TIME 5, DC_SAMPLE_DEPTH 10, DC_SAMPLE_TEMPERATURE 20, DC_SAMPLE_GASMIX 0] \<and>
   gasmix_changes
     (w_events (snd (walk_sample checksum_crc16_ccitt (genius_dive_cached genius_dive_parser)
        184 4 True (walk_init\<lparr>w_offset := 200\<rparr>)))) = [0]"
proof -
  have b: "sample_fields iconhd_badmix_cached (0 + unat (w_offset walk_init)) 0 = (100, 200, 0, 0, 1)"
    "0 < ngasmixes iconhd_badmix_cached" "ngasmixes iconhd_badmix_cached \<le> 1"
    "w_nsamples walk_init < nsamples iconhd_badmix_cached"
    "model iconhd_badmix_cached \<noteq> GENIUS" "model iconhd_badmix_cached \<noteq> SMARTAPNEA"
    "mode iconhd_badmix_cached \<noteq> ICONHD_FREEDIVE"
    "interval iconhd_badmix_cached = 1" "w_time walk_init = 0" "w_events walk_init = []"
    by (simp_all add: iconhd_badmix_cached_fields iconhd_badmix_buffer_def walk_init_def
        sample_fields_def read_defs model_defs mode_defs Let_def)
  have g: "sample_fields iconhd_gauge_cached (0 + unat (w_offset walk_init)) 0 = (100, 200, 0, 0, 0)"
    "ngasmixes iconhd_gauge_cached = 0" "model iconhd_gauge_cached \<noteq> GENIUS"
    "interval iconhd_gauge_cached = 1"
    by (simp_all add: iconhd_gauge_cached_fields iconhd_gauge_buffer_def walk_init_def
        sample_fields_def read_defs model_defs mode_defs Let_def)
  have d: "sample_fields (genius_dive_cached genius_dive_parser)
     (184 + unat (w_offset (walk_init\<lparr>w_offset := 200\<rparr>))) 4 = (100, 200, 0, 0, 0)"
    "0 < ngasmixes (genius_dive_cached genius_dive_parser)"
    "0 < ngasmixes (genius_dive_cached genius_dive_parser)"
    "mares_genius_isvalid checksum_crc16_ccitt (base_data (genius_dive_cached genius_dive_parser))
       (184 + unat (w_offset (walk_init\<lparr>w_offset := 200\<rparr>))) (unat DPRS_SIZE) DPRS_TYPE"
    "w_gasmix_previous (walk_init\<lparr>w_offset := 200\<rparr>) = 0xFFFFFFFF"
    "w_events (walk_init\<lparr>w_offset := 200\<rparr>) = []"
    "w_nsamples (walk_init\<lparr>w_offset := 200\<rparr>) = 0"
    "w_time (walk_init\<lparr>w_offset := 200\<rparr>) = 0"
    "model (genius_dive_cached genius_dive_parser) = GENIUS"
    "interval (genius_dive_cached genius_dive_parser) = 5"
    by (simp_all add: genius_dive_cached_fields genius_dive_buffer_def walk_init_def
        sample_fields_def append_reads genius_piece_facts model_defs record_size_defs Let_def)
  from C4_gasmix_index[where parser = iconhd_badmix_cached and crc = checksum_crc16_ccitt
      and base = 0 and marker = 0 and air = False and w = walk_init
      and depth = 100 and temperature = 200 and alarms = 0 and misc = 0 and mix = 1
      and rc = "fst (walk_sample checksum_crc16_ccitt iconhd_badmix_cached 0 0 False walk_init)"
      and w' = "snd (walk_sample checksum_crc16_ccitt iconhd_badmix_cached 0 0 False walk_init)"]
    b
  have 1: "walk_loop checksum_crc16_ccitt iconhd_badmix_cached 0 0 False walk_init =
     (Some DC_STATUS_DATAFORMAT,
      snd (walk_sample checksum_crc16_ccitt iconhd_badmix_cached 0 0 False walk_init)) \<and>
   w_events (snd (walk_sample checksum_crc16_ccitt iconhd_badmix_cached 0 0 False walk_init)) =
     [DC_SAMPLE_TIME 1, DC_SAMPLE_DEPTH 10, DC_SAMPLE_TEMPERATURE 20]"
    by simp
  from C4_gasmix_index[where parser = iconhd_gauge_cached and crc = checksum_crc16_ccitt
      and base = 0 and marker = 0 and air = False and w = walk_init
      and depth = 100 and temperature = 200 and alarms = 0 and misc = 0 and mix = 0
      and rc = "fst (walk_sample checksum_crc16_ccitt iconhd_gauge_cached 0 0 False walk_init)"
      and w' = "snd (walk_sample checksum_crc16_ccitt iconhd_gauge_cached 0 0 False walk_init)"]
    g b(9,10)
  have 2: "fst (walk_sample checksum_crc16_ccitt iconhd_gauge_cached 0 0 False walk_init) = None \<and>
   w_events (snd (walk_sample checksum_crc16_ccitt iconhd_gauge_cached 0 0 False walk_init)) =
     [DC_SAMPLE_TIME 1, DC_SAMPLE_DEPTH 10, DC_SAMPLE_TEMPERATURE 20]"
    by simp
  from C4_gasmix_index[where parser = "genius_dive_cached genius_dive_parser"
      and crc = checksum_crc16_ccitt
      and base = 184 and marker = 4 and air = True and w = "walk_init\<lparr>w_offset := 200\<rparr>"
      and depth = 100 and temperature = 200 and alarms = 0 and misc = 0 and mix = 0
      and rc = "fst (walk_sample checksum_crc16_ccitt (genius_dive_cached genius_dive_parser)
        184 4 True (walk_init\<lparr>w_offset := 200\<rparr>))"
      and w' = "snd (walk_sample checksum_crc16_ccitt (genius_dive_cached genius_dive_parser)
        184 4 True (walk_init\<lparr>w_offset := 200\<rparr>))"]
    d
  have 3: "fst (walk_sample checksum_crc16_ccitt (genius_dive_cached genius_dive_parser)
        184 4 True (walk_init\<lparr>w_offset := 200\<rparr>)) = None \<and>
   take 4 (w_events (snd (walk_sample checksum_crc16_ccitt (genius_dive_cached genius_dive_parser)
        184 4 True (walk_init\<lparr>w_offset := 200\<rparr>)))) =
     [DC_SAMPLE_TIME 5, DC_SAMPLE_DEPTH 10, DC_SAMPLE_TEMPERATURE 20, DC_SAMPLE_GASMIX 0] \<and>
   gasmix_changes
     (w_events (snd (walk_sample checksum_crc16_ccitt (genius_dive_cached genius_dive_parser)
        184 4 True (walk_init\<lparr>w_offset := 200\<rparr>)))) = [0]"
    by auto
  from 1 2 3 b g d show ?thesis by simp
qed

theorem C4_gasmix_index_counterexample:
  "mares_iconhd_parser_cache iconhd_gauge_parser = Inr iconhd_gauge_cached \<and>
   ngasmixes iconhd_gauge_cached = 0 \<and>
   sample_fields iconhd_gauge_cached 4 0 = (100, 200, 0, 0, 0) \<and>
   mares_iconhd_parser_samples_foreach checksum_crc16_ccitt iconhd_gauge_parser =
     (Inr (),
      [DC_SAMPLE_TIME 1, DC_SAMPLE_DEPTH 10, DC_SAMPLE_TEMPERATURE 20],
      iconhd_gauge_cached) \<and>
   mares_iconhd_parser_cache iconhd_badmix_parser = Inr iconhd_badmix_cached \<and>
   ngasmixes iconhd_badmix_cached = 1 \<and>
   sample_fields iconhd_badmix_cached 4 0 = (100, 200, 0, 0, 1) \<and>
   mares_iconhd_parser_samples_foreach checksum_crc16_ccitt iconhd_badmix_parser =
     (Inl DC_STATUS_DATAFORMAT,
      [DC_SAMPLE_TIME 1, DC_SAMPLE_DEPTH 10, DC_SAMPLE_TEMPERATURE 20],
      iconhd_badmix_cached)"
proof -
  have g: "ngasmixes iconhd_gauge_cached = 0"
    "sample_fields iconhd_gauge_cached 4 0 = (100, 200, 0, 0, 0)"
    by (simp_all add: iconhd_gauge_cached_fields iconhd_gauge_buffer_def
        sample_fields_def read_defs model_defs Let_def)
  have gw: "mares_iconhd_parser_samples_foreach checksum_crc16_ccitt iconhd_gauge_parser =
     (Inr (),
      [DC_SAMPLE_TIME 1, DC_SAMPLE_DEPTH 10, DC_SAMPLE_TEMPERATURE 20],
      iconhd_gauge_cached)"
    by (simp add: mares_iconhd_parser_samples_foreach_def iconhd_gauge_cache
        iconhd_gauge_cached_fields iconhd_gauge_buffer_def
        walk_loop.simps walk_defs read_defs model_defs mode_defs Let_def
        word_le_nat_alt word_less_nat_alt)
  have b: "ngasmixes iconhd_badmix_cached = 1"
    "sample_fields iconhd_badmix_cached 4 0 = (100, 200, 0, 0, 1)"
    by (simp_all add: iconhd_badmix_cached_fields iconhd_badmix_buffer_def
        sample_fields_def read_defs model_defs Let_def)
  have bw: "mares_iconhd_parser_samples_foreach checksum_crc16_ccitt iconhd_badmix_parser =
     (Inl DC_STATUS_DATAFORMAT,
      [DC_SAMPLE_TIME 1, DC_SAMPLE_DEPTH 10, DC_SAMPLE_TEMPERATURE 20],
      iconhd_badmix_cached)"
    by (simp add: mares_iconhd_parser_samples_foreach_def iconhd_badmix_cache
        iconhd_badmix_cached_fields iconhd_badmix_buffer_def
        walk_loop.simps walk_defs read_defs model_defs mode_defs Let_def
        word_le_nat_alt word_less_nat_alt)
  from g gw b bw iconhd_gauge_cache iconhd_badmix_cache show ?thesis by simp
qed

text \<open>
  C8. For the GENIUS variant every successful header caching sets the sample interval to
  5 seconds and the sample rate to 1, whatever the buffer holds. The DiveTime field is
  then the number of samples times 5 (the product does not wrap), and the Time events of
  the sample walk are 5, 10, 15, ...: one for each record that reaches its Time event,
  each 5 seconds after the one before, and one for every sample when the walk succeeds.
\<close>

theorem C8_genius_interval:
  "cached parser = 0 \<and> model parser = GENIUS \<and>
   mares_iconhd_parser_cache parser = Inr parser' \<longrightarrow>
     interval parser' = 5 \<and> samplerate parser' = 1 \<and>
     mares_iconhd_parser_get_field parser DC_FIELD_DIVETIME flags True
       = (Inr (Some (UInt (nsamples parser' * 5))), parser') \<and>
     unat (nsamples parser' * 5) = unat (nsamples parser') * 5 \<and>
     (\<exists>m \<le> unat (nsamples parser').
        sample_times (fst (snd (mares_iconhd_parser_samples_foreach crc parser))) = time_steps m \<and>
        (fst (mares_iconhd_parser_samples_foreach crc parser) = Inr () \<longrightarrow>
           m = unat (nsamples parser')))"
proof (intro impI, elim conjE)
  assume c: "cached parser = 0" and m: "model parser = GENIUS"
    and ok: "mares_iconhd_parser_cache parser = Inr parser'"
  from c m ok have ok': "mares_genius_cache parser = Inr parser'"
    by (simp add: mares_iconhd_parser_cache_def)
  note f = genius_cache_Inr[OF ok']
  have i: "interval parser' = 5" and sr: "samplerate parser' = 1"
    and m': "model parser' = GENIUS"
    and ns: "nsamples parser' = u16 (base_data parser) 0x20"
    using m by (simp_all add: f(7))
  have nb: "unat (nsamples parser') < 65536"
    by (simp add: ns u16_bound)
  have dt: "mares_iconhd_parser_get_field parser DC_FIELD_DIVETIME flags True
       = (Inr (Some (UInt (nsamples parser' * 5))), parser')"
    using ok m' i
    by (simp add: mares_iconhd_parser_get_field_def get_field_switch_def Let_def)
  have mul: "unat (nsamples parser' * 5) = unat (nsamples parser') * 5"
    using unat_lin[of "nsamples parser'" 0 5] nb by simp
  let ?air = "model parser' = ICONHDNET \<or> model parser' = QUADAIR \<or> model parser' = SMARTAIR
                 \<or> model parser' = GENIUS"
  let ?w0 = "walk_init\<lparr>w_offset := 4 + DSTR_SIZE + TISS_SIZE\<rparr>"
  obtain rc w where wl: "walk_loop crc parser' (unat (headersize parser')) 4 ?air ?w0 = (rc, w)"
    by fastforce
  have init: "sample_times (w_events ?w0) = time_steps (unat (w_nsamples ?w0))"
    "w_time ?w0 = 5 * of_nat (unat (w_nsamples ?w0))" "w_nsamples ?w0 \<le> nsamples parser'"
    by (simp_all add: walk_init_def time_steps_def)
  from genius_walk_loop_times[OF m' i wl init]
  obtain k where k: "k \<le> unat (nsamples parser')" "sample_times (w_events w) = time_steps k"
    "rc = None \<longrightarrow> k = unat (nsamples parser')"
    by blast
  have t0: "time_steps 0 = []" by (simp add: time_steps_def)
  have "\<exists>m \<le> unat (nsamples parser').
        sample_times (fst (snd (mares_iconhd_parser_samples_foreach crc parser))) = time_steps m \<and>
        (fst (mares_iconhd_parser_samples_foreach crc parser) = Inr () \<longrightarrow>
           m = unat (nsamples parser'))"
  proof (cases "fst (snd (mares_iconhd_parser_samples_foreach crc parser)) = []
                \<and> fst (mares_iconhd_parser_samples_foreach crc parser) \<noteq> Inr ()")
    case True
    then show ?thesis using t0 by (intro exI[of _ 0]) simp
  next
    case False
    then have "fst (snd (mares_iconhd_parser_samples_foreach crc parser)) = w_events w \<and>
        (fst (mares_iconhd_parser_samples_foreach crc parser) = Inr () \<longrightarrow> rc = None)"
      using ok m' wl
      by (auto simp: mares_iconhd_parser_samples_foreach_def Let_def
          split: if_splits option.splits)
    with k show ?thesis by (intro exI[of _ k]) simp
  qed
  with i sr dt mul
  show "interval parser' = 5 \<and> samplerate parser' = 1 \<and>
     mares_iconhd_parser_get_field parser DC_FIELD_DIVETIME flags True
       = (Inr (Some (UInt (nsamples parser' * 5))), parser') \<and>
     unat (nsamples parser' * 5) = unat (nsamples parser') * 5 \<and>
     (\<exists>m \<le> unat (nsamples parser').
        sample_times (fst (snd (mares_iconhd_parser_samples_foreach crc parser))) = time_steps m \<and>
        (fst (mares_iconhd_parser_samples_foreach crc parser) = Inr () \<longrightarrow>
           m = unat (nsamples parser')))"
    by simp
qed

theorem C8_genius_interval_witness:
  "cached genius_dive_parser = 0 \<and> model genius_dive_parser = GENIUS \<and>
   mares_iconhd_parser_cache genius_dive_parser = Inr (genius_dive_cached genius_dive_parser) \<and>
   settings (genius_dive_cached genius_dive_parser) = 2 \<and>
   interval (genius_dive_cached genius_dive_parser) = 5 \<and>
   samplerate (genius_dive_cached genius_dive_parser) = 1 \<and>
   mares_iconhd_parser_get_field genius_dive_parser DC_FIELD_DIVETIME 0 True
     = (Inr (Some (UInt 20)), genius_dive_cached genius_dive_parser) \<and>
   fst (mares_iconhd_parser_samples_foreach checksum_crc16_ccitt genius_dive_parser) = Inr () \<and>
   sample_times (fst (snd (mares_iconhd_parser_samples_foreach checksum_crc16_ccitt
      genius_dive_parser))) = time_steps 4 \<and>
   time_steps 4 = [5, 10, 15, 20]"
proof -
  have h: "cached genius_dive_parser = 0" "model genius_dive_parser = GENIUS"
    "settings (genius_dive_cached genius_dive_parser) = 2"
    "nsamples (genius_dive_cached genius_dive_parser) = 4"
    by (simp_all add: genius_dive_parser_def genius_dive_cached_def parser_init_defs)
  have ts: "time_steps 4 = [5, 10, 15, 20]"
    by (simp add: time_steps_def upt_rec)
  have fe: "fst (mares_iconhd_parser_samples_foreach checksum_crc16_ccitt genius_dive_parser)
      = Inr ()"
    by (simp add: genius_dive_foreach)
  from C8_genius_interval[of genius_dive_parser "genius_dive_cached genius_dive_parser" 0
      checksum_crc16_ccitt] h genius_dive_cache fe
  have "interval (genius_dive_cached genius_dive_parser) = 5 \<and>
   samplerate (genius_dive_cached genius_dive_parser) = 1 \<and>
   mares_iconhd_parser_get_field genius_dive_parser DC_FIELD_DIVETIME 0 True
     = (Inr (Some (UInt 20)), genius_dive_cached genius_dive_parser) \<and>
   sample_times (fst (snd (mares_iconhd_parser_samples_foreach checksum_crc16_ccitt
      genius_dive_parser))) = time_steps 4"
    by auto
  with h ts fe genius_dive_cache show ?thesis by simp
qed

text \<open>
  C7. Take a GENIUS buffer for which the header cache succeeds (so the declared size
  covers the DEND record), whose profile tag, DSTR and TISS records pass and whose sample
  loop ends without a failure, but whose bytes at the DEND position, right after the last
  sample, do not validate as a DEND record. Then the sample walk fails with a data format
  error after it has delivered the events of every sample, in order: there is one Time
  event per sample, 5, 10, 15, ... The delivered events do not depend on the DEND record:
  every buffer with the same bytes before the DEND position delivers the same events, and
  succeeds exactly when its DEND record validates.
\<close>

theorem C7_dend_failure:
  "cached parser = 0 \<and> model parser = GENIUS \<and>
   mares_iconhd_parser_cache parser = Inr parser' \<and>
   genius_prelude_ok crc parser' \<and>
   walk_loop crc parser' (unat (headersize parser')) 4 True
     (walk_init\<lparr>w_offset := 4 + DSTR_SIZE + TISS_SIZE\<rparr>) = (None, w) \<and>
   \<not> mares_genius_isvalid crc (base_data parser) (genius_dend_index parser')
        (unat DEND_SIZE) DEND_TYPE \<longrightarrow>
     mares_iconhd_parser_samples_foreach crc parser
       = (Inl DC_STATUS_DATAFORMAT, w_events w, parser') \<and>
     w_nsamples w = nsamples parser' \<and>
     sample_times (w_events w) = time_steps (unat (nsamples parser')) \<and>
     (\<forall>d. take (genius_dend_index parser') d
             = take (genius_dend_index parser') (base_data parser) \<longrightarrow>
          mares_iconhd_parser_samples_foreach crc (parser\<lparr>base_data := d\<rparr>)
            = (if mares_genius_isvalid crc d (genius_dend_index parser') (unat DEND_SIZE) DEND_TYPE
               then Inr () else Inl DC_STATUS_DATAFORMAT,
               w_events w, parser'\<lparr>base_data := d\<rparr>))"
proof (intro impI, elim conjE)
  let ?w0 = "walk_init\<lparr>w_offset := 4 + DSTR_SIZE + TISS_SIZE\<rparr>"
  let ?K = "genius_dend_index parser'"
  assume c: "cached parser = 0" and m: "model parser = GENIUS"
    and ok: "mares_iconhd_parser_cache parser = Inr parser'"
    and pre: "genius_prelude_ok crc parser'"
    and wl: "walk_loop crc parser' (unat (headersize parser')) 4 True ?w0 = (None, w)"
    and bad: "\<not> mares_genius_isvalid crc (base_data parser) ?K (unat DEND_SIZE) DEND_TYPE"
  note f = genius_cache_fields[OF c m ok]
  have init: "w_nsamples ?w0 \<le> nsamples parser'"
    "unat (w_offset ?w0) = genius_offset (unat (w_nsamples ?w0))"
    "sample_times (w_events ?w0) = time_steps (unat (w_nsamples ?w0))"
    "w_time ?w0 = 5 * of_nat (unat (w_nsamples ?w0))"
    by (simp_all add: walk_init_def time_steps_def genius_offset_def record_size_defs)
  have K: "unat (headersize parser') + genius_offset (unat (nsamples parser')) \<le> ?K"
    by (simp add: genius_dend_index_def)
  have K0: "0xB8 + genius_offset 0 \<le> ?K"
    using genius_offset_mono[of 0 "unat (nsamples parser')"]
    by (simp add: genius_dend_index_def f(4))
  then have K1: "0xB8 \<le> ?K" by simp
  have loc: "walk_loop crc (parser'\<lparr>base_data := d\<rparr>) (unat (headersize parser')) 4 True ?w0
               = walk_loop crc parser' (unat (headersize parser')) 4 True ?w0"
    and fin: "w_nsamples w = nsamples parser'"
             "unat (w_offset w) = genius_offset (unat (nsamples parser'))"
    if a: "take ?K d = take ?K (base_data parser')" for d
    using genius_walk_loop_agree[OF f(2) f(3) f(6) a K init(1,2), of crc] wl by simp_all
  have self: "take ?K (base_data parser') = take ?K (base_data parser')" ..
  have pos: "unat (headersize parser') + unat (w_offset w) = ?K"
    using fin(2)[OF self] by (simp add: genius_dend_index_def)
  have r1: "mares_iconhd_parser_samples_foreach crc parser
              = (Inl DC_STATUS_DATAFORMAT, w_events w, parser')"
    using genius_foreach_unfold[OF ok f(2) pre wl] bad by (simp add: pos f(7))
  from genius_walk_loop_times[OF f(2) f(5) wl init(3,4,1)]
  have r3: "sample_times (w_events w) = time_steps (unat (nsamples parser'))" by auto
  have r4: "mares_iconhd_parser_samples_foreach crc (parser\<lparr>base_data := d\<rparr>)
            = (if mares_genius_isvalid crc d ?K (unat DEND_SIZE) DEND_TYPE
               then Inr () else Inl DC_STATUS_DATAFORMAT,
               w_events w, parser'\<lparr>base_data := d\<rparr>)"
    if a: "take ?K d = take ?K (base_data parser)" for d
  proof -
    let ?p2 = "parser\<lparr>base_data := d\<rparr>" and ?q2 = "parser'\<lparr>base_data := d\<rparr>"
    from a have a': "take ?K d = take ?K (base_data parser')" by (simp add: f(7))
    have ok2: "mares_iconhd_parser_cache ?p2 = Inr ?q2"
      using genius_cache_agree[OF a K1] c m f(1)
      by (simp add: mares_iconhd_parser_cache_def)
    have pre2: "genius_prelude_ok crc ?q2"
      using genius_prelude_agree[OF a' f(4) K0, of crc] pre by simp
    have wl2: "walk_loop crc ?q2 (unat (headersize ?q2)) 4 True ?w0 = (None, w)"
      using loc[OF a'] wl by simp
    have m2: "model ?q2 = GENIUS" using f(2) by simp
    show ?thesis
      using genius_foreach_unfold[OF ok2 m2 pre2 wl2] by (simp add: pos)
  qed
  from r1 fin(1)[OF self] r3 r4
  show "mares_iconhd_parser_samples_foreach crc parser
       = (Inl DC_STATUS_DATAFORMAT, w_events w, parser') \<and>
     w_nsamples w = nsamples parser' \<and>
     sample_times (w_events w) = time_steps (unat (nsamples parser')) \<and>
     (\<forall>d. take ?K d = take ?K (base_data parser) \<longrightarrow>
          mares_iconhd_parser_samples_foreach crc (parser\<lparr>base_data := d\<rparr>)
            = (if mares_genius_isvalid crc d ?K (unat DEND_SIZE) DEND_TYPE
               then Inr () else Inl DC_STATUS_DATAFORMAT,
               w_events w, parser'\<lparr>base_data := d\<rparr>))"
    by blast
qed

theorem C7_dend_failure_witness:
  "mares_iconhd_parser_samples_foreach checksum_crc16_ccitt genius_flipped_parser
     = (Inl DC_STATUS_DATAFORMAT, genius_dive_events, genius_dive_cached genius_flipped_parser) \<and>
   sample_times genius_dive_events = [5, 10, 15, 20] \<and>
   mares_iconhd_parser_samples_foreach checksum_crc16_ccitt
       (genius_flipped_parser\<lparr>base_data := genius_dive_buffer\<rparr>)
     = (Inr (), genius_dive_events,
        (genius_dive_cached genius_flipped_parser)\<lparr>base_data := genius_dive_buffer\<rparr>)"
proof -
  from genius_flipped_walk obtain w where
    w: "walk_loop checksum_crc16_ccitt (genius_dive_cached genius_flipped_parser)
          (unat (headersize (genius_dive_cached genius_flipped_parser))) 4 True
          (walk_init\<lparr>w_offset := 4 + DSTR_SIZE + TISS_SIZE\<rparr>) = (None, w)"
    and e: "w_events w = genius_dive_events"
    by blast
  have t: "time_steps 4 = [5, 10, 15, 20]"
    by (simp add: time_steps_def upt_rec numeral_eq_Suc)
  show ?thesis
    using C7_dend_failure[of genius_flipped_parser "genius_dive_cached genius_flipped_parser"
        checksum_crc16_ccitt w]
      genius_flipped_cached_fields(3,4,6) genius_flipped_cache genius_flipped_prelude w
      genius_flipped_dend genius_flipped_agree genius_dive_dend
    by (simp add: e t)
qed

theorem C7_dend_failure_counterexample:
  "genius_dive_buffer = genius_truncated_buffer @ genius_dend \<and>
   u16 genius_truncated_buffer 0x20 = 4 \<and>
   mares_genius_isvalid checksum_crc16_ccitt genius_truncated_buffer 188 58 DSTR_TYPE \<and>
   mares_genius_isvalid checksum_crc16_ccitt genius_truncated_buffer 246 138 TISS_TYPE \<and>
   mares_genius_isvalid checksum_crc16_ccitt genius_truncated_buffer 384 34 DPRS_TYPE \<and>
   mares_genius_isvalid checksum_crc16_ccitt genius_truncated_buffer 418 34 DPRS_TYPE \<and>
   mares_genius_isvalid checksum_crc16_ccitt genius_truncated_buffer 452 34 DPRS_TYPE \<and>
   mares_genius_isvalid checksum_crc16_ccitt genius_truncated_buffer 486 34 DPRS_TYPE \<and>
   mares_genius_isvalid checksum_crc16_ccitt genius_truncated_buffer 520 16 AIRS_TYPE \<and>
   length genius_truncated_buffer = 536 \<and>
   mares_iconhd_parser_samples_foreach checksum_crc16_ccitt genius_truncated_parser
     = (Inl DC_STATUS_DATAFORMAT, [], genius_truncated_parser)"
  by (simp add: genius_truncated_valid genius_truncated_foreach genius_truncated_length
      genius_truncated_header)

end
